theory Spec2Isabelle
  imports Complex_Main
begin

section \<open>The Perceiver resampler of \<^verbatim>\<open>perceiver_transformer.py\<close>\<close>

text \<open>
  The development follows \<^verbatim>\<open>megatron_patch/model/idefics2/perceiver_transformer.py\<close>
  class by class. Every \<^verbatim>\<open>raise\<close>, failed \<^verbatim>\<open>assert\<close> and failing library call of
  the source is a value \<open>Inl e\<close> of the result type \<open>error + 'a\<close>.
\<close>

datatype error =
    ValueError
  | AssertionError
  | RuntimeError
  | UnboundLocalError
  | TypeError
  | IndexError
  | NameError
  | AttributeError
  | ZeroDivisionError
  | NotImplementedError
  | PlainException

subsection \<open>DropPath\<close>

text \<open>
  A tensor with its values: the shape and the elements in row-major order. Floating
  point numbers are idealised as reals (so a division by \<open>keep_prob = 0\<close>, which gives
  an infinity or a NaN in the source, is \<open>0\<close> here); only the second branch of
  \<^verbatim>\<open>DropPath.forward\<close> computes with them.
\<close>

record tensor =
  shape :: "nat list"
  data :: "real list"

text \<open>
  \<^verbatim>\<open>DropPath.forward\<close> (lines 102-113). \<open>rand j\<close> is the sample that
  \<^verbatim>\<open>torch.rand\<close> draws for batch index \<open>j\<close>: the random tensor has shape
  \<open>(1, b, 1, ..., 1)\<close> and broadcasts over the sequence and the feature dimensions.
  \<^verbatim>\<open>hidden_state.shape[1]\<close> raises on a tensor of fewer than two dimensions.
\<close>

definition DropPath_forward ::
  "real \<Rightarrow> bool \<Rightarrow> (nat \<Rightarrow> real) \<Rightarrow> tensor \<Rightarrow> error + tensor" where
  "DropPath_forward drop_prob training rand hidden_state =
     (if drop_prob = 0 \<or> \<not> training then Inr hidden_state
      else
        (let keep_prob = 1 - drop_prob in
          (case shape hidden_state of
             s # b # rest \<Rightarrow>
               (let inner = prod_list rest;
                    random_tensor = (\<lambda>j. of_int \<lfloor>keep_prob + rand j\<rfloor>)
                in Inr (hidden_state\<lparr>data :=
                     map (\<lambda>(i, x). x / keep_prob * random_tensor ((i div inner) mod b))
                       (enumerate 0 (data hidden_state))\<rparr>))
           | _ \<Rightarrow> Inl IndexError)))"

subsection \<open>Shapes and library primitives\<close>

text \<open>
  Apart from \<^verbatim>\<open>DropPath\<close> the claims are about shapes and control flow, so the other
  classes are modelled on the shapes of their tensors. The primitives below are those
  of the libraries the file calls (torch, megatron.core), at that level; memory layout
  (strides, contiguity) is not modelled.
\<close>

type_synonym tshape = "nat list"

definition ebind :: "error + 'a \<Rightarrow> ('a \<Rightarrow> error + 'b) \<Rightarrow> error + 'b" where
  "ebind m f = (case m of Inl e \<Rightarrow> Inl e | Inr x \<Rightarrow> f x)"

text \<open>\<^verbatim>\<open>core.utils.divide\<close>: asserts divisibility, then \<^verbatim>\<open>numerator // denominator\<close>.\<close>

definition utils_divide :: "nat \<Rightarrow> nat \<Rightarrow> error + nat" where
  "utils_divide numerator denominator =
     (if denominator = 0 then Inl ZeroDivisionError
      else if numerator mod denominator \<noteq> 0 then Inl AssertionError
      else Inr (numerator div denominator))"

text \<open>
  \<^verbatim>\<open>Tensor.view\<close> and \<^verbatim>\<open>Tensor.reshape\<close>: the requested sizes, \<open>None\<close> for \<^verbatim>\<open>-1\<close>.
  One size at most is inferred, and only when the known sizes have a non-zero product
  that divides the number of elements.
\<close>

definition view :: "tshape \<Rightarrow> nat option list \<Rightarrow> error + tshape" where
  "view t sizes =
     (let known = prod_list (map (\<lambda>d. case d of None \<Rightarrow> 1 | Some n \<Rightarrow> n) sizes);
          inferred = length (filter (\<lambda>d. d = None) sizes)
      in if inferred = 0 then
           (if known = prod_list t then Inr (map (\<lambda>d. case d of None \<Rightarrow> 0 | Some n \<Rightarrow> n) sizes)
            else Inl RuntimeError)
         else if inferred = 1 then
           (if known = 0 \<or> prod_list t mod known \<noteq> 0 then Inl RuntimeError
            else Inr (map (\<lambda>d. case d of None \<Rightarrow> prod_list t div known | Some n \<Rightarrow> n) sizes))
         else Inl RuntimeError)"

text \<open>\<^verbatim>\<open>Tensor.size(i)\<close> for \<open>i \<ge> 0\<close>: an \<^verbatim>\<open>IndexError\<close> out of range.\<close>

definition size_at :: "tshape \<Rightarrow> nat \<Rightarrow> error + nat" where
  "size_at t i = (if i < length t then Inr (t ! i) else Inl IndexError)"

text \<open>
  Broadcasting of two shapes, aligned at the last dimension: sizes agree or one of
  them is 1. \<open>broadcast_rev\<close> works on the reversed shapes.
\<close>

fun broadcast_rev :: "tshape \<Rightarrow> tshape \<Rightarrow> error + tshape" where
  "broadcast_rev [] ys = Inr ys"
| "broadcast_rev xs [] = Inr xs"
| "broadcast_rev (x # xs) (y # ys) =
     (if x = y \<or> y = 1 then ebind (broadcast_rev xs ys) (\<lambda>r. Inr (x # r))
      else if x = 1 then ebind (broadcast_rev xs ys) (\<lambda>r. Inr (y # r))
      else Inl RuntimeError)"

definition broadcast :: "tshape \<Rightarrow> tshape \<Rightarrow> error + tshape" where
  "broadcast a b = ebind (broadcast_rev (rev a) (rev b)) (\<lambda>r. Inr (rev r))"

text \<open>
  \<^verbatim>\<open>a.expand_as(b)\<close>: \<open>a\<close> has at most the rank of \<open>b\<close> and each of its sizes, aligned
  at the last dimension, is the size of \<open>b\<close> or 1. The result has the shape of \<open>b\<close>.
\<close>

definition expand_as :: "tshape \<Rightarrow> tshape \<Rightarrow> error + tshape" where
  "expand_as a b =
     (if length a \<le> length b \<and> list_all (\<lambda>(x, y). x = y \<or> x = 1) (zip (rev a) (rev b))
      then Inr b else Inl RuntimeError)"

text \<open>
  \<^verbatim>\<open>tensor_parallel.ColumnParallelLinear\<close> (with \<^verbatim>\<open>gather_output=False\<close>) and
  \<^verbatim>\<open>tensor_parallel.RowParallelLinear\<close> (with \<^verbatim>\<open>input_is_parallel=True\<close>) on one
  rank: the local weight maps a last dimension \<open>pl_in\<close> to a last dimension \<open>pl_out\<close>.
  The column-parallel layer splits the output width over the tensor-parallel world, the
  row-parallel layer the input width. \<open>forward\<close> returns the output and, with
  \<^verbatim>\<open>skip_bias_add\<close>, the bias that was not added.
\<close>

record parallel_linear =
  pl_in :: nat
  pl_out :: nat
  pl_bias :: bool
  pl_skip_bias_add :: bool

definition ColumnParallelLinear_init ::
  "nat \<Rightarrow> nat \<Rightarrow> bool \<Rightarrow> bool \<Rightarrow> nat \<Rightarrow> error + parallel_linear" where
  "ColumnParallelLinear_init input_size output_size bias skip_bias_add world_size =
     ebind (utils_divide output_size world_size) (\<lambda>output_size_per_partition.
       Inr \<lparr>pl_in = input_size, pl_out = output_size_per_partition,
            pl_bias = bias, pl_skip_bias_add = skip_bias_add\<rparr>)"

definition RowParallelLinear_init ::
  "nat \<Rightarrow> nat \<Rightarrow> bool \<Rightarrow> bool \<Rightarrow> nat \<Rightarrow> error + parallel_linear" where
  "RowParallelLinear_init input_size output_size bias skip_bias_add world_size =
     ebind (utils_divide input_size world_size) (\<lambda>input_size_per_partition.
       Inr \<lparr>pl_in = input_size_per_partition, pl_out = output_size,
            pl_bias = bias, pl_skip_bias_add = skip_bias_add\<rparr>)"

definition parallel_linear_forward ::
  "parallel_linear \<Rightarrow> tshape \<Rightarrow> error + (tshape \<times> tshape option)" where
  "parallel_linear_forward l x =
     (if x = [] \<or> last x \<noteq> pl_in l then Inl RuntimeError
      else Inr (butlast x @ [pl_out l],
                if pl_bias l \<and> pl_skip_bias_add l then Some [pl_out l] else None))"

text \<open>
  \<^verbatim>\<open>get_norm(config)\<close>: a normalisation over the last dimension, of size
  \<^verbatim>\<open>config.hidden_size\<close>; the shape is kept.
\<close>

definition norm_forward :: "nat \<Rightarrow> tshape \<Rightarrow> error + tshape" where
  "norm_forward hidden_size x =
     (if x = [] \<or> last x \<noteq> hidden_size then Inl RuntimeError else Inr x)"

subsection \<open>Configuration\<close>

text \<open>
  The fields of \<^verbatim>\<open>config\<close> and of the global \<^verbatim>\<open>args\<close> (\<^verbatim>\<open>get_args()\<close>) that the
  modelled code reads, under the source's names with the prefixes \<open>cfg_\<close> and
  \<open>arg_\<close>. Sizes and counts are natural numbers.
\<close>

datatype dtype = float16 | bfloat16 | float32

record config =
  cfg_add_bias_linear :: bool
  cfg_ffn_hidden_size :: nat
  cfg_gated_linear_unit :: bool
  cfg_input_size :: nat
  cfg_output_size :: nat
  cfg_hidden_size :: nat
  cfg_text_hidden_size :: nat
  cfg_vision_hidden_size :: nat
  cfg_intermediate_size :: nat
  cfg_kv_channels :: nat
  cfg_num_attention_heads :: nat
  cfg_num_layers :: nat
  cfg_n_latents :: nat
  cfg_sequence_parallel :: bool
  cfg_recompute_granularity :: "string option"
  cfg_recompute_method :: "string option"
  cfg_recompute_num_layers :: "nat option"
  cfg_apply_residual_connection_post_layernorm :: bool
  cfg_bias_dropout_fusion :: bool
  cfg_hidden_dropout :: real
  cfg_attention_dropout :: real
  cfg_virtual_pipeline_model_parallel_size :: "nat option"

record args =
  arg_openai_gelu :: bool
  arg_onnx_safe :: bool
  arg_swiglu :: bool
  arg_squared_relu :: bool
  arg_bias_gelu_fusion :: bool
  arg_use_flash_attn :: bool
  arg_group_query_attention :: bool
  arg_num_query_groups :: nat
  arg_add_bias_linear :: bool
  arg_retro_add_retriever :: bool
  arg_transformer_impl :: string
  arg_use_mistral_rotary_position_embeddings :: bool
  arg_num_layers :: nat
  arg_fp8 :: "string option"

subsection \<open>Idefics2ParallelMLP\<close>

datatype activation = openai_gelu | erf_gelu | swiglu | squared_relu | F_gelu

text \<open>
  The local function \<^verbatim>\<open>swiglu\<close> (lines 154-156). \<^verbatim>\<open>torch.chunk(x, 2, dim=-1)\<close> cuts
  a last dimension \<open>w\<close> into pieces of size \<open>\<lceil>w / 2\<rceil>\<close>: two empty pieces for \<open>w = 0\<close>,
  a single piece for \<open>w = 1\<close> (then \<^verbatim>\<open>x[1]\<close> raises), and pieces of sizes
  \<open>\<lceil>w / 2\<rceil>\<close> and \<open>\<lfloor>w / 2\<rfloor>\<close> otherwise, whose product is taken with broadcasting.
  \<^verbatim>\<open>torch.chunk\<close> refuses a tensor without dimensions.
\<close>

definition swiglu_fn :: "tshape \<Rightarrow> error + tshape" where
  "swiglu_fn x =
     (if x = [] then Inl RuntimeError
      else let w = last x in
        if w = 0 then Inr x
        else if w = 1 then Inl IndexError
        else broadcast (butlast x @ [(w + 1) div 2]) (butlast x @ [w - (w + 1) div 2]))"

text \<open>The other activation functions work element by element.\<close>

definition apply_activation :: "activation \<Rightarrow> tshape \<Rightarrow> error + tshape" where
  "apply_activation f x = (if f = swiglu then swiglu_fn x else Inr x)"

record Idefics2ParallelMLP =
  mlp_add_bias :: bool
  mlp_dense_h_to_4h :: parallel_linear
  mlp_bias_gelu_fusion :: bool
  mlp_activation_func :: activation
  mlp_swiglu :: bool
  mlp_dense_4h_to_h :: parallel_linear

text \<open>
  \<^verbatim>\<open>Idefics2ParallelMLP.__init__\<close> (lines 123-176); \<open>world_size\<close> is
  \<^verbatim>\<open>mpu.get_tensor_model_parallel_world_size()\<close>, which the linear layers read.
\<close>

definition Idefics2ParallelMLP_init ::
  "config \<Rightarrow> args \<Rightarrow> nat \<Rightarrow> error + Idefics2ParallelMLP" where
  "Idefics2ParallelMLP_init config args world_size =
     (let add_bias = cfg_add_bias_linear config;
          ffn_hidden_size =
            (if cfg_gated_linear_unit config then cfg_ffn_hidden_size config * 2
             else cfg_ffn_hidden_size config)
      in ebind (ColumnParallelLinear_init (cfg_input_size config) ffn_hidden_size
                  add_bias True world_size) (\<lambda>dense_h_to_4h.
         let activation_func =
               (if arg_openai_gelu args then openai_gelu
                else if arg_onnx_safe args then erf_gelu
                else if arg_swiglu args then swiglu
                else if arg_squared_relu args then squared_relu
                else F_gelu);
             bias_gelu_fusion =
               (if arg_openai_gelu args \<or> arg_onnx_safe args \<or> arg_swiglu args
                   \<or> arg_squared_relu args then False
                else arg_bias_gelu_fusion args)
         in ebind (RowParallelLinear_init (cfg_ffn_hidden_size config) (cfg_output_size config)
                     add_bias True world_size) (\<lambda>dense_4h_to_h.
            Inr \<lparr>mlp_add_bias = add_bias, mlp_dense_h_to_4h = dense_h_to_4h,
                 mlp_bias_gelu_fusion = bias_gelu_fusion,
                 mlp_activation_func = activation_func,
                 mlp_swiglu = arg_swiglu args,
                 mlp_dense_4h_to_h = dense_4h_to_h\<rparr>)))"

text \<open>
  \<^verbatim>\<open>Idefics2ParallelMLP.forward\<close> (lines 178-194). The fused
  \<^verbatim>\<open>bias_gelu_impl\<close> and the addition of the bias keep the shape.
\<close>

definition Idefics2ParallelMLP_forward ::
  "Idefics2ParallelMLP \<Rightarrow> tshape \<Rightarrow> error + (tshape \<times> tshape option)" where
  "Idefics2ParallelMLP_forward self hidden_states =
     ebind (parallel_linear_forward (mlp_dense_h_to_4h self) hidden_states)
       (\<lambda>(intermediate_parallel, bias_parallel).
         ebind
           (if mlp_bias_gelu_fusion self then
              (if \<not> mlp_add_bias self then Inl AssertionError
               else if mlp_activation_func self \<noteq> F_gelu then Inl AssertionError
               else Inr intermediate_parallel)
            else
              ebind (case bias_parallel of
                       None \<Rightarrow> Inr intermediate_parallel
                     | Some b \<Rightarrow> broadcast intermediate_parallel b)
                (apply_activation (mlp_activation_func self)))
           (\<lambda>intermediate_parallel.
              parallel_linear_forward (mlp_dense_4h_to_h self) intermediate_parallel))"

subsection \<open>CoreAttention\<close>

record CoreAttention =
  ca_layer_number :: nat
  ca_sequence_parallel :: bool
  ca_hidden_size_per_partition :: nat
  ca_hidden_size_per_attention_head :: nat
  ca_num_attention_heads_per_partition :: nat

text \<open>\<^verbatim>\<open>CoreAttention.__init__\<close> (lines 198-241), the sizes it derives.\<close>

definition CoreAttention_init :: "nat \<Rightarrow> config \<Rightarrow> nat \<Rightarrow> error + CoreAttention" where
  "CoreAttention_init layer_number config world_size =
     (if cfg_sequence_parallel config then Inl AssertionError
      else
        let projection_size = cfg_kv_channels config * cfg_num_attention_heads config in
        ebind (utils_divide projection_size world_size) (\<lambda>hidden_size_per_partition.
        ebind (utils_divide projection_size (cfg_num_attention_heads config))
          (\<lambda>hidden_size_per_attention_head.
        ebind (utils_divide (cfg_num_attention_heads config) world_size)
          (\<lambda>num_attention_heads_per_partition.
        Inr \<lparr>ca_layer_number = max 1 layer_number,
             ca_sequence_parallel = cfg_sequence_parallel config,
             ca_hidden_size_per_partition = hidden_size_per_partition,
             ca_hidden_size_per_attention_head = hidden_size_per_attention_head,
             ca_num_attention_heads_per_partition = num_attention_heads_per_partition\<rparr>))))"

text \<open>
  \<^verbatim>\<open>CoreAttention.forward\<close> (lines 243-344) in its three parts. The raw attention
  scores (lines 251-276): \<^verbatim>\<open>output_size\<close> is \<open>(b, np, sq, sk)\<close>, the query and the key
  are reshaped to \<open>[sq, b * np, hn]\<close> and \<open>[sk, b * np, hn]\<close>, and
  \<^verbatim>\<open>torch.baddbmm\<close> multiplies \<open>[b * np, sq, hn]\<close> by \<open>[b * np, hn, sk]\<close>, which needs
  the two inferred sizes to agree. The result is \<^verbatim>\<open>output_size\<close>, the shape of
  \<^verbatim>\<open>attention_scores\<close>.
\<close>

definition CoreAttention_scores :: "tshape \<Rightarrow> tshape \<Rightarrow> error + (nat \<times> nat \<times> nat \<times> nat)" where
  "CoreAttention_scores query_layer key_layer =
     ebind (size_at query_layer 1) (\<lambda>b.
     ebind (size_at query_layer 2) (\<lambda>np.
     ebind (size_at query_layer 0) (\<lambda>sq.
     ebind (size_at key_layer 0) (\<lambda>sk.
     ebind (view query_layer [Some sq, Some (b * np), None]) (\<lambda>query_layer.
     ebind (view key_layer [Some sk, Some (b * np), None]) (\<lambda>key_layer.
       if query_layer ! 2 \<noteq> key_layer ! 2 then Inl RuntimeError
       else ebind (view [b * np, sq, sk] [Some b, Some np, Some sq, Some sk])
              (\<lambda>scores. Inr (b, np, sq, sk))))))))"

text \<open>
  The mask (lines 291-299). \<^verbatim>\<open>attn_weights\<close> is assigned only under
  \<^verbatim>\<open>attention_mask is not None\<close>, so the softmax that reads it raises
  \<^verbatim>\<open>UnboundLocalError\<close> for the mask \<open>None\<close>.
\<close>

definition CoreAttention_probs ::
  "(nat \<times> nat \<times> nat \<times> nat) \<Rightarrow> tshape option \<Rightarrow> error + tshape" where
  "CoreAttention_probs output_size attention_mask =
     (case output_size of (b, np, sq, sk) \<Rightarrow>
       (case attention_mask of
          Some mask_size \<Rightarrow>
            if mask_size \<noteq> [b, 1, sq, sk] then Inl ValueError
            else broadcast [b, np, sq, sk] mask_size
        | None \<Rightarrow> Inl UnboundLocalError))"

text \<open>
  The context layer (lines 317-344); \<open>sq\<close> is \<^verbatim>\<open>query_layer.size(0)\<close> of the reshaped
  query. \<^verbatim>\<open>torch.bmm\<close> multiplies \<open>[b * np, sq, sk]\<close> by \<open>[b * np, sk, hn]\<close>.
\<close>

definition CoreAttention_context ::
  "CoreAttention \<Rightarrow> nat \<Rightarrow> tshape \<Rightarrow> tshape \<Rightarrow> error + tshape" where
  "CoreAttention_context self sq attention_probs value_layer =
     ebind (size_at value_layer 1) (\<lambda>b.
     ebind (size_at value_layer 2) (\<lambda>np.
     ebind (size_at value_layer 3) (\<lambda>hn.
     ebind (size_at value_layer 0) (\<lambda>sk.
     ebind (view value_layer [Some sk, Some (b * np), None]) (\<lambda>value_layer.
     ebind (view attention_probs [Some (b * np), Some sq, None]) (\<lambda>attention_probs.
       if attention_probs ! 2 \<noteq> value_layer ! 0 then Inl RuntimeError
       else
         ebind (view [b * np, sq, value_layer ! 2] [Some b, Some np, Some sq, Some hn])
           (\<lambda>context_layer.
         view [sq, b, np, hn]
           [Some sq, Some b, Some (ca_hidden_size_per_partition self)])))))))"

definition CoreAttention_forward ::
  "CoreAttention \<Rightarrow> tshape \<Rightarrow> tshape \<Rightarrow> tshape \<Rightarrow> tshape option \<Rightarrow> error + tshape" where
  "CoreAttention_forward self query_layer key_layer value_layer attention_mask =
     ebind (CoreAttention_scores query_layer key_layer) (\<lambda>output_size.
     ebind (CoreAttention_probs output_size attention_mask) (\<lambda>attention_probs.
       CoreAttention_context self (fst (snd (snd output_size))) attention_probs value_layer))"

subsection \<open>FlashSelfAttention\<close>

text \<open>
  The tensors that reach \<^verbatim>\<open>FlashSelfAttention.forward\<close>, with the two properties its
  assertions read, and the module's fields (\<^verbatim>\<open>training\<close> is the flag of
  \<^verbatim>\<open>torch.nn.Module\<close>).
\<close>

record flash_tensor =
  ft_shape :: tshape
  ft_dtype :: dtype
  ft_is_cuda :: bool

record FlashSelfAttention =
  fsa_causal :: bool
  fsa_softmax_scale :: "real option"
  fsa_dropout_p :: real
  fsa_training :: bool

text \<open>
  The arguments of one call of the fused kernel
  \<^verbatim>\<open>flash_attn_unpadded_func(q, k, v, cu_seqlens_q, cu_seqlens_k, max_seqlen_q,
  max_seqlen_k, dropout_p, softmax_scale=..., causal=...)\<close>.
\<close>

record flash_attn_call =
  fc_q :: tshape
  fc_k :: tshape
  fc_v :: tshape
  fc_cu_seqlens_q :: "nat list"
  fc_cu_seqlens_k :: "nat list"
  fc_max_seqlen_q :: nat
  fc_max_seqlen_k :: nat
  fc_dropout_p :: real
  fc_softmax_scale :: "real option"
  fc_causal :: bool

text \<open>\<^verbatim>\<open>rearrange(x, 'b s ... -> (b s) ...')\<close> of einops.\<close>

definition rearrange_flatten :: "tshape \<Rightarrow> error + tshape" where
  "rearrange_flatten x =
     (case x of b # s # rest \<Rightarrow> Inr (b * s # rest) | _ \<Rightarrow> Inl RuntimeError)"

text \<open>
  \<^verbatim>\<open>rearrange(x, '(b s) ... -> b s ...', b=batch_size)\<close>: einops divides the first
  size by \<^verbatim>\<open>batch_size\<close> before it checks that the division is exact.
\<close>

definition rearrange_unflatten :: "tshape \<Rightarrow> nat \<Rightarrow> error + tshape" where
  "rearrange_unflatten x batch_size =
     (case x of
        [] \<Rightarrow> Inl RuntimeError
      | t # rest \<Rightarrow>
          if batch_size = 0 then Inl ZeroDivisionError
          else if t mod batch_size \<noteq> 0 then Inl RuntimeError
          else Inr (batch_size # t div batch_size # rest))"

text \<open>
  \<^verbatim>\<open>torch.arange(0, (batch_size + 1) * seqlen, step=seqlen)\<close>: the offsets
  \<open>0, seqlen, ..., batch_size * seqlen\<close>; a step of 0 is an error.
\<close>

definition arange_cu_seqlens :: "nat \<Rightarrow> nat \<Rightarrow> error + nat list" where
  "arange_cu_seqlens batch_size seqlen =
     (if seqlen = 0 then Inl RuntimeError
      else Inr (map (\<lambda>i. i * seqlen) [0..<batch_size + 1]))"

text \<open>
  \<^verbatim>\<open>unpad_input(hidden_states, attention_mask)\<close> of \<^verbatim>\<open>flash_attn.bert_padding\<close>, for
  a 2-D mask given by its rows. The library sums the mask along its last axis
  (\<^verbatim>\<open>seqlens_in_batch\<close>), takes the positions of the valid entries of the flattened mask
  (\<^verbatim>\<open>indices\<close>), the maximum of the sums (an error for a mask without rows) and the
  cumulative sums behind a 0 (\<^verbatim>\<open>cu_seqlens\<close>), and gathers the rows at \<^verbatim>\<open>indices\<close> of
  \<^verbatim>\<open>hidden_states\<close> flattened to \<open>(b s) ...\<close>; a position beyond these rows is an error.
  It does not compare the size of the mask with \<open>(b, s)\<close>. The caller keeps the gathered
  tensor and \<^verbatim>\<open>cu_seqlens\<close>.
\<close>

fun cumsum :: "nat \<Rightarrow> nat list \<Rightarrow> nat list" where
  "cumsum acc [] = []"
| "cumsum acc (x # xs) = (acc + x) # cumsum (acc + x) xs"

definition unpad_input :: "tshape \<Rightarrow> bool list list \<Rightarrow> error + (tshape \<times> nat list)" where
  "unpad_input hidden_states attention_mask =
     (let seqlens_in_batch = map (\<lambda>row. length (filter id row)) attention_mask;
          flat = concat attention_mask;
          indices = filter (\<lambda>i. flat ! i) [0..<length flat]
      in if attention_mask = [] then Inl RuntimeError
         else
           (case hidden_states of
              b # s # rest \<Rightarrow>
                if list_all (\<lambda>i. i < b * s) indices
                then Inr (length indices # rest, 0 # cumsum 0 seqlens_in_batch)
                else Inl RuntimeError
            | _ \<Rightarrow> Inl RuntimeError))"

text \<open>
  \<^verbatim>\<open>FlashSelfAttention.forward\<close>, lines 375-417: from the assertions to the call of the
  kernel. The result is the argument list the kernel is called with. \<^verbatim>\<open>is_causal\<close> is
  computed as in the source (lines 399 and 406) and, as in the source, used nowhere.
\<close>

definition FlashSelfAttention_kernel_call ::
  "FlashSelfAttention \<Rightarrow> flash_tensor \<Rightarrow> flash_tensor \<Rightarrow> flash_tensor \<Rightarrow>
     bool list list option \<Rightarrow> error + flash_attn_call" where
  "FlashSelfAttention_kernel_call self q k v attention_mask =
     (if \<not> list_all (\<lambda>i. ft_dtype i \<in> {float16, bfloat16}) [q, k, v] then Inl AssertionError
      else if \<not> list_all ft_is_cuda [q, k, v] then Inl AssertionError
      else
        ebind (size_at (ft_shape q) 0) (\<lambda>batch_size.
        ebind (size_at (ft_shape q) 1) (\<lambda>seqlen_q.
        ebind (size_at (ft_shape k) 1) (\<lambda>seqlen_k.
        ebind (rearrange_flatten (ft_shape q)) (\<lambda>q.
        ebind (arange_cu_seqlens batch_size seqlen_q) (\<lambda>cu_seqlens_q.
        ebind
          (case attention_mask of
             Some rows \<Rightarrow>
               ebind (unpad_input (ft_shape k) rows) (\<lambda>(k, cu_seqlens_k).
               ebind (unpad_input (ft_shape v) rows) (\<lambda>(v, _).
                 Inr (k, v, cu_seqlens_k)))
           | None \<Rightarrow>
               ebind (rearrange_flatten (ft_shape k)) (\<lambda>k.
               ebind (rearrange_flatten (ft_shape v)) (\<lambda>v.
                 Inr (k, v, cu_seqlens_q))))
          (\<lambda>(k, v, cu_seqlens_k).
            let is_causal = (if fsa_training self then fsa_causal self
                             else seqlen_q = seqlen_k);
                dropout_p = (if fsa_training self then fsa_dropout_p self else 0)
            in Inr \<lparr>fc_q = q, fc_k = k, fc_v = v,
                    fc_cu_seqlens_q = cu_seqlens_q, fc_cu_seqlens_k = cu_seqlens_k,
                    fc_max_seqlen_q = seqlen_q, fc_max_seqlen_k = seqlen_k,
                    fc_dropout_p = dropout_p,
                    fc_softmax_scale = fsa_softmax_scale self,
                    fc_causal = False\<rparr>)))))))"

text \<open>
  The kernel itself is the library's. On packed tensors \<open>(total, heads, head_dim)\<close>
  with matching head sizes it returns a tensor of the shape of \<open>q\<close>.
\<close>

definition flash_attn_unpadded_func :: "flash_attn_call \<Rightarrow> error + tshape" where
  "flash_attn_unpadded_func c =
     (case (fc_q c, fc_k c, fc_v c) of
        ([total_q, h, d], [total_k, h_k, d_k], v) \<Rightarrow>
          if v = [total_k, h_k, d_k] \<and> d = d_k \<and> 0 < h_k \<and> h mod h_k = 0
             \<and> length (fc_cu_seqlens_q c) = length (fc_cu_seqlens_k c)
          then Inr [total_q, h, d] else Inl RuntimeError
      | _ \<Rightarrow> Inl RuntimeError)"

text \<open>
  \<^verbatim>\<open>FlashSelfAttention.forward\<close> as a whole (lines 367-420). The fused kernel is a
  function of the library, so the forward is modelled with its effect: the result,
  and the list of the calls of the kernel that the forward made, in order. It makes
  none when it raises before line 413, and one otherwise.
\<close>

definition FlashSelfAttention_forward ::
  "FlashSelfAttention \<Rightarrow> flash_tensor \<Rightarrow> flash_tensor \<Rightarrow> flash_tensor \<Rightarrow>
     bool list list option \<Rightarrow> (error + tshape) \<times> flash_attn_call list" where
  "FlashSelfAttention_forward self q k v attention_mask =
     (case FlashSelfAttention_kernel_call self q k v attention_mask of
        Inl e \<Rightarrow> (Inl e, [])
      | Inr c \<Rightarrow>
          (ebind (flash_attn_unpadded_func c) (\<lambda>output.
           ebind (size_at (ft_shape q) 0) (\<lambda>batch_size.
             rearrange_unflatten output batch_size)),
           [c]))"

subsection \<open>ParallelAttention: construction\<close>

datatype AttnMaskType = AttnMaskType_padding | AttnMaskType_causal

datatype AttnType = AttnType_self_attn | AttnType_cross_attn

record ParallelAttention =
  pa_layer_number :: nat
  pa_sequence_parallel :: bool
  pa_use_flash_attn :: bool
  pa_hidden_size_per_attention_head :: nat
  pa_hidden_size_per_attention_head_query :: nat
  pa_hidden_size_per_attention_head_kv :: nat
  pa_num_attention_heads_per_partition :: nat
  pa_num_attention_heads_per_partition_kv :: nat
  pa_num_query_groups_per_partition :: nat
  pa_query :: parallel_linear
  pa_key_value :: parallel_linear
  pa_core_attention :: CoreAttention
  pa_checkpoint_core_attention :: bool
  pa_core_attention_flash :: "FlashSelfAttention option"
  pa_dense :: parallel_linear

text \<open>
  \<^verbatim>\<open>ParallelAttention.__init__\<close> (lines 430-548). \<^verbatim>\<open>num_kv_heads\<close> is
  \<^verbatim>\<open>config.num_attention_heads\<close>, so \<^verbatim>\<open>num_key_value_groups\<close> is a division of that
  number by itself. The flash-attention and einops libraries are taken as installed
  (the module imports \<^verbatim>\<open>flash_attn.bert_padding\<close> unconditionally). A module is built
  in training mode.
\<close>

definition ParallelAttention_init ::
  "config \<Rightarrow> args \<Rightarrow> nat \<Rightarrow> nat \<Rightarrow> AttnType \<Rightarrow> AttnMaskType \<Rightarrow> error + ParallelAttention" where
  "ParallelAttention_init config args world_size layer_number attention_type attn_mask_type =
     (if cfg_sequence_parallel config then Inl AssertionError
      else
        let query_projection_size = cfg_kv_channels config * cfg_num_attention_heads config;
            kv_projection_size = query_projection_size;
            num_heads = cfg_num_attention_heads config;
            num_kv_heads = cfg_num_attention_heads config
        in if num_kv_heads = 0 then Inl ZeroDivisionError
        else
        let num_key_value_groups = num_heads div num_kv_heads in
        ebind (utils_divide query_projection_size (cfg_num_attention_heads config))
          (\<lambda>hidden_size_per_attention_head.
        ebind (utils_divide query_projection_size (cfg_num_attention_heads config))
          (\<lambda>hidden_size_per_attention_head_query.
        ebind (utils_divide kv_projection_size (cfg_num_attention_heads config))
          (\<lambda>hidden_size_per_attention_head_kv.
        ebind (utils_divide (cfg_num_attention_heads config) world_size)
          (\<lambda>num_attention_heads_per_partition.
        ebind (if num_kv_heads \<ge> world_size
               then utils_divide (cfg_num_attention_heads config) world_size
               else Inr num_attention_heads_per_partition)
          (\<lambda>num_attention_heads_per_partition_kv.
        ebind (if arg_group_query_attention args then
                 (if arg_num_query_groups args mod world_size \<noteq> 0 then Inl NotImplementedError
                  else utils_divide (arg_num_query_groups args) world_size)
               else Inr num_attention_heads_per_partition)
          (\<lambda>num_query_groups_per_partition.
        if attention_type \<noteq> AttnType_cross_attn then Inl AssertionError
        else
        ebind (ColumnParallelLinear_init (cfg_text_hidden_size config) query_projection_size
                 (cfg_add_bias_linear config) False world_size) (\<lambda>query.
        ebind (ColumnParallelLinear_init (cfg_text_hidden_size config)
                 (2 * kv_projection_size * num_key_value_groups)
                 (cfg_add_bias_linear config) False world_size) (\<lambda>key_value.
        ebind (CoreAttention_init (max 1 layer_number) config world_size) (\<lambda>core_attention.
        ebind (RowParallelLinear_init query_projection_size (cfg_text_hidden_size config)
                 (arg_add_bias_linear args) True world_size) (\<lambda>dense.
        Inr \<lparr>pa_layer_number = max 1 layer_number,
             pa_sequence_parallel = cfg_sequence_parallel config,
             pa_use_flash_attn = arg_use_flash_attn args,
             pa_hidden_size_per_attention_head = hidden_size_per_attention_head,
             pa_hidden_size_per_attention_head_query = hidden_size_per_attention_head_query,
             pa_hidden_size_per_attention_head_kv = hidden_size_per_attention_head_kv,
             pa_num_attention_heads_per_partition = num_attention_heads_per_partition,
             pa_num_attention_heads_per_partition_kv = num_attention_heads_per_partition_kv,
             pa_num_query_groups_per_partition = num_query_groups_per_partition,
             pa_query = query,
             pa_key_value = key_value,
             pa_core_attention = core_attention,
             pa_checkpoint_core_attention = False,
             pa_core_attention_flash =
               (if arg_use_flash_attn args
                then Some \<lparr>fsa_causal = (attn_mask_type = AttnMaskType_causal),
                           fsa_softmax_scale = None,
                           fsa_dropout_p = cfg_attention_dropout config,
                           fsa_training = True\<rparr>
                else None),
             pa_dense = dense\<rparr>)))))))))))"

subsection \<open>ParallelAttention: the inference cache\<close>

text \<open>
  For the cache the values matter. A rank-4 tensor \<open>[s, b, heads, head_dim]\<close> is its
  size and its elements by index. \<^verbatim>\<open>inference_params\<close> is the structure of the host
  framework; \<open>'m\<close> is what it stores as key and as value memory (a tensor with its
  values here, a shape in the shape model). Offsets count from 0.
\<close>

record 'a ctensor =
  ct_size :: tshape
  ct_at :: "nat \<Rightarrow> nat \<Rightarrow> nat \<Rightarrow> nat \<Rightarrow> 'a"

record 'm inference_params =
  ip_max_sequence_length :: nat
  ip_max_batch_size :: nat
  ip_sequence_len_offset :: nat
  ip_batch_size_offset :: nat
  ip_key_value_memory_dict :: "nat \<rightharpoonup> ('m \<times> 'm)"

text \<open>
  \<^verbatim>\<open>_allocate_memory\<close> (lines 573-580): \<^verbatim>\<open>torch.empty\<close> returns a tensor of the
  given size whose elements are whatever the allocator left, the parameter \<open>uninit\<close>.
\<close>

definition allocate_memory ::
  "ParallelAttention \<Rightarrow> (nat \<Rightarrow> nat \<Rightarrow> nat \<Rightarrow> nat \<Rightarrow> 'a) \<Rightarrow> nat \<Rightarrow> nat \<Rightarrow> nat \<Rightarrow> 'a ctensor" where
  "allocate_memory self uninit inference_max_sequence_len batch_size num_attention_heads =
     \<lparr>ct_size = [inference_max_sequence_len, batch_size, num_attention_heads,
                 pa_hidden_size_per_attention_head_query self],
      ct_at = uninit\<rparr>"

text \<open>
  The pre-allocation of lines 591-607, taken when \<^verbatim>\<open>inference_params\<close> is given: the
  parameters after it and the key and value memory of this layer.
\<close>

definition preallocate_memory ::
  "ParallelAttention \<Rightarrow> (nat \<Rightarrow> nat \<Rightarrow> nat \<Rightarrow> nat \<Rightarrow> 'a) \<Rightarrow> (nat \<Rightarrow> nat \<Rightarrow> nat \<Rightarrow> nat \<Rightarrow> 'a) \<Rightarrow>
     'a ctensor inference_params \<Rightarrow>
     'a ctensor inference_params \<times> 'a ctensor \<times> 'a ctensor" where
  "preallocate_memory self uninit_key uninit_value inference_params =
     (case ip_key_value_memory_dict inference_params (pa_layer_number self) of
        None \<Rightarrow>
          (let inf_max_seq_len = ip_max_sequence_length inference_params;
               inf_max_batch_size = ip_max_batch_size inference_params;
               inference_key_memory =
                 allocate_memory self uninit_key inf_max_seq_len inf_max_batch_size
                   (pa_num_query_groups_per_partition self);
               inference_value_memory =
                 allocate_memory self uninit_value inf_max_seq_len inf_max_batch_size
                   (pa_num_query_groups_per_partition self)
           in (inference_params\<lparr>ip_key_value_memory_dict :=
                 (ip_key_value_memory_dict inference_params)
                   (pa_layer_number self \<mapsto> (inference_key_memory, inference_value_memory))\<rparr>,
               inference_key_memory, inference_value_memory))
      | Some (inference_key_memory, inference_value_memory) \<Rightarrow>
          (inference_params, inference_key_memory, inference_value_memory))"

text \<open>
  \<^verbatim>\<open>memory[sequence_start:sequence_end, batch_start:batch_end, ...] = layer\<close>. Python
  clamps the bounds of a slice to the size; the source is broadcast to the size of the
  slice (a size of the source is that of the slice, or 1), and that fails otherwise.
\<close>

definition slice_assign ::
  "'a ctensor \<Rightarrow> nat \<Rightarrow> nat \<Rightarrow> nat \<Rightarrow> nat \<Rightarrow> 'a ctensor \<Rightarrow> error + 'a ctensor" where
  "slice_assign memory sequence_start sequence_end batch_start batch_end layer =
     (case (ct_size memory, ct_size layer) of
        ([S, B, G, D], [sk, bk, np, dk]) \<Rightarrow>
          (let s0 = min sequence_start S; s1 = max s0 (min sequence_end S);
               b0 = min batch_start B; b1 = max b0 (min batch_end B)
           in if (sk = s1 - s0 \<or> sk = 1) \<and> (bk = b1 - b0 \<or> bk = 1)
                 \<and> (np = G \<or> np = 1) \<and> (dk = D \<or> dk = 1)
              then Inr (memory\<lparr>ct_at := (\<lambda>s b h d.
                     if s0 \<le> s \<and> s < s1 \<and> b0 \<le> b \<and> b < b1 \<and> h < G \<and> d < D
                     then ct_at layer (if sk = 1 then 0 else s - s0) (if bk = 1 then 0 else b - b0)
                            (if np = 1 then 0 else h) (if dk = 1 then 0 else d)
                     else ct_at memory s b h d)\<rparr>)
              else Inl RuntimeError)
      | _ \<Rightarrow> Inl RuntimeError)"

text \<open>\<^verbatim>\<open>memory[:sequence_end, batch_start:batch_end, ...]\<close>.\<close>

definition slice_read :: "'a ctensor \<Rightarrow> nat \<Rightarrow> nat \<Rightarrow> nat \<Rightarrow> error + 'a ctensor" where
  "slice_read memory sequence_end batch_start batch_end =
     (case ct_size memory of
        [S, B, G, D] \<Rightarrow>
          (let s1 = min sequence_end S;
               b0 = min batch_start B; b1 = max b0 (min batch_end B)
           in Inr \<lparr>ct_size = [s1, b1 - b0, G, D],
                   ct_at = (\<lambda>s b h d. ct_at memory s (b0 + b) h d)\<rparr>)
      | _ \<Rightarrow> Inl RuntimeError)"

text \<open>
  Lines 649-665, "Adjust key and value for inference": the two assertions, the two
  writes and the two reads. The result comes with the key and value memory as they are
  when the section is left, by its end or by a raise.
\<close>

definition adjust_key_value ::
  "'m inference_params \<Rightarrow> 'a ctensor \<Rightarrow> 'a ctensor \<Rightarrow> 'a ctensor \<Rightarrow> 'a ctensor \<Rightarrow>
     (error + 'a ctensor \<times> 'a ctensor) \<times> 'a ctensor \<times> 'a ctensor" where
  "adjust_key_value inference_params inference_key_memory inference_value_memory
       key_layer value_layer =
     (case (size_at (ct_size key_layer) 1, size_at (ct_size inference_key_memory) 1,
            size_at (ct_size key_layer) 0, size_at (ct_size inference_key_memory) 0) of
        (Inr key_size_1, Inr memory_size_1, Inr key_size_0, Inr memory_size_0) \<Rightarrow>
          (let batch_start = ip_batch_size_offset inference_params;
               batch_end = batch_start + key_size_1
           in if \<not> batch_end \<le> memory_size_1
              then (Inl AssertionError, inference_key_memory, inference_value_memory)
              else
                let sequence_start = ip_sequence_len_offset inference_params;
                    sequence_end = sequence_start + key_size_0
                in if \<not> sequence_end \<le> memory_size_0
                   then (Inl AssertionError, inference_key_memory, inference_value_memory)
                   else
                     (case slice_assign inference_key_memory sequence_start sequence_end
                             batch_start batch_end key_layer of
                        Inl e \<Rightarrow> (Inl e, inference_key_memory, inference_value_memory)
                      | Inr key_memory \<Rightarrow>
                          (case slice_assign inference_value_memory sequence_start sequence_end
                                  batch_start batch_end value_layer of
                             Inl e \<Rightarrow> (Inl e, key_memory, inference_value_memory)
                           | Inr value_memory \<Rightarrow>
                               (ebind (slice_read key_memory sequence_end batch_start batch_end)
                                  (\<lambda>key_layer.
                                ebind (slice_read value_memory sequence_end batch_start
                                         batch_end) (\<lambda>value_layer.
                                  Inr (key_layer, value_layer))),
                                key_memory, value_memory))))
      | _ \<Rightarrow> (Inl IndexError, inference_key_memory, inference_value_memory))"

text \<open>
  The two parts together, as \<^verbatim>\<open>ParallelAttention.forward\<close> runs them on the key and
  the value it has computed: the effective key and value, and \<^verbatim>\<open>inference_params\<close>
  as the call leaves it. The memory tensors are mutated in place, so the dictionary
  holds them as the section left them.
\<close>

definition ParallelAttention_forward_cache ::
  "ParallelAttention \<Rightarrow> (nat \<Rightarrow> nat \<Rightarrow> nat \<Rightarrow> nat \<Rightarrow> 'a) \<Rightarrow> (nat \<Rightarrow> nat \<Rightarrow> nat \<Rightarrow> nat \<Rightarrow> 'a) \<Rightarrow>
     'a ctensor inference_params \<Rightarrow> 'a ctensor \<Rightarrow> 'a ctensor \<Rightarrow>
     (error + 'a ctensor \<times> 'a ctensor) \<times> 'a ctensor inference_params" where
  "ParallelAttention_forward_cache self uninit_key uninit_value inference_params
       key_layer value_layer =
     (case preallocate_memory self uninit_key uninit_value inference_params of
        (allocated, inference_key_memory, inference_value_memory) \<Rightarrow>
          (case adjust_key_value allocated inference_key_memory inference_value_memory
                  key_layer value_layer of
             (result, key_memory, value_memory) \<Rightarrow>
               (result,
                allocated\<lparr>ip_key_value_memory_dict :=
                  (ip_key_value_memory_dict allocated)
                    (pa_layer_number self \<mapsto> (key_memory, value_memory))\<rparr>)))"

subsection \<open>ParallelAttention: forward\<close>

text \<open>
  The attention mask is a tensor. The dense core reads its size only; the flash core
  reads the rows of a 2-D 0/1 padding mask. A mask is given by its rows when it is such
  a matrix and by its size otherwise.
\<close>

datatype attn_mask = AdditiveMask tshape | PaddingMask "bool list list"

definition attn_mask_size :: "attn_mask \<Rightarrow> tshape" where
  "attn_mask_size m =
     (case m of
        AdditiveMask sz \<Rightarrow> sz
      | PaddingMask rows \<Rightarrow> [length rows, (case rows of [] \<Rightarrow> 0 | row # _ \<Rightarrow> length row)])"

text \<open>The element type and the device of the activations, which the flash core asserts.\<close>

record act_meta =
  am_dtype :: dtype
  am_is_cuda :: bool

text \<open>
  \<^verbatim>\<open>torch.concat([a, b], dim=0)\<close>: the ranks and all sizes but the first agree (a 1-D
  tensor of size 0 is skipped).
\<close>

definition concat0 :: "tshape \<Rightarrow> tshape \<Rightarrow> error + tshape" where
  "concat0 a b =
     (if a = [0] then Inr b
      else if b = [0] then Inr a
      else
        (case (a, b) of
           (x # xs, y # ys) \<Rightarrow> if xs = ys then Inr ((x + y) # xs) else Inl RuntimeError
         | _ \<Rightarrow> Inl RuntimeError))"

text \<open>\<^verbatim>\<open>rearrange(x, 's b ... -> b s ...')\<close> and \<^verbatim>\<open>rearrange(x, 'b s h d -> s b (h d)')\<close>.\<close>

definition rearrange_swap :: "tshape \<Rightarrow> error + tshape" where
  "rearrange_swap x = (case x of s # b # rest \<Rightarrow> Inr (b # s # rest) | _ \<Rightarrow> Inl RuntimeError)"

definition rearrange_merge_heads :: "tshape \<Rightarrow> error + tshape" where
  "rearrange_merge_heads x =
     (case x of [b, s, h, d] \<Rightarrow> Inr [s, b, h * d] | _ \<Rightarrow> Inl RuntimeError)"

text \<open>
  The inference cache on shapes: the memory is its size. Lines 591-607, then lines
  649-665 with the sizes of the slices that Python's clamped bounds give.
\<close>

definition preallocate_shapes ::
  "ParallelAttention \<Rightarrow> tshape inference_params \<Rightarrow> tshape inference_params" where
  "preallocate_shapes self inference_params =
     (case ip_key_value_memory_dict inference_params (pa_layer_number self) of
        None \<Rightarrow>
          (let memory = [ip_max_sequence_length inference_params,
                         ip_max_batch_size inference_params,
                         pa_num_query_groups_per_partition self,
                         pa_hidden_size_per_attention_head_query self]
           in inference_params\<lparr>ip_key_value_memory_dict :=
                (ip_key_value_memory_dict inference_params)
                  (pa_layer_number self \<mapsto> (memory, memory))\<rparr>)
      | Some _ \<Rightarrow> inference_params)"

definition slice_shape :: "tshape \<Rightarrow> nat \<Rightarrow> nat \<Rightarrow> nat \<Rightarrow> nat \<Rightarrow> error + tshape" where
  "slice_shape memory sequence_start sequence_end batch_start batch_end =
     (case memory of
        S # B # rest \<Rightarrow>
          Inr ((max (min sequence_start S) (min sequence_end S) - min sequence_start S)
               # (max (min batch_start B) (min batch_end B) - min batch_start B) # rest)
      | _ \<Rightarrow> Inl IndexError)"

definition adjust_key_value_shapes ::
  "ParallelAttention \<Rightarrow> tshape inference_params \<Rightarrow> tshape \<Rightarrow> tshape \<Rightarrow>
     error + (tshape \<times> tshape)" where
  "adjust_key_value_shapes self inference_params key_layer value_layer =
     (case ip_key_value_memory_dict inference_params (pa_layer_number self) of
        None \<Rightarrow> Inl UnboundLocalError
      | Some (inference_key_memory, inference_value_memory) \<Rightarrow>
          ebind (size_at key_layer 1) (\<lambda>key_size_1.
          ebind (size_at inference_key_memory 1) (\<lambda>memory_size_1.
          let batch_start = ip_batch_size_offset inference_params;
              batch_end = batch_start + key_size_1
          in if \<not> batch_end \<le> memory_size_1 then Inl AssertionError
          else
          ebind (size_at key_layer 0) (\<lambda>key_size_0.
          ebind (size_at inference_key_memory 0) (\<lambda>memory_size_0.
          let sequence_start = ip_sequence_len_offset inference_params;
              sequence_end = sequence_start + key_size_0
          in if \<not> sequence_end \<le> memory_size_0 then Inl AssertionError
          else
          ebind (slice_shape inference_key_memory sequence_start sequence_end
                   batch_start batch_end) (\<lambda>key_slice.
          ebind (expand_as key_layer key_slice) (\<lambda>written_key.
          ebind (slice_shape inference_value_memory sequence_start sequence_end
                   batch_start batch_end) (\<lambda>value_slice.
          ebind (expand_as value_layer value_slice) (\<lambda>written_value.
          ebind (slice_shape inference_key_memory 0 sequence_end batch_start batch_end)
            (\<lambda>key_layer.
          ebind (slice_shape inference_value_memory 0 sequence_end batch_start batch_end)
            (\<lambda>value_layer.
            Inr (key_layer, value_layer))))))))))))"

text \<open>
  \<^verbatim>\<open>ParallelAttention.forward\<close> (lines 582-706) on shapes. \<open>training\<close> is the mode of the
  module (the flash core is a submodule and shares it). The result is the output, the
  separate bias, and \<^verbatim>\<open>inference_params\<close> with the buffers the call allocated.
  \<^verbatim>\<open>_checkpointed_attention_forward\<close> runs the same dense core.
\<close>

definition ParallelAttention_forward ::
  "ParallelAttention \<Rightarrow> bool \<Rightarrow> act_meta \<Rightarrow> tshape \<Rightarrow> tshape \<Rightarrow> attn_mask option \<Rightarrow>
     tshape inference_params option \<Rightarrow>
     error + ((tshape \<times> tshape option) \<times> tshape inference_params option)" where
  "ParallelAttention_forward self training meta latents context attention_mask
       inference_params =
     (let inference_params = map_option (preallocate_shapes self) inference_params in
      ebind (concat0 context latents) (\<lambda>hidden_states.
      ebind (parallel_linear_forward (pa_key_value self) hidden_states)
        (\<lambda>(mixed_kv_layer, _).
      ebind (view mixed_kv_layer
               (map Some (butlast mixed_kv_layer
                  @ [pa_num_attention_heads_per_partition self,
                     2 * pa_hidden_size_per_attention_head_kv self])))
        (\<lambda>mixed_kv_layer.
      ebind (utils_divide (last mixed_kv_layer) 2) (\<lambda>last_dim_size.
      let key_layer = butlast mixed_kv_layer @ [last_dim_size];
          value_layer = butlast mixed_kv_layer @ [last_dim_size]
      in
      ebind (parallel_linear_forward (pa_query self) latents) (\<lambda>(query_layer, _).
      ebind (view query_layer
               (map Some (butlast query_layer
                  @ [pa_num_attention_heads_per_partition self,
                     pa_hidden_size_per_attention_head self])))
        (\<lambda>query_layer.
      ebind (case inference_params of
               None \<Rightarrow> Inr (key_layer, value_layer)
             | Some ip \<Rightarrow> adjust_key_value_shapes self ip key_layer value_layer)
        (\<lambda>(key_layer, value_layer).
      ebind
        (if \<not> pa_use_flash_attn self then
           CoreAttention_forward (pa_core_attention self) query_layer key_layer value_layer
             (map_option attn_mask_size attention_mask)
         else
           ebind (rearrange_swap query_layer) (\<lambda>q.
           ebind (rearrange_swap key_layer) (\<lambda>k.
           ebind (rearrange_swap value_layer) (\<lambda>v.
           if pa_sequence_parallel self then Inl AssertionError
           else
             (case pa_core_attention_flash self of
                None \<Rightarrow> Inl AttributeError
              | Some core_attention_flash \<Rightarrow>
                  ebind
                    (case attention_mask of
                       None \<Rightarrow> Inr None
                     | Some (PaddingMask rows) \<Rightarrow> Inr (Some rows)
                     | Some (AdditiveMask _) \<Rightarrow> Inl RuntimeError)
                    (\<lambda>rows.
                  ebind
                    (fst (FlashSelfAttention_forward
                       (core_attention_flash\<lparr>fsa_training := training\<rparr>)
                       \<lparr>ft_shape = q, ft_dtype = am_dtype meta, ft_is_cuda = am_is_cuda meta\<rparr>
                       \<lparr>ft_shape = k, ft_dtype = am_dtype meta, ft_is_cuda = am_is_cuda meta\<rparr>
                       \<lparr>ft_shape = v, ft_dtype = am_dtype meta, ft_is_cuda = am_is_cuda meta\<rparr>
                       rows))
                    rearrange_merge_heads))))))
        (\<lambda>context_layer.
      ebind (parallel_linear_forward (pa_dense self) context_layer) (\<lambda>(output, bias).
        Inr ((output, bias), inference_params)))))))))))"

subsection \<open>Layer types\<close>

text \<open>
  The enumerations \<^verbatim>\<open>ModelType\<close> (megatron.core.enums) and \<^verbatim>\<open>LayerType\<close>
  (megatron.model.enums), with the members the file names.
\<close>

datatype ModelType =
    ModelType_encoder_or_decoder
  | ModelType_encoder_and_decoder
  | ModelType_retro_encoder
  | ModelType_retro_decoder

datatype LayerType =
    LayerType_encoder
  | LayerType_decoder
  | LayerType_retro_encoder
  | LayerType_retro_decoder
  | LayerType_retro_decoder_with_retriever

text \<open>\<^verbatim>\<open>np.arange(start, stop, step).tolist()\<close> on natural numbers, for a positive step.\<close>

definition np_arange :: "nat \<Rightarrow> nat \<Rightarrow> nat \<Rightarrow> nat list" where
  "np_arange start stop step =
     map (\<lambda>i. start + i * step) [0..<(stop - start + step - 1) div step]"

text \<open>
  \<^verbatim>\<open>self.retro_layer_numbers\<close> as \<^verbatim>\<open>Idefics2PerceiverParallelTransformer.__init__\<close>
  computes it (lines 1338-1344): the start is chosen from \<^verbatim>\<open>config.num_layers\<close>, the
  end of the range is \<^verbatim>\<open>args.num_layers + 1\<close>.
\<close>

definition init_retro_layer_numbers :: "ModelType \<Rightarrow> config \<Rightarrow> args \<Rightarrow> nat list option" where
  "init_retro_layer_numbers model_type config args =
     (if model_type = ModelType_retro_encoder then Some [1]
      else if model_type = ModelType_retro_decoder then
        (let retro_layer_start = (if cfg_num_layers config \<le> 15 then 6 else 9)
         in Some (np_arange retro_layer_start (arg_num_layers args + 1) 3))
      else None)"

text \<open>
  \<^verbatim>\<open>_get_layer_type\<close> (lines 1227-1240). \<^verbatim>\<open>layer_number in retro_layer_numbers\<close> is
  evaluated only when \<^verbatim>\<open>args.retro_add_retriever\<close> holds, and raises a
  \<^verbatim>\<open>TypeError\<close> on \<^verbatim>\<open>None\<close>.
\<close>

definition get_layer_type ::
  "args \<Rightarrow> ModelType \<Rightarrow> LayerType \<Rightarrow> nat list option \<Rightarrow> nat \<Rightarrow> error + LayerType" where
  "get_layer_type args model_type default_layer_type retro_layer_numbers layer_number =
     (if \<not> arg_retro_add_retriever args then Inr default_layer_type
      else
        (case retro_layer_numbers of
           None \<Rightarrow> Inl TypeError
         | Some numbers \<Rightarrow>
             if layer_number \<in> set numbers then
               (if model_type = ModelType_retro_decoder then
                  Inr (if layer_number = hd numbers
                       then LayerType_retro_decoder_with_retriever
                       else LayerType_retro_decoder)
                else if model_type = ModelType_retro_encoder then Inr LayerType_retro_encoder
                else Inl PlainException)
             else Inr default_layer_type))"

subsection \<open>ParallelTransformerLayer\<close>

text \<open>
  A layer after its construction. A normalisation layer is the size it normalises;
  \<open>ptl_drop_path\<close> is the drop probability of the \<^verbatim>\<open>DropPath\<close> module, if there is one.
\<close>

record ParallelTransformerLayer =
  ptl_layer_number :: nat
  ptl_layer_type :: LayerType
  ptl_apply_residual_connection_post_norm :: bool
  ptl_input_latents_norm :: nat
  ptl_input_context_norm :: nat
  ptl_self_attention :: ParallelAttention
  ptl_hidden_dropout :: real
  ptl_bias_dropout_fusion :: bool
  ptl_drop_path :: "real option"
  ptl_post_attention_norm :: nat
  ptl_inter_attention :: "ParallelAttention option"
  ptl_mlp :: Idefics2ParallelMLP

text \<open>
  \<^verbatim>\<open>ParallelTransformerLayer.__init__\<close> (lines 747-836). Under
  \<^verbatim>\<open>args.retro_add_retriever\<close> line 820 calls \<^verbatim>\<open>get_retro_args\<close>, a name that only the
  first of the two import blocks of lines 28-43 binds: \<open>get_retro_args_imported\<close> tells
  whether that block succeeded, and the call raises \<^verbatim>\<open>NameError\<close> when it did not. The
  retro attributes of lines 821-823 are read by no modelled method. The last statement
  builds a \<^verbatim>\<open>ParallelTransformer\<close> for the layer type
  \<^verbatim>\<open>retro_decoder_with_retriever\<close>; the file neither defines nor imports that name, so
  the statement raises \<^verbatim>\<open>NameError\<close>.
\<close>

definition ParallelTransformerLayer_init ::
  "config \<Rightarrow> args \<Rightarrow> nat \<Rightarrow> bool \<Rightarrow> nat \<Rightarrow> LayerType \<Rightarrow> AttnMaskType \<Rightarrow> real \<Rightarrow>
     error + ParallelTransformerLayer" where
  "ParallelTransformerLayer_init config args world_size get_retro_args_imported layer_number
       layer_type self_attn_mask_type drop_path_rate =
     ebind (ParallelAttention_init config args world_size layer_number AttnType_cross_attn
              self_attn_mask_type) (\<lambda>self_attention.
     ebind (if layer_type \<in> {LayerType_decoder, LayerType_retro_decoder,
                               LayerType_retro_decoder_with_retriever, LayerType_retro_encoder}
            then ebind (ParallelAttention_init config args world_size layer_number
                          AttnType_cross_attn AttnMaskType_padding)
                   (\<lambda>inter_attention. Inr (Some inter_attention))
            else Inr None) (\<lambda>inter_attention.
     let attention_mlp_config = config
           \<lparr>cfg_input_size := cfg_text_hidden_size config,
            cfg_ffn_hidden_size := cfg_text_hidden_size config * 4,
            cfg_output_size := cfg_text_hidden_size config,
            cfg_gated_linear_unit := True\<rparr>
     in
     ebind (Idefics2ParallelMLP_init attention_mlp_config args world_size) (\<lambda>mlp.
     if arg_retro_add_retriever args \<and> \<not> get_retro_args_imported then Inl NameError
     else if layer_type = LayerType_retro_decoder_with_retriever then Inl NameError
     else
       Inr \<lparr>ptl_layer_number = layer_number,
            ptl_layer_type = layer_type,
            ptl_apply_residual_connection_post_norm =
              cfg_apply_residual_connection_post_layernorm config,
            ptl_input_latents_norm = cfg_text_hidden_size config,
            ptl_input_context_norm = cfg_text_hidden_size config,
            ptl_self_attention = self_attention,
            ptl_hidden_dropout = cfg_hidden_dropout config,
            ptl_bias_dropout_fusion = cfg_bias_dropout_fusion config,
            ptl_drop_path = (if drop_path_rate > 0 then Some drop_path_rate else None),
            ptl_post_attention_norm = cfg_text_hidden_size config,
            ptl_inter_attention = inter_attention,
            ptl_mlp = mlp\<rparr>)))"

text \<open>
  \<^verbatim>\<open>bias_dropout_add\<close> (lines 709-715); the fused variants and the closure of
  \<^verbatim>\<open>get_bias_dropout_add\<close> call it. Dropout keeps the shape.
\<close>

definition bias_dropout_add :: "tshape \<Rightarrow> tshape option \<Rightarrow> tshape \<Rightarrow> error + tshape" where
  "bias_dropout_add x bias residual =
     ebind (case bias of None \<Rightarrow> Inr x | Some b \<Rightarrow> broadcast x b) (\<lambda>x.
       broadcast residual x)"

text \<open>\<^verbatim>\<open>DropPath.forward\<close> on shapes: the output has the shape of the input.\<close>

definition DropPath_forward_shape :: "real \<Rightarrow> bool \<Rightarrow> tshape \<Rightarrow> error + tshape" where
  "DropPath_forward_shape drop_prob training hidden_state =
     (if drop_prob = 0 \<or> \<not> training then Inr hidden_state
      else if length hidden_state < 2 then Inl IndexError
      else Inr hidden_state)"

text \<open>
  The two residual updates of the forward (lines 1071-1096 and 1112-1138) have one
  pattern. Without \<^verbatim>\<open>drop_path\<close> the bias is expanded to the residual and
  \<^verbatim>\<open>bias_dropout_add\<close> is called. With \<^verbatim>\<open>drop_path\<close> the first update adds the bias
  unconditionally (a \<^verbatim>\<open>TypeError\<close> when it is \<^verbatim>\<open>None\<close>), the second only when there is
  one; \<open>bias_required\<close> tells them apart.
\<close>

definition residual_update ::
  "ParallelTransformerLayer \<Rightarrow> bool \<Rightarrow> bool \<Rightarrow> tshape \<Rightarrow> tshape option \<Rightarrow> tshape \<Rightarrow>
     error + tshape" where
  "residual_update self training bias_required x bias residual =
     (case ptl_drop_path self of
        None \<Rightarrow>
          ebind (case bias of
                   None \<Rightarrow> Inr None
                 | Some b \<Rightarrow> ebind (expand_as b residual) (\<lambda>b. Inr (Some b))) (\<lambda>bias.
            bias_dropout_add x bias residual)
      | Some drop_prob \<Rightarrow>
          ebind (case bias of
                   None \<Rightarrow> if bias_required then Inl TypeError else Inr x
                 | Some b \<Rightarrow> broadcast x b) (\<lambda>out.
          ebind (DropPath_forward_shape drop_prob training out) (\<lambda>out.
            broadcast residual out)))"

text \<open>
  What a layer returns: a tensor, or the pair of a tensor and the
  \<^verbatim>\<open>retriever_output\<close> it was given.
\<close>

datatype layer_output = Single tshape | Pair tshape "tshape option"

text \<open>\<^verbatim>\<open>ParallelTransformerLayer.forward\<close> (lines 1043-1143) on shapes.\<close>

definition ParallelTransformerLayer_forward ::
  "ParallelTransformerLayer \<Rightarrow> bool \<Rightarrow> act_meta \<Rightarrow> tshape \<Rightarrow> tshape \<Rightarrow> attn_mask option \<Rightarrow>
     tshape option \<Rightarrow> tshape inference_params option \<Rightarrow>
     error + (layer_output \<times> tshape inference_params option)" where
  "ParallelTransformerLayer_forward self training meta latents context attention_mask
       retriever_output inference_params =
     (let residual = latents in
      ebind (norm_forward (ptl_input_latents_norm self) latents) (\<lambda>latents.
      ebind (norm_forward (ptl_input_context_norm self) context) (\<lambda>context.
      ebind (ParallelAttention_forward (ptl_self_attention self) training meta latents context
               attention_mask inference_params)
        (\<lambda>((attention_output, attention_bias), inference_params).
      ebind (residual_update self training True attention_output attention_bias residual)
        (\<lambda>norm_input.
      ebind (norm_forward (ptl_post_attention_norm self) norm_input) (\<lambda>norm_output.
      ebind (Idefics2ParallelMLP_forward (ptl_mlp self) norm_output) (\<lambda>(mlp_output, mlp_bias).
      let residual = (if ptl_apply_residual_connection_post_norm self then norm_output
                      else norm_input)
      in
      ebind (residual_update self training False mlp_output mlp_bias residual) (\<lambda>output.
        if ptl_layer_type self = LayerType_retro_decoder_with_retriever
        then Inr (Pair output retriever_output, inference_params)
        else Inr (Single output, inference_params)))))))))"

subsection \<open>Idefics2PerceiverParallelTransformer\<close>

text \<open>
  What the forward reads from the process: the tensor-parallel rank, the number of
  microbatches (\<^verbatim>\<open>get_num_microbatches()\<close>) and \<^verbatim>\<open>torch.is_grad_enabled()\<close>.
\<close>

record env =
  env_tensor_model_parallel_rank :: nat
  env_num_microbatches :: nat
  env_grad_enabled :: bool

text \<open>
  The members of \<^verbatim>\<open>self.layers\<close>: transformer layers, or the single
  \<^verbatim>\<open>NoopTransformerLayer\<close> of a stage without layers.
\<close>

datatype layer = TransformerLayer ParallelTransformerLayer | NoopTransformerLayer nat

text \<open>
  The module after its construction, with the fields the forward reads.
  \<open>pt_final_norm\<close> is there when \<^verbatim>\<open>post_process and post_norm\<close> held at construction.
\<close>

record Idefics2PerceiverParallelTransformer =
  pt_args :: args
  pt_post_norm :: bool
  pt_pre_process :: bool
  pt_post_process :: bool
  pt_input_tensor :: "tshape option"
  pt_transformer_impl :: string
  pt_recompute_granularity :: "string option"
  pt_recompute_method :: "string option"
  pt_recompute_num_layers :: "nat option"
  pt_sequence_parallel :: bool
  pt_num_microbatches_in_previous_step :: int
  pt_microbatch_count :: nat
  pt_num_layers :: nat
  pt_modality_projection :: Idefics2ParallelMLP
  pt_n_latents :: nat
  pt_latents :: tshape
  pt_layers :: "layer list"
  pt_final_norm :: "nat option"
  pt_training :: bool

text \<open>\<^verbatim>\<open>_get_layer\<close>: \<^verbatim>\<open>self.layers[layer_number]\<close>.\<close>

definition get_layer :: "Idefics2PerceiverParallelTransformer \<Rightarrow> nat \<Rightarrow> error + layer" where
  "get_layer self layer_number =
     (if layer_number < length (pt_layers self) then Inr (pt_layers self ! layer_number)
      else Inl IndexError)"

text \<open>
  One call \<^verbatim>\<open>layer(compressed_context, context, attention_mask, ...)\<close>. The no-op layer
  takes at most five positional arguments, and the call passes \<^verbatim>\<open>encoder_output\<close> by
  position and by keyword or eleven arguments by position; a transformer layer takes
  none of the keywords of the engine-accelerated implementation; and a layer whose
  input is the pair that the previous layer returned fails in its first normalisation.
  Each of these is a \<^verbatim>\<open>TypeError\<close>.
\<close>

definition call_layer ::
  "Idefics2PerceiverParallelTransformer \<Rightarrow> act_meta \<Rightarrow> layer \<Rightarrow> layer_output \<Rightarrow> tshape \<Rightarrow>
     attn_mask option \<Rightarrow> tshape option \<Rightarrow> tshape inference_params option \<Rightarrow>
     error + (layer_output \<times> tshape inference_params option)" where
  "call_layer self meta l compressed_context context attention_mask retriever_output
       inference_params =
     (if pt_transformer_impl self = ''transformer_engine'' then Inl TypeError
      else
        (case l of
           NoopTransformerLayer _ \<Rightarrow> Inl TypeError
         | TransformerLayer transformer_layer \<Rightarrow>
             (case compressed_context of
                Pair _ _ \<Rightarrow> Inl TypeError
              | Single latents \<Rightarrow>
                  ParallelTransformerLayer_forward transformer_layer (pt_training self) meta
                    latents context attention_mask retriever_output inference_params)))"

text \<open>
  The loop \<^verbatim>\<open>for index in range(start, end)\<close>, of the plain forward (lines 1696-1703,
  with the caller's \<^verbatim>\<open>retriever_output\<close> and \<^verbatim>\<open>inference_params\<close>) and of
  \<^verbatim>\<open>custom_forward\<close> (lines 1498-1501, with \<^verbatim>\<open>None\<close> for both).
\<close>

fun run_layers ::
  "Idefics2PerceiverParallelTransformer \<Rightarrow> act_meta \<Rightarrow> nat list \<Rightarrow> layer_output \<Rightarrow> tshape \<Rightarrow>
     attn_mask option \<Rightarrow> tshape option \<Rightarrow> tshape inference_params option \<Rightarrow>
     error + (layer_output \<times> tshape inference_params option)" where
  "run_layers self meta [] x context attention_mask retriever_output inference_params =
     Inr (x, inference_params)"
| "run_layers self meta (index # rest) x context attention_mask retriever_output
       inference_params =
     ebind (get_layer self index) (\<lambda>l.
     ebind (call_layer self meta l x context attention_mask retriever_output inference_params)
       (\<lambda>(x, inference_params).
       run_layers self meta rest x context attention_mask retriever_output inference_params))"

text \<open>
  \<^verbatim>\<open>compressed_context.isnan()\<close> after a checkpointed chunk of the local
  implementation, evaluated on tensor-parallel rank 0: a pair has no such method.
\<close>

definition nan_check :: "env \<Rightarrow> layer_output \<Rightarrow> error + layer_output" where
  "nan_check e x =
     (if env_tensor_model_parallel_rank e = 0
      then (case x of Single _ \<Rightarrow> Inr x | Pair _ _ \<Rightarrow> Inl AttributeError)
      else Inr x)"

text \<open>
  The \<^verbatim>\<open>while\<close> loop of the method \<^verbatim>\<open>'uniform'\<close> (lines 1514-1533) for a positive
  \<^verbatim>\<open>recompute_num_layers\<close>; the distance of \<open>l\<close> to \<^verbatim>\<open>num_layers\<close> decreases.
\<close>

function uniform_loop ::
  "Idefics2PerceiverParallelTransformer \<Rightarrow> env \<Rightarrow> act_meta \<Rightarrow> nat \<Rightarrow> nat \<Rightarrow> layer_output \<Rightarrow>
     tshape \<Rightarrow> attn_mask option \<Rightarrow> error + layer_output" where
  "uniform_loop self e meta recompute_num_layers l x context attention_mask =
     (if recompute_num_layers = 0 then Inr x
      else if l < pt_num_layers self then
        ebind (run_layers self meta [l..<l + recompute_num_layers] x context attention_mask
                 None None) (\<lambda>(x, _).
        ebind (if pt_transformer_impl self = ''transformer_engine'' then Inr x
               else nan_check e x) (\<lambda>x.
          uniform_loop self e meta recompute_num_layers (l + recompute_num_layers) x context
            attention_mask))
      else Inr x)"
  by pat_completeness auto
termination
  by (relation "measure (\<lambda>(self, e, meta, k, l, x, context, attention_mask).
        pt_num_layers self - l)") auto

declare uniform_loop.simps [simp del]

text \<open>The \<^verbatim>\<open>for\<close> loop of the method \<^verbatim>\<open>'block'\<close> (lines 1539-1565).\<close>

fun block_loop ::
  "Idefics2PerceiverParallelTransformer \<Rightarrow> act_meta \<Rightarrow> nat list \<Rightarrow> layer_output \<Rightarrow> tshape \<Rightarrow>
     attn_mask option \<Rightarrow> error + layer_output" where
  "block_loop self meta [] x context attention_mask = Inr x"
| "block_loop self meta (l # rest) x context attention_mask =
     (case pt_recompute_num_layers self of
        None \<Rightarrow> Inl TypeError
      | Some recompute_num_layers \<Rightarrow>
          ebind (run_layers self meta [l..<l + 1] x context attention_mask None None)
            (\<lambda>(x, _). block_loop self meta rest x context attention_mask))"

text \<open>
  \<^verbatim>\<open>_checkpointed_forward\<close> (lines 1491-1569). The result \<open>None\<close> stands for a call that
  does not return: with \<^verbatim>\<open>recompute_num_layers = 0\<close> the \<^verbatim>\<open>while\<close> loop of
  \<^verbatim>\<open>'uniform'\<close> never advances \<open>l\<close>.
\<close>

definition checkpointed_forward ::
  "Idefics2PerceiverParallelTransformer \<Rightarrow> env \<Rightarrow> act_meta \<Rightarrow> layer_output \<Rightarrow> tshape \<Rightarrow>
     attn_mask option \<Rightarrow> (error + layer_output) option" where
  "checkpointed_forward self e meta compressed_context context attention_mask =
     (if pt_recompute_method self = Some ''uniform'' then
        (if 0 < pt_num_layers self then
           (case pt_recompute_num_layers self of
              None \<Rightarrow> Some (Inl TypeError)
            | Some recompute_num_layers \<Rightarrow>
                if recompute_num_layers = 0 then None
                else Some (uniform_loop self e meta recompute_num_layers 0 compressed_context
                             context attention_mask))
         else Some (Inr compressed_context))
      else if pt_recompute_method self = Some ''block'' then
        Some (block_loop self meta [0..<pt_num_layers self] compressed_context context
                attention_mask)
      else Some (Inl ValueError))"

text \<open>
  \<^verbatim>\<open>_prepare_4d_attention_mask(mask, dtype, tgt_len)\<close> of transformers: a mask
  \<open>[bsz, src_len]\<close> becomes an additive mask \<open>[bsz, 1, tgt_len, src_len]\<close>.
\<close>

definition prepare_4d_attention_mask :: "bool list list \<Rightarrow> nat \<Rightarrow> attn_mask" where
  "prepare_4d_attention_mask rows tgt_len =
     AdditiveMask [length rows, 1, tgt_len, (case rows of [] \<Rightarrow> 0 | row # _ \<Rightarrow> length row)]"

text \<open>\<^verbatim>\<open>x.transpose(1, 0)\<close>.\<close>

definition transpose_1_0 :: "tshape \<Rightarrow> error + tshape" where
  "transpose_1_0 x = (case x of b # s # rest \<Rightarrow> Inr (s # b # rest) | _ \<Rightarrow> Inl IndexError)"

text \<open>
  The part of the forward before the layers (lines 1592-1664): the checks, the modality
  projection, the microbatch counter, the latents and the mask. \<open>attention_mask\<close> is the
  2-D padding mask, given by its rows. The result is \<^verbatim>\<open>hidden_states\<close>, the two inputs
  of the layers in sequence-first layout, the mask for the layers and the module with
  its counters.
\<close>

definition forward_prepare ::
  "Idefics2PerceiverParallelTransformer \<Rightarrow> env \<Rightarrow> tshape \<Rightarrow> bool list list \<Rightarrow>
     tshape inference_params option \<Rightarrow>
     error + (tshape \<times> tshape \<times> tshape \<times> attn_mask \<times> Idefics2PerceiverParallelTransformer)" where
  "forward_prepare self e hidden_states attention_mask inference_params =
     (if inference_params \<noteq> None \<and> pt_recompute_granularity self \<noteq> None then Inl AssertionError
      else
        ebind (if \<not> pt_pre_process self
               then (case pt_input_tensor self of None \<Rightarrow> Inl AttributeError | Some t \<Rightarrow> Inr t)
               else Inr hidden_states) (\<lambda>hidden_states.
        ebind (Idefics2ParallelMLP_forward (pt_modality_projection self) hidden_states)
          (\<lambda>(context, _).
        let self = (if pt_num_microbatches_in_previous_step self \<noteq> int (env_num_microbatches e)
                    then self\<lparr>pt_microbatch_count := 0\<rparr> else self);
            self = self\<lparr>pt_num_microbatches_in_previous_step := int (env_num_microbatches e)\<rparr>
        in
        if env_num_microbatches e = 0 then Inl ZeroDivisionError
        else
        ebind (size_at hidden_states 0) (\<lambda>batch.
        let latents = batch # pt_latents self in
        ebind (size_at latents 1) (\<lambda>latent_length.
        let attention_mask = map (\<lambda>row. row @ replicate latent_length True) attention_mask;
            attention_mask =
              (if \<not> arg_use_flash_attn (pt_args self)
               then prepare_4d_attention_mask attention_mask (pt_n_latents self)
               else PaddingMask attention_mask)
        in
        ebind (transpose_1_0 context) (\<lambda>context.
        ebind (transpose_1_0 latents) (\<lambda>compressed_context.
          Inr (hidden_states, compressed_context, context, attention_mask, self))))))))"

text \<open>
  \<^verbatim>\<open>Idefics2PerceiverParallelTransformer.forward\<close> (lines 1581-1723). After the layers
  the counter advances in training mode with gradients enabled, and the final
  normalisation is applied to \<^verbatim>\<open>compressed_context\<close> under
  \<^verbatim>\<open>post_process and post_norm\<close>; the value returned is \<^verbatim>\<open>hidden_states\<close>.
\<close>

definition Idefics2PerceiverParallelTransformer_forward ::
  "Idefics2PerceiverParallelTransformer \<Rightarrow> env \<Rightarrow> act_meta \<Rightarrow> tshape \<Rightarrow> bool list list \<Rightarrow>
     tshape option \<Rightarrow> tshape inference_params option \<Rightarrow>
     (error + (tshape \<times> Idefics2PerceiverParallelTransformer)) option" where
  "Idefics2PerceiverParallelTransformer_forward self e meta hidden_states attention_mask
       retriever_output inference_params =
     (case forward_prepare self e hidden_states attention_mask inference_params of
        Inl err \<Rightarrow> Some (Inl err)
      | Inr (hidden_states, compressed_context, context, attention_mask, self) \<Rightarrow>
          (case (if pt_recompute_granularity self = Some ''full''
                 then checkpointed_forward self e meta (Single compressed_context) context
                        (Some attention_mask)
                 else Some (ebind (run_layers self meta [0..<pt_num_layers self]
                                     (Single compressed_context) context (Some attention_mask)
                                     retriever_output inference_params)
                              (\<lambda>(x, _). Inr x))) of
             None \<Rightarrow> None
           | Some (Inl err) \<Rightarrow> Some (Inl err)
           | Some (Inr compressed_context) \<Rightarrow>
               (let self = (if env_grad_enabled e \<and> pt_training self
                            then self\<lparr>pt_microbatch_count := pt_microbatch_count self + 1\<rparr>
                            else self)
                in if pt_post_process self \<and> pt_post_norm self then
                     (case pt_final_norm self of
                        None \<Rightarrow> Some (Inl AttributeError)
                      | Some hidden_size \<Rightarrow>
                          (case compressed_context of
                             Pair _ _ \<Rightarrow> Some (Inl TypeError)
                           | Single t \<Rightarrow>
                               (case norm_forward hidden_size t of
                                  Inl err \<Rightarrow> Some (Inl err)
                                | Inr hidden_states \<Rightarrow> Some (Inr (hidden_states, self)))))
                   else Some (Inr (hidden_states, self)))))"

subsection \<open>Loading a state dictionary\<close>

text \<open>
  Python's \<^verbatim>\<open>str.replace(old, new)\<close>: the occurrences of \<open>old\<close> are replaced from left
  to right, without overlap, in one pass (an empty \<open>old\<close> matches between all
  characters).
\<close>

function str_replace :: "string \<Rightarrow> string \<Rightarrow> string \<Rightarrow> string" where
  "str_replace old new s =
     (if old = [] then new @ concat (map (\<lambda>c. c # new) s)
      else
        (case s of
           [] \<Rightarrow> []
         | c # cs \<Rightarrow>
             if take (length old) s = old
             then new @ str_replace old new (drop (length old) s)
             else c # str_replace old new cs))"
  by pat_completeness auto
termination
  by (relation "measure (\<lambda>(old, new, s). length s)") auto

declare str_replace.simps [simp del]

text \<open>
  A dictionary as the list of its items in insertion order. \<^verbatim>\<open>d[k] = v\<close> replaces the
  value of a key that is present and appends the item otherwise.
\<close>

fun dict_set :: "('k \<times> 'v) list \<Rightarrow> 'k \<Rightarrow> 'v \<Rightarrow> ('k \<times> 'v) list" where
  "dict_set [] k v = [(k, v)]"
| "dict_set ((k', v') # d) k v =
     (if k' = k then (k, v) # d else (k', v') # dict_set d k v)"

text \<open>
  \<^verbatim>\<open>load_state_dict\<close> (lines 1725-1741) builds the renamed dictionary and hands it to
  \<^verbatim>\<open>super().load_state_dict\<close>, which is torch's; the result is the pair of arguments of
  that call. \<open>state_dict\<close> is the dictionary given by its items.
\<close>

record 'v load_call =
  lc_state_dict :: "(string \<times> 'v) list"
  lc_strict :: bool

definition load_state_dict :: "args \<Rightarrow> (string \<times> 'v) list \<Rightarrow> bool \<Rightarrow> 'v load_call" where
  "load_state_dict args state_dict strict =
     (let renamed_state_dict =
            foldl (\<lambda>d (key, v).
                if arg_transformer_impl args \<noteq> ''transformer_engine''
                then dict_set d (str_replace ''layernorm'' ''norm'' key) v
                else dict_set d key v)
              [] state_dict
      in if arg_use_mistral_rotary_position_embeddings args
         then \<lparr>lc_state_dict = renamed_state_dict, lc_strict = strict\<rparr>
         else \<lparr>lc_state_dict = renamed_state_dict, lc_strict = False\<rparr>)"

subsection \<open>Example configurations\<close>

text \<open>
  A configuration of the resampler with \<open>n_latents = 64\<close> and
  \<open>text_hidden_size = 256\<close>, 8 heads of 32 channels, two layers and the swiglu
  activation; the properties below are instantiated on it and on variants of it.
\<close>

definition example_config :: config where
  "example_config =
     \<lparr>cfg_add_bias_linear = False, cfg_ffn_hidden_size = 1024,
      cfg_gated_linear_unit = False, cfg_input_size = 0, cfg_output_size = 0,
      cfg_hidden_size = 256, cfg_text_hidden_size = 256, cfg_vision_hidden_size = 128,
      cfg_intermediate_size = 512, cfg_kv_channels = 32, cfg_num_attention_heads = 8,
      cfg_num_layers = 2, cfg_n_latents = 64, cfg_sequence_parallel = False,
      cfg_recompute_granularity = None, cfg_recompute_method = None,
      cfg_recompute_num_layers = None,
      cfg_apply_residual_connection_post_layernorm = False,
      cfg_bias_dropout_fusion = False, cfg_hidden_dropout = 0, cfg_attention_dropout = 0,
      cfg_virtual_pipeline_model_parallel_size = None\<rparr>"

definition example_args :: args where
  "example_args =
     \<lparr>arg_openai_gelu = False, arg_onnx_safe = False, arg_swiglu = True,
      arg_squared_relu = False, arg_bias_gelu_fusion = False, arg_use_flash_attn = False,
      arg_group_query_attention = False, arg_num_query_groups = 1,
      arg_add_bias_linear = False, arg_retro_add_retriever = False,
      arg_transformer_impl = ''local'',
      arg_use_mistral_rotary_position_embeddings = False, arg_num_layers = 2,
      arg_fp8 = None\<rparr>"

text \<open>A gated MLP from 8 to 4 features with \<open>ffn_hidden_size = 16\<close>.\<close>

definition example_mlp_config :: config where
  "example_mlp_config =
     example_config\<lparr>cfg_input_size := 8, cfg_ffn_hidden_size := 16, cfg_output_size := 4,
       cfg_gated_linear_unit := True\<rparr>"

text \<open>
  The attention layer that \<^verbatim>\<open>ParallelAttention.__init__\<close> builds from the example
  configuration on a tensor-parallel world of size 2, and inference parameters for a
  cache of 8 positions and 2 batch rows, two positions of which are taken.
\<close>

definition example_attention :: ParallelAttention where
  "example_attention =
     \<lparr>pa_layer_number = 1, pa_sequence_parallel = False, pa_use_flash_attn = False,
      pa_hidden_size_per_attention_head = 32, pa_hidden_size_per_attention_head_query = 32,
      pa_hidden_size_per_attention_head_kv = 32, pa_num_attention_heads_per_partition = 4,
      pa_num_attention_heads_per_partition_kv = 4, pa_num_query_groups_per_partition = 4,
      pa_query = \<lparr>pl_in = 256, pl_out = 128, pl_bias = False, pl_skip_bias_add = False\<rparr>,
      pa_key_value = \<lparr>pl_in = 256, pl_out = 256, pl_bias = False, pl_skip_bias_add = False\<rparr>,
      pa_core_attention =
        \<lparr>ca_layer_number = 1, ca_sequence_parallel = False, ca_hidden_size_per_partition = 128,
         ca_hidden_size_per_attention_head = 32, ca_num_attention_heads_per_partition = 4\<rparr>,
      pa_checkpoint_core_attention = False, pa_core_attention_flash = None,
      pa_dense = \<lparr>pl_in = 128, pl_out = 256, pl_bias = False, pl_skip_bias_add = True\<rparr>\<rparr>"

definition example_inference_params :: "nat ctensor inference_params" where
  "example_inference_params =
     \<lparr>ip_max_sequence_length = 8, ip_max_batch_size = 2, ip_sequence_len_offset = 2,
      ip_batch_size_offset = 0, ip_key_value_memory_dict = Map.empty\<rparr>"

text \<open>
  What \<^verbatim>\<open>torch.empty\<close> leaves in a fresh buffer (zeros, say), the buffer that the example
  attention layer allocates for these parameters, and a key of a given length for two
  batch rows.
\<close>

definition example_uninit :: "nat \<Rightarrow> nat \<Rightarrow> nat \<Rightarrow> nat \<Rightarrow> nat" where
  "example_uninit s b h d = 0"

definition example_memory :: "nat ctensor" where
  "example_memory = \<lparr>ct_size = [8, 2, 4, 32], ct_at = example_uninit\<rparr>"

definition example_key :: "nat \<Rightarrow> nat ctensor" where
  "example_key sk = \<lparr>ct_size = [sk, 2, 4, 32], ct_at = (\<lambda>s b h d. 100 + s)\<rparr>"

text \<open>
  The encoder layer that \<^verbatim>\<open>ParallelTransformerLayer.__init__\<close> builds from the example
  configuration for a layer number, the resampler with two such layers, its modality
  projection from 128 to 256 features and its final normalisation, in the state
  \<^verbatim>\<open>__init__\<close> leaves it in, and a process on tensor-parallel rank 0 with one microbatch.
\<close>

definition example_layer :: "nat \<Rightarrow> ParallelTransformerLayer" where
  "example_layer layer_number =
     \<lparr>ptl_layer_number = layer_number, ptl_layer_type = LayerType_encoder,
      ptl_apply_residual_connection_post_norm = False,
      ptl_input_latents_norm = 256, ptl_input_context_norm = 256,
      ptl_self_attention = example_attention
        \<lparr>pa_layer_number := layer_number,
         pa_core_attention :=
           (pa_core_attention example_attention)\<lparr>ca_layer_number := layer_number\<rparr>\<rparr>,
      ptl_hidden_dropout = 0, ptl_bias_dropout_fusion = False, ptl_drop_path = None,
      ptl_post_attention_norm = 256, ptl_inter_attention = None,
      ptl_mlp =
        \<lparr>mlp_add_bias = False,
         mlp_dense_h_to_4h =
           \<lparr>pl_in = 256, pl_out = 1024, pl_bias = False, pl_skip_bias_add = True\<rparr>,
         mlp_bias_gelu_fusion = False, mlp_activation_func = swiglu, mlp_swiglu = True,
         mlp_dense_4h_to_h =
           \<lparr>pl_in = 512, pl_out = 256, pl_bias = False, pl_skip_bias_add = True\<rparr>\<rparr>\<rparr>"

definition example_transformer :: Idefics2PerceiverParallelTransformer where
  "example_transformer =
     \<lparr>pt_args = example_args, pt_post_norm = True, pt_pre_process = True,
      pt_post_process = True, pt_input_tensor = None, pt_transformer_impl = ''local'',
      pt_recompute_granularity = None, pt_recompute_method = None,
      pt_recompute_num_layers = None, pt_sequence_parallel = False,
      pt_num_microbatches_in_previous_step = - 1, pt_microbatch_count = 0,
      pt_num_layers = 2,
      pt_modality_projection =
        \<lparr>mlp_add_bias = False,
         mlp_dense_h_to_4h =
           \<lparr>pl_in = 128, pl_out = 512, pl_bias = False, pl_skip_bias_add = True\<rparr>,
         mlp_bias_gelu_fusion = False, mlp_activation_func = swiglu, mlp_swiglu = True,
         mlp_dense_4h_to_h =
           \<lparr>pl_in = 256, pl_out = 256, pl_bias = False, pl_skip_bias_add = True\<rparr>\<rparr>,
      pt_n_latents = 64, pt_latents = [64, 256],
      pt_layers = [TransformerLayer (example_layer 1), TransformerLayer (example_layer 2)],
      pt_final_norm = Some 256, pt_training = True\<rparr>"

definition example_env :: env where
  "example_env =
     \<lparr>env_tensor_model_parallel_rank = 0, env_num_microbatches = 1, env_grad_enabled = True\<rparr>"

section \<open>Properties\<close>

subsection \<open>Results as sums\<close>

lemma ebind_simps [simp]:
  "ebind (Inl e) f = Inl e" "ebind (Inr x) f = f x"
  by (simp_all add: ebind_def)

lemma ebind_eq_Inr: "ebind m f = Inr y \<longleftrightarrow> (\<exists>x. m = Inr x \<and> f x = Inr y)"
  by (cases m) auto

lemma ebind_Inl_all:
  assumes "\<And>x. \<exists>e. f x = Inl e"
  shows "\<exists>e. ebind m f = Inl e"
  using assms by (cases m) auto

lemma utils_divide_Inr:
  "utils_divide n d = Inr q \<longleftrightarrow> 0 < d \<and> d dvd n \<and> q = n div d"
  by (auto simp: utils_divide_def)


subsection \<open>The example configurations, field by field\<close>

lemma example_config_fields:
  "cfg_add_bias_linear example_config = False"
  "cfg_ffn_hidden_size example_config = 1024"
  "cfg_gated_linear_unit example_config = False"
  "cfg_hidden_size example_config = 256"
  "cfg_text_hidden_size example_config = 256"
  "cfg_vision_hidden_size example_config = 128"
  "cfg_intermediate_size example_config = 512"
  "cfg_kv_channels example_config = 32"
  "cfg_num_attention_heads example_config = 8"
  "cfg_num_layers example_config = 2"
  "cfg_n_latents example_config = 64"
  "cfg_sequence_parallel example_config = False"
  "cfg_recompute_granularity example_config = None"
  "cfg_recompute_method example_config = None"
  "cfg_recompute_num_layers example_config = None"
  "cfg_apply_residual_connection_post_layernorm example_config = False"
  "cfg_bias_dropout_fusion example_config = False"
  "cfg_hidden_dropout example_config = 0"
  "cfg_attention_dropout example_config = 0"
  "cfg_virtual_pipeline_model_parallel_size example_config = None"
  by (simp_all add: example_config_def)

lemma example_args_fields:
  "arg_openai_gelu example_args = False"
  "arg_onnx_safe example_args = False"
  "arg_swiglu example_args = True"
  "arg_squared_relu example_args = False"
  "arg_bias_gelu_fusion example_args = False"
  "arg_use_flash_attn example_args = False"
  "arg_group_query_attention example_args = False"
  "arg_num_query_groups example_args = 1"
  "arg_add_bias_linear example_args = False"
  "arg_retro_add_retriever example_args = False"
  "arg_transformer_impl example_args = ''local''"
  "arg_use_mistral_rotary_position_embeddings example_args = False"
  "arg_num_layers example_args = 2"
  "arg_fp8 example_args = None"
  by (simp_all add: example_args_def)

lemma example_mlp_config_fields:
  "cfg_add_bias_linear example_mlp_config = False"
  "cfg_ffn_hidden_size example_mlp_config = 16"
  "cfg_gated_linear_unit example_mlp_config = True"
  "cfg_input_size example_mlp_config = 8"
  "cfg_output_size example_mlp_config = 4"
  by (simp_all add: example_mlp_config_def example_config_fields)

lemma example_attention_fields:
  "pa_layer_number example_attention = 1"
  "pa_num_query_groups_per_partition example_attention = 4"
  "pa_hidden_size_per_attention_head_query example_attention = 32"
  by (simp_all add: example_attention_def)

subsection \<open>DropPath\<close>

text \<open>
  C7. \<^verbatim>\<open>DropPath.forward\<close> is the identity when the drop probability is 0 or the
  module is in evaluation mode: the output is the input tensor itself, for every
  shape, every content and every random draw.
\<close>

theorem DropPath_forward_identity:
  "drop_prob = 0 \<or> \<not> training \<Longrightarrow>
     DropPath_forward drop_prob training rand hidden_state = Inr hidden_state"
  by (auto simp: DropPath_forward_def)

theorem DropPath_forward_identity_witness:
  "DropPath_forward 0 True (\<lambda>j. 1 / 3) \<lparr>shape = [2, 1, 1], data = [5, 7]\<rparr>
     = Inr \<lparr>shape = [2, 1, 1], data = [5, 7]\<rparr>
   \<and> DropPath_forward (1 / 2) False (\<lambda>j. 1 / 3) \<lparr>shape = [3], data = [1, 2, 3]\<rparr>
     = Inr \<lparr>shape = [3], data = [1, 2, 3]\<rparr>"
  using DropPath_forward_identity [of 0 True "\<lambda>j. 1 / 3" "\<lparr>shape = [2, 1, 1], data = [5, 7]\<rparr>"]
    DropPath_forward_identity [of "1 / 2" False "\<lambda>j. 1 / 3" "\<lparr>shape = [3], data = [1, 2, 3]\<rparr>"]
  by simp

subsection \<open>Idefics2ParallelMLP\<close>

lemma broadcast_rev_same: "broadcast_rev xs xs = Inr xs"
  by (induction xs) auto

lemma broadcast_same: "broadcast x x = Inr x"
  by (simp add: broadcast_def broadcast_rev_same)

lemma broadcast_bias: "broadcast (pre @ [w]) [w] = Inr (pre @ [w])"
  by (cases "rev pre") (auto simp: broadcast_def)

lemma broadcast_last:
  "broadcast (pre @ [a]) (pre @ [b]) =
     (if a = b \<or> b = 1 then Inr (pre @ [a]) else if a = 1 then Inr (pre @ [b]) else Inl RuntimeError)"
  by (simp add: broadcast_def broadcast_rev_same)

lemma swiglu_fn_last:
  "swiglu_fn (pre @ [w]) =
     (if w = 0 then Inr (pre @ [0]) else if w = 1 then Inl IndexError
      else if even w \<or> w = 3 then Inr (pre @ [(w + 1) div 2]) else Inl RuntimeError)"
  apply (auto simp: swiglu_fn_def broadcast_last Let_def elim!: evenE oddE)
  done

lemma parallel_linear_forward_last:
  "parallel_linear_forward l (pre @ [w]) =
     (if w = pl_in l
      then Inr (pre @ [pl_out l], if pl_bias l \<and> pl_skip_bias_add l then Some [pl_out l] else None)
      else Inl RuntimeError)"
  by (simp add: parallel_linear_forward_def)

lemma Idefics2ParallelMLP_init_Inr:
  assumes "Idefics2ParallelMLP_init config args world_size = Inr self"
  shows "0 < world_size" and "world_size dvd cfg_ffn_hidden_size config"
    and "mlp_add_bias self = cfg_add_bias_linear config"
    and "mlp_dense_h_to_4h self =
           \<lparr>pl_in = cfg_input_size config,
            pl_out = (if cfg_gated_linear_unit config then cfg_ffn_hidden_size config * 2
                      else cfg_ffn_hidden_size config) div world_size,
            pl_bias = cfg_add_bias_linear config, pl_skip_bias_add = True\<rparr>"
    and "mlp_dense_4h_to_h self =
           \<lparr>pl_in = cfg_ffn_hidden_size config div world_size, pl_out = cfg_output_size config,
            pl_bias = cfg_add_bias_linear config, pl_skip_bias_add = True\<rparr>"
    and "mlp_bias_gelu_fusion self \<Longrightarrow> mlp_activation_func self = F_gelu"
  using assms
  by (auto simp: Idefics2ParallelMLP_init_def ColumnParallelLinear_init_def
      RowParallelLinear_init_def ebind_eq_Inr utils_divide_Inr Let_def split: if_splits)

lemma parallel_linear_forward_3d:
  "parallel_linear_forward l [S, B, w] =
     (if w = pl_in l
      then Inr ([S, B, pl_out l], if pl_bias l \<and> pl_skip_bias_add l then Some [pl_out l] else None)
      else Inl RuntimeError)"
  using parallel_linear_forward_last [of l "[S, B]" w] by simp

lemma broadcast_bias_3d: "broadcast [S, B, w] [w] = Inr [S, B, w]"
  using broadcast_bias [of "[S, B]" w] by simp

lemma swiglu_fn_3d:
  "swiglu_fn [S, B, w] =
     (if w = 0 then Inr [S, B, 0] else if w = 1 then Inl IndexError
      else if even w \<or> w = 3 then Inr [S, B, (w + 1) div 2] else Inl RuntimeError)"
  using swiglu_fn_last [of "[S, B]" w] by simp

text \<open>
  C3, as the code has it. On an input of shape \<open>(S, B, input_size)\<close> every result of
  \<^verbatim>\<open>Idefics2ParallelMLP.forward\<close> has shape \<open>(S, B, output_size)\<close>, and the forward
  returns one when the doubling of the hidden width matches the activation:
  \<^verbatim>\<open>gated_linear_unit\<close> is set exactly when the swiglu branch is the active one (and
  the fused bias-gelu path has a bias). With \<open>ffn_hidden_size > 0\<close> it raises in every
  other configuration: the width that reaches \<^verbatim>\<open>dense_4h_to_h\<close> is not the one its
  weight has.
\<close>

theorem Idefics2ParallelMLP_forward_shape:
  assumes init: "Idefics2ParallelMLP_init config args world_size = Inr self"
  shows "(Idefics2ParallelMLP_forward self [S, B, cfg_input_size config] = Inr (out, out_bias)
            \<longrightarrow> out = [S, B, cfg_output_size config])
       \<and> ((cfg_gated_linear_unit config \<longleftrightarrow> mlp_activation_func self = swiglu)
            \<and> (mlp_bias_gelu_fusion self \<longrightarrow> mlp_add_bias self)
          \<longrightarrow> Idefics2ParallelMLP_forward self [S, B, cfg_input_size config]
                = Inr ([S, B, cfg_output_size config],
                       if cfg_add_bias_linear config then Some [cfg_output_size config] else None))
       \<and> (0 < cfg_ffn_hidden_size config
            \<and> \<not> ((cfg_gated_linear_unit config \<longleftrightarrow> mlp_activation_func self = swiglu)
                  \<and> (mlp_bias_gelu_fusion self \<longrightarrow> mlp_add_bias self))
          \<longrightarrow> (\<exists>e. Idefics2ParallelMLP_forward self [S, B, cfg_input_size config] = Inl e))"
proof -
  note I = Idefics2ParallelMLP_init_Inr [OF init]
  define w where "w = cfg_ffn_hidden_size config div world_size"
  have ffn: "cfg_ffn_hidden_size config = world_size * w"
    using I(1,2) by (simp add: w_def)
  have w2: "cfg_ffn_hidden_size config * 2 div world_size = 2 * w"
    using I(1) by (simp add: ffn)
  have wpos: "0 < cfg_ffn_hidden_size config \<Longrightarrow> 0 < w"
    using I(1) by (simp add: ffn)
  have h4h: "mlp_dense_h_to_4h self =
      \<lparr>pl_in = cfg_input_size config,
       pl_out = (if cfg_gated_linear_unit config then 2 * w else w),
       pl_bias = cfg_add_bias_linear config, pl_skip_bias_add = True\<rparr>"
    by (simp add: I(4) w2 w_def)
  have lin: "parallel_linear_forward (mlp_dense_4h_to_h self) [S, B, v] =
      (if v = w then Inr ([S, B, cfg_output_size config],
                          if cfg_add_bias_linear config then Some [cfg_output_size config] else None)
       else Inl RuntimeError)" for v
    by (auto simp: parallel_linear_forward_3d I(5) w_def)
  have act: "apply_activation f [S, B, v] =
      (if f = swiglu then swiglu_fn [S, B, v] else Inr [S, B, v])" for f v
    by (simp add: apply_activation_def)
  have fwd: "Idefics2ParallelMLP_forward self [S, B, cfg_input_size config] =
      (if mlp_bias_gelu_fusion self \<and> \<not> mlp_add_bias self then Inl AssertionError
       else if mlp_activation_func self = swiglu
         then ebind (swiglu_fn [S, B, if cfg_gated_linear_unit config then 2 * w else w])
                (parallel_linear_forward (mlp_dense_4h_to_h self))
       else parallel_linear_forward (mlp_dense_4h_to_h self)
              [S, B, if cfg_gated_linear_unit config then 2 * w else w])"
    using I(6)
    by (auto simp: Idefics2ParallelMLP_forward_def parallel_linear_forward_3d h4h
        broadcast_bias_3d act)
  have sw: "ebind (swiglu_fn [S, B, 2 * w]) (parallel_linear_forward (mlp_dense_4h_to_h self)) =
      Inr ([S, B, cfg_output_size config],
           if cfg_add_bias_linear config then Some [cfg_output_size config] else None)"
    by (cases "w = 0") (auto simp: swiglu_fn_3d lin)
  have sw_bad: "0 < w \<Longrightarrow>
      \<exists>e. ebind (swiglu_fn [S, B, w]) (parallel_linear_forward (mlp_dense_4h_to_h self)) = Inl e"
    by (auto simp: swiglu_fn_3d lin)
  have sw_out: "ebind (swiglu_fn [S, B, v]) (parallel_linear_forward (mlp_dense_4h_to_h self))
        = Inr (out, out_bias) \<Longrightarrow> out = [S, B, cfg_output_size config]" for v
    by (auto simp: swiglu_fn_3d lin split: if_splits)
  have c1: "Idefics2ParallelMLP_forward self [S, B, cfg_input_size config] = Inr (out, out_bias)
            \<longrightarrow> out = [S, B, cfg_output_size config]"
    using sw_out by (auto simp: fwd lin split: if_splits)
  have c2: "(cfg_gated_linear_unit config \<longleftrightarrow> mlp_activation_func self = swiglu)
            \<and> (mlp_bias_gelu_fusion self \<longrightarrow> mlp_add_bias self)
          \<longrightarrow> Idefics2ParallelMLP_forward self [S, B, cfg_input_size config]
                = Inr ([S, B, cfg_output_size config],
                       if cfg_add_bias_linear config then Some [cfg_output_size config] else None)"
    using sw by (simp add: fwd lin)
  have c3: "0 < cfg_ffn_hidden_size config
            \<and> \<not> ((cfg_gated_linear_unit config \<longleftrightarrow> mlp_activation_func self = swiglu)
                  \<and> (mlp_bias_gelu_fusion self \<longrightarrow> mlp_add_bias self))
          \<longrightarrow> (\<exists>e. Idefics2ParallelMLP_forward self [S, B, cfg_input_size config] = Inl e)"
    using sw_bad wpos by (auto simp: fwd lin)
  show ?thesis
    using c1 c2 c3 by blast
qed

text \<open>
  The claim as stated fails for plain gelu with \<^verbatim>\<open>gated_linear_unit\<close>: the hidden
  projection has width 32, gelu keeps it, and \<^verbatim>\<open>dense_4h_to_h\<close> expects 16.
\<close>

theorem Idefics2ParallelMLP_gated_gelu_counterexample:
  "Idefics2ParallelMLP_init example_mlp_config (example_args\<lparr>arg_swiglu := False\<rparr>) 1 =
     Inr \<lparr>mlp_add_bias = False,
          mlp_dense_h_to_4h = \<lparr>pl_in = 8, pl_out = 32, pl_bias = False, pl_skip_bias_add = True\<rparr>,
          mlp_bias_gelu_fusion = False, mlp_activation_func = F_gelu, mlp_swiglu = False,
          mlp_dense_4h_to_h = \<lparr>pl_in = 16, pl_out = 4, pl_bias = False, pl_skip_bias_add = True\<rparr>\<rparr>
   \<and> Idefics2ParallelMLP_forward
       \<lparr>mlp_add_bias = False,
        mlp_dense_h_to_4h = \<lparr>pl_in = 8, pl_out = 32, pl_bias = False, pl_skip_bias_add = True\<rparr>,
        mlp_bias_gelu_fusion = False, mlp_activation_func = F_gelu, mlp_swiglu = False,
        mlp_dense_4h_to_h = \<lparr>pl_in = 16, pl_out = 4, pl_bias = False, pl_skip_bias_add = True\<rparr>\<rparr>
       [5, 3, 8] = Inl RuntimeError"
proof -
  have "Idefics2ParallelMLP_init example_mlp_config (example_args\<lparr>arg_swiglu := False\<rparr>) 1 =
     Inr \<lparr>mlp_add_bias = False,
          mlp_dense_h_to_4h = \<lparr>pl_in = 8, pl_out = 32, pl_bias = False, pl_skip_bias_add = True\<rparr>,
          mlp_bias_gelu_fusion = False, mlp_activation_func = F_gelu, mlp_swiglu = False,
          mlp_dense_4h_to_h = \<lparr>pl_in = 16, pl_out = 4, pl_bias = False, pl_skip_bias_add = True\<rparr>\<rparr>"
    by (simp add: Idefics2ParallelMLP_init_def ColumnParallelLinear_init_def
        RowParallelLinear_init_def utils_divide_def example_mlp_config_fields
        example_args_fields)
  moreover have "Idefics2ParallelMLP_forward
       \<lparr>mlp_add_bias = False,
        mlp_dense_h_to_4h = \<lparr>pl_in = 8, pl_out = 32, pl_bias = False, pl_skip_bias_add = True\<rparr>,
        mlp_bias_gelu_fusion = False, mlp_activation_func = F_gelu, mlp_swiglu = False,
        mlp_dense_4h_to_h = \<lparr>pl_in = 16, pl_out = 4, pl_bias = False, pl_skip_bias_add = True\<rparr>\<rparr>
       [5, 3, 8] = Inl RuntimeError"
    by (simp add: Idefics2ParallelMLP_forward_def parallel_linear_forward_def
        apply_activation_def)
  ultimately show ?thesis by simp
qed

theorem Idefics2ParallelMLP_forward_shape_witness:
  "Idefics2ParallelMLP_init example_mlp_config example_args 2 =
     Inr \<lparr>mlp_add_bias = False,
          mlp_dense_h_to_4h = \<lparr>pl_in = 8, pl_out = 16, pl_bias = False, pl_skip_bias_add = True\<rparr>,
          mlp_bias_gelu_fusion = False, mlp_activation_func = swiglu, mlp_swiglu = True,
          mlp_dense_4h_to_h = \<lparr>pl_in = 8, pl_out = 4, pl_bias = False, pl_skip_bias_add = True\<rparr>\<rparr>
   \<and> Idefics2ParallelMLP_forward
       \<lparr>mlp_add_bias = False,
        mlp_dense_h_to_4h = \<lparr>pl_in = 8, pl_out = 16, pl_bias = False, pl_skip_bias_add = True\<rparr>,
        mlp_bias_gelu_fusion = False, mlp_activation_func = swiglu, mlp_swiglu = True,
        mlp_dense_4h_to_h = \<lparr>pl_in = 8, pl_out = 4, pl_bias = False, pl_skip_bias_add = True\<rparr>\<rparr>
       [5, 3, 8] = Inr ([5, 3, 4], None)
   \<and> Idefics2ParallelMLP_init example_mlp_config (example_args\<lparr>arg_swiglu := False\<rparr>) 2 =
     Inr \<lparr>mlp_add_bias = False,
          mlp_dense_h_to_4h = \<lparr>pl_in = 8, pl_out = 16, pl_bias = False, pl_skip_bias_add = True\<rparr>,
          mlp_bias_gelu_fusion = False, mlp_activation_func = F_gelu, mlp_swiglu = False,
          mlp_dense_4h_to_h = \<lparr>pl_in = 8, pl_out = 4, pl_bias = False, pl_skip_bias_add = True\<rparr>\<rparr>
   \<and> (\<exists>e. Idefics2ParallelMLP_forward
       \<lparr>mlp_add_bias = False,
        mlp_dense_h_to_4h = \<lparr>pl_in = 8, pl_out = 16, pl_bias = False, pl_skip_bias_add = True\<rparr>,
        mlp_bias_gelu_fusion = False, mlp_activation_func = F_gelu, mlp_swiglu = False,
        mlp_dense_4h_to_h = \<lparr>pl_in = 8, pl_out = 4, pl_bias = False, pl_skip_bias_add = True\<rparr>\<rparr>
       [5, 3, 8] = Inl e)
   \<and> Idefics2ParallelMLP_init
       (example_config\<lparr>cfg_input_size := 256, cfg_ffn_hidden_size := 1024,
        cfg_output_size := 256, cfg_gated_linear_unit := True\<rparr>) (example_args\<lparr>arg_swiglu := False\<rparr>) 2 =
     Inr \<lparr>mlp_add_bias = False,
        mlp_dense_h_to_4h =
          \<lparr>pl_in = 256, pl_out = 1024, pl_bias = False, pl_skip_bias_add = True\<rparr>,
        mlp_bias_gelu_fusion = False, mlp_activation_func = F_gelu, mlp_swiglu = False,
        mlp_dense_4h_to_h =
          \<lparr>pl_in = 512, pl_out = 256, pl_bias = False, pl_skip_bias_add = True\<rparr>\<rparr>
   \<and> (\<exists>e. Idefics2ParallelMLP_forward
       \<lparr>mlp_add_bias = False,
        mlp_dense_h_to_4h =
          \<lparr>pl_in = 256, pl_out = 1024, pl_bias = False, pl_skip_bias_add = True\<rparr>,
        mlp_bias_gelu_fusion = False, mlp_activation_func = F_gelu, mlp_swiglu = False,
        mlp_dense_4h_to_h =
          \<lparr>pl_in = 512, pl_out = 256, pl_bias = False, pl_skip_bias_add = True\<rparr>\<rparr>
       [64, 3, 256] = Inl e)"
proof -
  define layer_config where "layer_config =
     example_config\<lparr>cfg_input_size := 256, cfg_ffn_hidden_size := 1024,
        cfg_output_size := 256, cfg_gated_linear_unit := True\<rparr>"
  have layer_fields: "cfg_add_bias_linear layer_config = False"
    "cfg_ffn_hidden_size layer_config = 1024" "cfg_gated_linear_unit layer_config = True"
    "cfg_input_size layer_config = 256" "cfg_output_size layer_config = 256"
    by (simp_all add: layer_config_def example_config_fields)
  have init_layer: "Idefics2ParallelMLP_init layer_config (example_args\<lparr>arg_swiglu := False\<rparr>) 2 =
     Inr \<lparr>mlp_add_bias = False,
        mlp_dense_h_to_4h =
          \<lparr>pl_in = 256, pl_out = 1024, pl_bias = False, pl_skip_bias_add = True\<rparr>,
        mlp_bias_gelu_fusion = False, mlp_activation_func = F_gelu, mlp_swiglu = False,
        mlp_dense_4h_to_h =
          \<lparr>pl_in = 512, pl_out = 256, pl_bias = False, pl_skip_bias_add = True\<rparr>\<rparr>"
    by (simp add: Idefics2ParallelMLP_init_def ColumnParallelLinear_init_def
        RowParallelLinear_init_def utils_divide_def layer_fields example_args_fields)
  have bad_layer: "\<exists>e. Idefics2ParallelMLP_forward
       \<lparr>mlp_add_bias = False,
        mlp_dense_h_to_4h =
          \<lparr>pl_in = 256, pl_out = 1024, pl_bias = False, pl_skip_bias_add = True\<rparr>,
        mlp_bias_gelu_fusion = False, mlp_activation_func = F_gelu, mlp_swiglu = False,
        mlp_dense_4h_to_h =
          \<lparr>pl_in = 512, pl_out = 256, pl_bias = False, pl_skip_bias_add = True\<rparr>\<rparr>
       [64, 3, 256] = Inl e"
    using Idefics2ParallelMLP_forward_shape [OF init_layer, of 64 3 "[64, 3, 256]" None]
    by (simp add: layer_fields)
  have init_swiglu: "Idefics2ParallelMLP_init example_mlp_config example_args 2 =
     Inr \<lparr>mlp_add_bias = False,
          mlp_dense_h_to_4h = \<lparr>pl_in = 8, pl_out = 16, pl_bias = False, pl_skip_bias_add = True\<rparr>,
          mlp_bias_gelu_fusion = False, mlp_activation_func = swiglu, mlp_swiglu = True,
          mlp_dense_4h_to_h = \<lparr>pl_in = 8, pl_out = 4, pl_bias = False, pl_skip_bias_add = True\<rparr>\<rparr>"
    by (simp add: Idefics2ParallelMLP_init_def ColumnParallelLinear_init_def
        RowParallelLinear_init_def utils_divide_def example_mlp_config_fields
        example_args_fields)
  have init_gelu:
    "Idefics2ParallelMLP_init example_mlp_config (example_args\<lparr>arg_swiglu := False\<rparr>) 2 =
     Inr \<lparr>mlp_add_bias = False,
          mlp_dense_h_to_4h = \<lparr>pl_in = 8, pl_out = 16, pl_bias = False, pl_skip_bias_add = True\<rparr>,
          mlp_bias_gelu_fusion = False, mlp_activation_func = F_gelu, mlp_swiglu = False,
          mlp_dense_4h_to_h = \<lparr>pl_in = 8, pl_out = 4, pl_bias = False, pl_skip_bias_add = True\<rparr>\<rparr>"
    by (simp add: Idefics2ParallelMLP_init_def ColumnParallelLinear_init_def
        RowParallelLinear_init_def utils_divide_def example_mlp_config_fields
        example_args_fields)
  have ok: "Idefics2ParallelMLP_forward
       \<lparr>mlp_add_bias = False,
        mlp_dense_h_to_4h = \<lparr>pl_in = 8, pl_out = 16, pl_bias = False, pl_skip_bias_add = True\<rparr>,
        mlp_bias_gelu_fusion = False, mlp_activation_func = swiglu, mlp_swiglu = True,
        mlp_dense_4h_to_h = \<lparr>pl_in = 8, pl_out = 4, pl_bias = False, pl_skip_bias_add = True\<rparr>\<rparr>
       [5, 3, 8] = Inr ([5, 3, 4], None)"
    using Idefics2ParallelMLP_forward_shape [OF init_swiglu, of 5 3 "[5, 3, 4]" None]
    by (simp add: example_mlp_config_fields)
  have bad: "\<exists>e. Idefics2ParallelMLP_forward
       \<lparr>mlp_add_bias = False,
        mlp_dense_h_to_4h = \<lparr>pl_in = 8, pl_out = 16, pl_bias = False, pl_skip_bias_add = True\<rparr>,
        mlp_bias_gelu_fusion = False, mlp_activation_func = F_gelu, mlp_swiglu = False,
        mlp_dense_4h_to_h = \<lparr>pl_in = 8, pl_out = 4, pl_bias = False, pl_skip_bias_add = True\<rparr>\<rparr>
       [5, 3, 8] = Inl e"
    using Idefics2ParallelMLP_forward_shape [OF init_gelu, of 5 3 "[5, 3, 4]" None]
    by (simp add: example_mlp_config_fields)
  show ?thesis
    using init_swiglu ok init_gelu bad init_layer [unfolded layer_config_def] bad_layer
    by blast
qed

subsection \<open>CoreAttention\<close>

lemma view_merge:
  assumes "0 < s" "0 < b" "0 < np"
  shows "view [s, b, np, hn] [Some s, Some (b * np), None] = Inr [s, b * np, hn]"
  using assms by (simp add: view_def)

lemma view_probs:
  assumes "0 < sq" "0 < b" "0 < np"
  shows "view [b, np, sq, sk] [Some (b * np), Some sq, None] = Inr [b * np, sq, sk]"
  using assms by (simp add: view_def)

lemma view_exact4: "view [b * np, sq, sk] [Some b, Some np, Some sq, Some sk] = Inr [b, np, sq, sk]"
  by (simp add: view_def)

lemma view_exact3:
  assumes "0 < sq" "0 < b"
  shows "view [sq, b, np, hn] [Some sq, Some b, Some h] =
     (if h = np * hn then Inr [sq, b, h] else Inl RuntimeError)"
  using assms by (auto simp: view_def)

lemma CoreAttention_scores_4d:
  assumes "0 < sq" "0 < sk" "0 < b" "0 < np"
  shows "CoreAttention_scores [sq, b, np, hn] [sk, b, np, hn] = Inr (b, np, sq, sk)"
  using assms by (simp add: CoreAttention_scores_def size_at_def view_merge view_exact4)

lemma broadcast_mask: "broadcast [b, np, sq, sk] [b, Suc 0, sq, sk] = Inr [b, np, sq, sk]"
  by (simp add: broadcast_def)

lemma CoreAttention_probs_Some:
  "CoreAttention_probs (b, np, sq, sk) (Some m) =
     (if m = [b, 1, sq, sk] then Inr [b, np, sq, sk] else Inl ValueError)"
  by (simp add: CoreAttention_probs_def broadcast_mask)

lemma CoreAttention_probs_None: "CoreAttention_probs output_size None = Inl UnboundLocalError"
  by (simp add: CoreAttention_probs_def split: prod.splits)

lemma CoreAttention_context_4d:
  assumes "0 < sq" "0 < sk" "0 < b" "0 < np"
  shows "CoreAttention_context self sq [b, np, sq, sk] [sk, b, np, hn] =
     (if ca_hidden_size_per_partition self = np * hn
      then Inr [sq, b, ca_hidden_size_per_partition self] else Inl RuntimeError)"
  using assms
  by (simp add: CoreAttention_context_def size_at_def view_merge view_probs view_exact4 view_exact3)

text \<open>
  C6. For a query \<open>[sq, b, np, hn]\<close> and a key and a value \<open>[sk, b, np, hn]\<close> of the
  layer's width, \<^verbatim>\<open>CoreAttention.forward\<close> with a mask raises if and only if the
  mask's size is not exactly \<open>(b, 1, sq, sk)\<close>; the error is the \<^verbatim>\<open>ValueError\<close> of line
  293, and with the right size the forward returns a tensor \<open>[sq, b, np * hn]\<close>.
\<close>

theorem CoreAttention_forward_mask_shape:
  assumes "0 < sq" "0 < sk" "0 < b" "0 < np"
    and "ca_hidden_size_per_partition self = np * hn"
  shows "((\<exists>e. CoreAttention_forward self [sq, b, np, hn] [sk, b, np, hn] [sk, b, np, hn]
              (Some mask_size) = Inl e) \<longleftrightarrow> mask_size \<noteq> [b, 1, sq, sk])
       \<and> (mask_size \<noteq> [b, 1, sq, sk] \<longrightarrow>
            CoreAttention_forward self [sq, b, np, hn] [sk, b, np, hn] [sk, b, np, hn]
              (Some mask_size) = Inl ValueError)
       \<and> CoreAttention_forward self [sq, b, np, hn] [sk, b, np, hn] [sk, b, np, hn]
            (Some [b, 1, sq, sk]) = Inr [sq, b, np * hn]"
  using assms
  by (simp add: CoreAttention_forward_def CoreAttention_scores_4d CoreAttention_probs_Some
      CoreAttention_context_4d)

theorem CoreAttention_forward_mask_shape_witness:
  "CoreAttention_forward
     \<lparr>ca_layer_number = 1, ca_sequence_parallel = False, ca_hidden_size_per_partition = 8,
      ca_hidden_size_per_attention_head = 8, ca_num_attention_heads_per_partition = 1\<rparr>
     [4, 2, 1, 8] [6, 2, 1, 8] [6, 2, 1, 8] (Some [2, 1, 4, 6]) = Inr [4, 2, 8]
   \<and> CoreAttention_forward
     \<lparr>ca_layer_number = 1, ca_sequence_parallel = False, ca_hidden_size_per_partition = 8,
      ca_hidden_size_per_attention_head = 8, ca_num_attention_heads_per_partition = 1\<rparr>
     [4, 2, 1, 8] [6, 2, 1, 8] [6, 2, 1, 8] (Some [2, 1, 6, 4]) = Inl ValueError
   \<and> CoreAttention_forward
     \<lparr>ca_layer_number = 1, ca_sequence_parallel = False, ca_hidden_size_per_partition = 8,
      ca_hidden_size_per_attention_head = 8, ca_num_attention_heads_per_partition = 1\<rparr>
     [4, 2, 1, 8] [6, 2, 1, 8] [6, 2, 1, 8] (Some [2, 4, 6]) = Inl ValueError"
  using CoreAttention_forward_mask_shape [where sq = 4 and sk = 6 and b = 2 and np = 1
      and hn = 8 and mask_size = "[2, 1, 6, 4]"
      and self = "\<lparr>ca_layer_number = 1, ca_sequence_parallel = False,
        ca_hidden_size_per_partition = 8, ca_hidden_size_per_attention_head = 8,
        ca_num_attention_heads_per_partition = 1\<rparr>"]
    CoreAttention_forward_mask_shape [where sq = 4 and sk = 6 and b = 2 and np = 1
      and hn = 8 and mask_size = "[2, 4, 6]"
      and self = "\<lparr>ca_layer_number = 1, ca_sequence_parallel = False,
        ca_hidden_size_per_partition = 8, ca_hidden_size_per_attention_head = 8,
        ca_num_attention_heads_per_partition = 1\<rparr>"]
  by simp

text \<open>
  C10. With \<^verbatim>\<open>attention_mask = None\<close> the forward of \<^verbatim>\<open>CoreAttention\<close> returns no
  tensor, whatever the query, the key and the value are: it raises. When the query and
  the key are well shaped the error is the \<^verbatim>\<open>UnboundLocalError\<close> of the softmax line,
  which reads \<^verbatim>\<open>attn_weights\<close>.
\<close>

theorem CoreAttention_forward_no_mask:
  "(\<exists>e. CoreAttention_forward self query_layer key_layer value_layer None = Inl e)
   \<and> (0 < sq \<and> 0 < sk \<and> 0 < b \<and> 0 < np \<longrightarrow>
        CoreAttention_forward self [sq, b, np, hn] [sk, b, np, hn] value_layer None
          = Inl UnboundLocalError)"
proof
  show "\<exists>e. CoreAttention_forward self query_layer key_layer value_layer None = Inl e"
    unfolding CoreAttention_forward_def
    by (rule ebind_Inl_all) (simp add: CoreAttention_probs_None)
  show "0 < sq \<and> 0 < sk \<and> 0 < b \<and> 0 < np \<longrightarrow>
        CoreAttention_forward self [sq, b, np, hn] [sk, b, np, hn] value_layer None
          = Inl UnboundLocalError"
    by (simp add: CoreAttention_forward_def CoreAttention_scores_4d CoreAttention_probs_None)
qed

theorem CoreAttention_forward_no_mask_witness:
  "(\<exists>e. CoreAttention_forward
     \<lparr>ca_layer_number = 1, ca_sequence_parallel = False, ca_hidden_size_per_partition = 8,
      ca_hidden_size_per_attention_head = 8, ca_num_attention_heads_per_partition = 1\<rparr>
     [4, 2] [6, 2, 1, 8] [6, 2, 1, 8] None = Inl e)
   \<and> CoreAttention_forward
     \<lparr>ca_layer_number = 1, ca_sequence_parallel = False, ca_hidden_size_per_partition = 8,
      ca_hidden_size_per_attention_head = 8, ca_num_attention_heads_per_partition = 1\<rparr>
     [4, 2, 1, 8] [6, 2, 1, 8] [6, 2, 1, 8] None = Inl UnboundLocalError"
  using CoreAttention_forward_no_mask [where sq = 4 and sk = 6 and b = 2 and np = 1
      and hn = 8 and query_layer = "[4, 2]" and key_layer = "[6, 2, 1, 8]"
      and value_layer = "[6, 2, 1, 8]"
      and self = "\<lparr>ca_layer_number = 1, ca_sequence_parallel = False,
        ca_hidden_size_per_partition = 8, ca_hidden_size_per_attention_head = 8,
        ca_num_attention_heads_per_partition = 1\<rparr>"]
  by simp

subsection \<open>FlashSelfAttention\<close>

lemma FlashSelfAttention_kernel_call_causal:
  assumes "FlashSelfAttention_kernel_call self q k v attention_mask = Inr c"
  shows "fc_causal c = False"
  using assms
  by (auto simp: FlashSelfAttention_kernel_call_def ebind_eq_Inr Let_def
      split: if_splits option.splits prod.splits)

lemma FlashSelfAttention_kernel_call_4d:
  assumes "ft_dtype q \<in> {float16, bfloat16}" "ft_dtype k \<in> {float16, bfloat16}"
    "ft_dtype v \<in> {float16, bfloat16}" "ft_is_cuda q" "ft_is_cuda k" "ft_is_cuda v"
    "ft_shape q = [b, sq, h, d]" "ft_shape k = [b, sk, h, d]" "ft_shape v = [b, sk, h, d]"
    "0 < sq"
  shows "FlashSelfAttention_kernel_call self q k v None =
     Inr \<lparr>fc_q = [b * sq, h, d], fc_k = [b * sk, h, d], fc_v = [b * sk, h, d],
          fc_cu_seqlens_q = map (\<lambda>i. i * sq) [0..<b + 1],
          fc_cu_seqlens_k = map (\<lambda>i. i * sq) [0..<b + 1],
          fc_max_seqlen_q = sq, fc_max_seqlen_k = sk,
          fc_dropout_p = (if fsa_training self then fsa_dropout_p self else 0),
          fc_softmax_scale = fsa_softmax_scale self, fc_causal = False\<rparr>"
  using assms
  by (simp add: FlashSelfAttention_kernel_call_def size_at_def rearrange_flatten_def
      arange_cu_seqlens_def Let_def)

lemma length_cumsum: "length (cumsum acc xs) = length xs"
  by (induction xs arbitrary: acc) auto

lemma length_concat_rows:
  "list_all (\<lambda>row. length row = s) rows \<Longrightarrow> length (concat rows) = length rows * s"
  by (induction rows) auto

lemma length_valid_indices:
  "length (filter (\<lambda>i. xs ! i) [0..<length xs]) = length (filter id xs)"
proof (induction xs rule: rev_induct)
  case Nil
  show ?case by simp
next
  case (snoc x xs)
  have "filter (\<lambda>i. (xs @ [x]) ! i) [0..<length xs] = filter (\<lambda>i. xs ! i) [0..<length xs]"
    by (rule filter_cong) (simp_all add: nth_append)
  with snoc show ?case
    by simp
qed

lemma valid_indices_bound: "m \<le> n \<Longrightarrow> list_all (\<lambda>i. i < n) (filter P [0..<m])"
  by (simp add: list_all_iff)

lemma unpad_input_rows:
  assumes "0 < b" "length rows = b" "list_all (\<lambda>row. length row = s) rows"
  shows "unpad_input (b # s # rest) rows =
     Inr (length (filter id (concat rows)) # rest,
          0 # cumsum 0 (map (\<lambda>row. length (filter id row)) rows))"
proof -
  from assms have "rows \<noteq> []" "length (concat rows) = b * s"
    by (auto simp: length_concat_rows)
  with length_valid_indices [of "concat rows"] show ?thesis
    by (simp add: unpad_input_def Let_def valid_indices_bound)
qed

lemma FlashSelfAttention_kernel_call_rows:
  assumes "ft_dtype q \<in> {float16, bfloat16}" "ft_dtype k \<in> {float16, bfloat16}"
    "ft_dtype v \<in> {float16, bfloat16}" "ft_is_cuda q" "ft_is_cuda k" "ft_is_cuda v"
    "ft_shape q = [b, sq, h, d]" "ft_shape k = [b, sk, h, d]" "ft_shape v = [b, sk, h, d]"
    "0 < sq" "0 < b" "length rows = b" "list_all (\<lambda>row. length row = sk) rows"
  shows "FlashSelfAttention_kernel_call self q k v (Some rows) =
     Inr \<lparr>fc_q = [b * sq, h, d], fc_k = [length (filter id (concat rows)), h, d],
          fc_v = [length (filter id (concat rows)), h, d],
          fc_cu_seqlens_q = map (\<lambda>i. i * sq) [0..<b + 1],
          fc_cu_seqlens_k = 0 # cumsum 0 (map (\<lambda>row. length (filter id row)) rows),
          fc_max_seqlen_q = sq, fc_max_seqlen_k = sk,
          fc_dropout_p = (if fsa_training self then fsa_dropout_p self else 0),
          fc_softmax_scale = fsa_softmax_scale self, fc_causal = False\<rparr>"
  using assms
  by (simp add: FlashSelfAttention_kernel_call_def size_at_def rearrange_flatten_def
      arange_cu_seqlens_def unpad_input_rows Let_def)

lemma flash_attn_unpadded_func_packed:
  assumes "fc_q c = [total_q, h, d]" "fc_k c = [total_k, h, d]" "fc_v c = [total_k, h, d]"
    "0 < h" "length (fc_cu_seqlens_q c) = length (fc_cu_seqlens_k c)"
  shows "flash_attn_unpadded_func c = Inr [total_q, h, d]"
  using assms by (simp add: flash_attn_unpadded_func_def)

lemma rearrange_unflatten_batch:
  "0 < b \<Longrightarrow> rearrange_unflatten (b * s # rest) b = Inr (b # s # rest)"
  by (simp add: rearrange_unflatten_def)

text \<open>
  C4. Every call of the fused kernel that \<^verbatim>\<open>FlashSelfAttention.forward\<close> makes has
  \<^verbatim>\<open>causal=False\<close>: in training and in evaluation mode, for either value of the
  configured \<^verbatim>\<open>causal\<close> flag and for all sequence lengths, with or without a mask; and
  the forward returns only through one such call. The call is made: on half-precision
  device tensors \<open>(b, sq, h, d)\<close> and \<open>(b, sk, h, d)\<close>, without a mask and with a padding
  mask \<open>(b, sk)\<close>, the forward calls the kernel once, with the arguments displayed, and
  with at least one batch row and one head it returns a tensor \<open>(b, sq, h, d)\<close>.
\<close>

theorem FlashSelfAttention_forward_causal_False:
  "(\<forall>c \<in> set (snd (FlashSelfAttention_forward self q k v attention_mask)). fc_causal c = False)
   \<and> (\<forall>output. fst (FlashSelfAttention_forward self q k v attention_mask) = Inr output \<longrightarrow>
         (\<exists>c. snd (FlashSelfAttention_forward self q k v attention_mask) = [c]
              \<and> fc_causal c = False))
   \<and> (ft_dtype q \<in> {float16, bfloat16} \<and> ft_dtype k \<in> {float16, bfloat16}
        \<and> ft_dtype v \<in> {float16, bfloat16} \<and> ft_is_cuda q \<and> ft_is_cuda k \<and> ft_is_cuda v
        \<and> ft_shape q = [b, sq, h, d] \<and> ft_shape k = [b, sk, h, d]
        \<and> ft_shape v = [b, sk, h, d] \<and> 0 < sq \<longrightarrow>
      snd (FlashSelfAttention_forward self q k v None) =
        [\<lparr>fc_q = [b * sq, h, d], fc_k = [b * sk, h, d], fc_v = [b * sk, h, d],
          fc_cu_seqlens_q = map (\<lambda>i. i * sq) [0..<b + 1],
          fc_cu_seqlens_k = map (\<lambda>i. i * sq) [0..<b + 1],
          fc_max_seqlen_q = sq, fc_max_seqlen_k = sk,
          fc_dropout_p = (if fsa_training self then fsa_dropout_p self else 0),
          fc_softmax_scale = fsa_softmax_scale self, fc_causal = False\<rparr>]
      \<and> (0 < b \<and> 0 < h \<longrightarrow>
            fst (FlashSelfAttention_forward self q k v None) = Inr [b, sq, h, d])
      \<and> (0 < b \<and> length rows = b \<and> list_all (\<lambda>row. length row = sk) rows \<longrightarrow>
            snd (FlashSelfAttention_forward self q k v (Some rows)) =
              [\<lparr>fc_q = [b * sq, h, d], fc_k = [length (filter id (concat rows)), h, d],
                fc_v = [length (filter id (concat rows)), h, d],
                fc_cu_seqlens_q = map (\<lambda>i. i * sq) [0..<b + 1],
                fc_cu_seqlens_k = 0 # cumsum 0 (map (\<lambda>row. length (filter id row)) rows),
                fc_max_seqlen_q = sq, fc_max_seqlen_k = sk,
                fc_dropout_p = (if fsa_training self then fsa_dropout_p self else 0),
                fc_softmax_scale = fsa_softmax_scale self, fc_causal = False\<rparr>]
            \<and> (0 < h \<longrightarrow>
                  fst (FlashSelfAttention_forward self q k v (Some rows)) = Inr [b, sq, h, d])))"
proof -
  have calls: "\<forall>c \<in> set (snd (FlashSelfAttention_forward self q k v attention_mask)).
      fc_causal c = False"
    using FlashSelfAttention_kernel_call_causal [of self q k v attention_mask]
    by (auto simp: FlashSelfAttention_forward_def split: sum.splits)
  have returns: "\<forall>output.
      fst (FlashSelfAttention_forward self q k v attention_mask) = Inr output \<longrightarrow>
        (\<exists>c. snd (FlashSelfAttention_forward self q k v attention_mask) = [c]
             \<and> fc_causal c = False)"
    using FlashSelfAttention_kernel_call_causal [of self q k v attention_mask]
    by (auto simp: FlashSelfAttention_forward_def split: sum.splits)
  have reach: "snd (FlashSelfAttention_forward self q k v None) =
        [\<lparr>fc_q = [b * sq, h, d], fc_k = [b * sk, h, d], fc_v = [b * sk, h, d],
          fc_cu_seqlens_q = map (\<lambda>i. i * sq) [0..<b + 1],
          fc_cu_seqlens_k = map (\<lambda>i. i * sq) [0..<b + 1],
          fc_max_seqlen_q = sq, fc_max_seqlen_k = sk,
          fc_dropout_p = (if fsa_training self then fsa_dropout_p self else 0),
          fc_softmax_scale = fsa_softmax_scale self, fc_causal = False\<rparr>]
      \<and> (0 < b \<and> 0 < h \<longrightarrow>
            fst (FlashSelfAttention_forward self q k v None) = Inr [b, sq, h, d])
      \<and> (0 < b \<and> length rows = b \<and> list_all (\<lambda>row. length row = sk) rows \<longrightarrow>
            snd (FlashSelfAttention_forward self q k v (Some rows)) =
              [\<lparr>fc_q = [b * sq, h, d], fc_k = [length (filter id (concat rows)), h, d],
                fc_v = [length (filter id (concat rows)), h, d],
                fc_cu_seqlens_q = map (\<lambda>i. i * sq) [0..<b + 1],
                fc_cu_seqlens_k = 0 # cumsum 0 (map (\<lambda>row. length (filter id row)) rows),
                fc_max_seqlen_q = sq, fc_max_seqlen_k = sk,
                fc_dropout_p = (if fsa_training self then fsa_dropout_p self else 0),
                fc_softmax_scale = fsa_softmax_scale self, fc_causal = False\<rparr>]
            \<and> (0 < h \<longrightarrow>
                  fst (FlashSelfAttention_forward self q k v (Some rows)) = Inr [b, sq, h, d]))"
    if valid: "ft_dtype q \<in> {float16, bfloat16}" "ft_dtype k \<in> {float16, bfloat16}"
      "ft_dtype v \<in> {float16, bfloat16}" "ft_is_cuda q" "ft_is_cuda k" "ft_is_cuda v"
      "ft_shape q = [b, sq, h, d]" "ft_shape k = [b, sk, h, d]" "ft_shape v = [b, sk, h, d]"
      "0 < sq"
  proof (intro conjI impI)
    note none = FlashSelfAttention_kernel_call_4d [OF valid, of self]
    show "snd (FlashSelfAttention_forward self q k v None) =
        [\<lparr>fc_q = [b * sq, h, d], fc_k = [b * sk, h, d], fc_v = [b * sk, h, d],
          fc_cu_seqlens_q = map (\<lambda>i. i * sq) [0..<b + 1],
          fc_cu_seqlens_k = map (\<lambda>i. i * sq) [0..<b + 1],
          fc_max_seqlen_q = sq, fc_max_seqlen_k = sk,
          fc_dropout_p = (if fsa_training self then fsa_dropout_p self else 0),
          fc_softmax_scale = fsa_softmax_scale self, fc_causal = False\<rparr>]"
      by (simp add: FlashSelfAttention_forward_def none)
    show "fst (FlashSelfAttention_forward self q k v None) = Inr [b, sq, h, d]"
      if "0 < b \<and> 0 < h"
      using that valid(7)
      by (simp add: FlashSelfAttention_forward_def none flash_attn_unpadded_func_packed
          size_at_def rearrange_unflatten_batch)
  next
    assume rows: "0 < b \<and> length rows = b \<and> list_all (\<lambda>row. length row = sk) rows"
    then have r: "0 < b" "length rows = b" "list_all (\<lambda>row. length row = sk) rows"
      by simp_all
    note some = FlashSelfAttention_kernel_call_rows [OF valid r, of self]
    show "snd (FlashSelfAttention_forward self q k v (Some rows)) =
              [\<lparr>fc_q = [b * sq, h, d], fc_k = [length (filter id (concat rows)), h, d],
                fc_v = [length (filter id (concat rows)), h, d],
                fc_cu_seqlens_q = map (\<lambda>i. i * sq) [0..<b + 1],
                fc_cu_seqlens_k = 0 # cumsum 0 (map (\<lambda>row. length (filter id row)) rows),
                fc_max_seqlen_q = sq, fc_max_seqlen_k = sk,
                fc_dropout_p = (if fsa_training self then fsa_dropout_p self else 0),
                fc_softmax_scale = fsa_softmax_scale self, fc_causal = False\<rparr>]"
      by (simp add: FlashSelfAttention_forward_def some)
    show "fst (FlashSelfAttention_forward self q k v (Some rows)) = Inr [b, sq, h, d]"
      if "0 < h"
      using that valid(7) r(1,2)
      by (simp add: FlashSelfAttention_forward_def some flash_attn_unpadded_func_packed
          size_at_def rearrange_unflatten_batch length_cumsum)
  qed
  from calls returns reach show ?thesis
    by blast
qed

text \<open>
  In evaluation mode with a padding mask, a query of length 4 and keys of length 3, and
  in training mode with \<^verbatim>\<open>causal=True\<close> configured and equal lengths (where
  \<^verbatim>\<open>is_causal\<close> is true): the forward returns \<open>(2, 4, 1, 8)\<close> through one call of the
  kernel, with \<^verbatim>\<open>causal=False\<close>.
\<close>

theorem FlashSelfAttention_forward_causal_False_witness:
  "FlashSelfAttention_forward
     \<lparr>fsa_causal = True, fsa_softmax_scale = None, fsa_dropout_p = 1 / 10, fsa_training = False\<rparr>
     \<lparr>ft_shape = [2, 4, 1, 8], ft_dtype = bfloat16, ft_is_cuda = True\<rparr>
     \<lparr>ft_shape = [2, 3, 1, 8], ft_dtype = bfloat16, ft_is_cuda = True\<rparr>
     \<lparr>ft_shape = [2, 3, 1, 8], ft_dtype = bfloat16, ft_is_cuda = True\<rparr>
     (Some [[True, True, False], [True, True, True]]) =
     (Inr [2, 4, 1, 8],
      [\<lparr>fc_q = [8, 1, 8], fc_k = [5, 1, 8], fc_v = [5, 1, 8],
        fc_cu_seqlens_q = [0, 4, 8], fc_cu_seqlens_k = [0, 2, 5],
        fc_max_seqlen_q = 4, fc_max_seqlen_k = 3, fc_dropout_p = 0,
        fc_softmax_scale = None, fc_causal = False\<rparr>])
   \<and> FlashSelfAttention_forward
     \<lparr>fsa_causal = True, fsa_softmax_scale = None, fsa_dropout_p = 1 / 10, fsa_training = True\<rparr>
     \<lparr>ft_shape = [2, 4, 1, 8], ft_dtype = bfloat16, ft_is_cuda = True\<rparr>
     \<lparr>ft_shape = [2, 4, 1, 8], ft_dtype = bfloat16, ft_is_cuda = True\<rparr>
     \<lparr>ft_shape = [2, 4, 1, 8], ft_dtype = bfloat16, ft_is_cuda = True\<rparr> None =
     (Inr [2, 4, 1, 8],
      [\<lparr>fc_q = [8, 1, 8], fc_k = [8, 1, 8], fc_v = [8, 1, 8],
        fc_cu_seqlens_q = [0, 4, 8], fc_cu_seqlens_k = [0, 4, 8],
        fc_max_seqlen_q = 4, fc_max_seqlen_k = 4, fc_dropout_p = 1 / 10,
        fc_softmax_scale = None, fc_causal = False\<rparr>])"
proof -
  define eval_module where "eval_module =
    \<lparr>fsa_causal = True, fsa_softmax_scale = None, fsa_dropout_p = 1 / 10, fsa_training = False\<rparr>"
  define train_module where "train_module =
    \<lparr>fsa_causal = True, fsa_softmax_scale = None, fsa_dropout_p = 1 / 10, fsa_training = True\<rparr>"
  define q where "q = \<lparr>ft_shape = [2, 4, 1, 8], ft_dtype = bfloat16, ft_is_cuda = True\<rparr>"
  define k where "k = \<lparr>ft_shape = [2, 3, 1, 8], ft_dtype = bfloat16, ft_is_cuda = True\<rparr>"
  define rows where "rows = [[True, True, False], [True, True, True]]"
  have upto: "[0..<Suc (Suc (Suc 0))] = [0, Suc 0, Suc (Suc 0)]"
    by (simp add: upt_rec)
  have valid: "ft_dtype q \<in> {float16, bfloat16} \<and> ft_dtype k \<in> {float16, bfloat16}
        \<and> ft_dtype k \<in> {float16, bfloat16} \<and> ft_is_cuda q \<and> ft_is_cuda k \<and> ft_is_cuda k
        \<and> ft_shape q = [2, 4, 1, 8] \<and> ft_shape k = [2, 3, 1, 8]
        \<and> ft_shape k = [2, 3, 1, 8] \<and> 0 < (4::nat)"
    "ft_dtype q \<in> {float16, bfloat16} \<and> ft_dtype q \<in> {float16, bfloat16}
        \<and> ft_dtype q \<in> {float16, bfloat16} \<and> ft_is_cuda q \<and> ft_is_cuda q \<and> ft_is_cuda q
        \<and> ft_shape q = [2, 4, 1, 8] \<and> ft_shape q = [2, 4, 1, 8]
        \<and> ft_shape q = [2, 4, 1, 8] \<and> 0 < (4::nat)"
    by (simp_all add: q_def k_def)
  have mask: "0 < (2::nat) \<and> length rows = 2 \<and> list_all (\<lambda>row. length row = 3) rows"
    by (simp add: rows_def)
  note M = FlashSelfAttention_forward_causal_False
    [where self = eval_module and q = q and k = k and v = k and b = 2 and sq = 4 and sk = 3
       and h = 1 and d = 8 and rows = rows and attention_mask = None,
     THEN conjunct2, THEN conjunct2, THEN mp, OF valid(1),
     THEN conjunct2, THEN conjunct2, THEN mp, OF mask]
  note N = FlashSelfAttention_forward_causal_False
    [where self = train_module and q = q and k = q and v = q and b = 2 and sq = 4 and sk = 4
       and h = 1 and d = 8 and rows = rows and attention_mask = None,
     THEN conjunct2, THEN conjunct2, THEN mp, OF valid(2)]
  have masked: "FlashSelfAttention_forward eval_module q k k (Some rows) =
     (Inr [2, 4, 1, 8],
      [\<lparr>fc_q = [8, 1, 8], fc_k = [5, 1, 8], fc_v = [5, 1, 8],
        fc_cu_seqlens_q = [0, 4, 8], fc_cu_seqlens_k = [0, 2, 5],
        fc_max_seqlen_q = 4, fc_max_seqlen_k = 3, fc_dropout_p = 0,
        fc_softmax_scale = None, fc_causal = False\<rparr>])"
    using M [THEN conjunct1] M [THEN conjunct2]
    by (intro prod_eqI) (simp_all add: eval_module_def rows_def upto eval_nat_numeral)
  have plain: "FlashSelfAttention_forward train_module q q q None =
     (Inr [2, 4, 1, 8],
      [\<lparr>fc_q = [8, 1, 8], fc_k = [8, 1, 8], fc_v = [8, 1, 8],
        fc_cu_seqlens_q = [0, 4, 8], fc_cu_seqlens_k = [0, 4, 8],
        fc_max_seqlen_q = 4, fc_max_seqlen_k = 4, fc_dropout_p = 1 / 10,
        fc_softmax_scale = None, fc_causal = False\<rparr>])"
    using N [THEN conjunct1] N [THEN conjunct2, THEN conjunct1]
    by (intro prod_eqI) (simp_all add: train_module_def upto eval_nat_numeral)
  from masked plain show ?thesis
    unfolding eval_module_def train_module_def q_def k_def rows_def
    by (rule conjI)
qed

subsection \<open>Retro layer numbers and layer types\<close>

lemma set_np_arange:
  "l \<in> set (np_arange start stop 3) \<longleftrightarrow> start \<le> l \<and> l < stop \<and> (l - start) mod 3 = 0"
proof -
  have "l \<in> set (np_arange start stop 3) \<longleftrightarrow> (\<exists>i < (stop - start + 2) div 3. l = start + i * 3)"
    by (auto simp: np_arange_def)
  also have "\<dots> \<longleftrightarrow> start \<le> l \<and> l < stop \<and> (l - start) mod 3 = 0"
  proof
    assume "\<exists>i < (stop - start + 2) div 3. l = start + i * 3"
    then obtain i where "i < (stop - start + 2) div 3" "l = start + i * 3" by blast
    then show "start \<le> l \<and> l < stop \<and> (l - start) mod 3 = 0" by auto
  next
    assume a: "start \<le> l \<and> l < stop \<and> (l - start) mod 3 = 0"
    then have "(l - start) div 3 < (stop - start + 2) div 3" by presburger
    moreover have "l = start + (l - start) div 3 * 3" using a by presburger
    ultimately show "\<exists>i < (stop - start + 2) div 3. l = start + i * 3" by blast
  qed
  finally show ?thesis .
qed

lemma hd_np_arange: "np_arange start stop 3 \<noteq> [] \<Longrightarrow> hd (np_arange start stop 3) = start"
  by (simp add: np_arange_def hd_map upt_conv_Cons)

lemma sorted_np_arange: "sorted (np_arange start stop 3) \<and> distinct (np_arange start stop 3)"
  by (auto simp: np_arange_def sorted_map distinct_map inj_on_def intro!: sorted_wrt_mono_rel[of _ "(<)"] )

lemma np_arange_12: "np_arange 6 13 3 = [6, 9, 12]"
  by (simp add: np_arange_def upt_rec)

lemma np_arange_20: "np_arange 9 21 3 = [9, 12, 15, 18]"
  by (simp add: np_arange_def upt_rec)

text \<open>
  C8, as the code has it. For the model type \<^verbatim>\<open>retro_decoder\<close> the retro layer numbers
  are every third number from \<open>start\<close> up to \<^verbatim>\<open>args.num_layers\<close>, where \<open>start\<close> is 6
  for \<^verbatim>\<open>config.num_layers <= 15\<close> and 9 otherwise: \<open>[6, 9, 12]\<close> for 12 layers and
  \<open>[9, 12, 15, 18]\<close> for 20. When \<^verbatim>\<open>args.retro_add_retriever\<close> is set,
  \<^verbatim>\<open>_get_layer_type\<close> tags the first of them \<^verbatim>\<open>retro_decoder_with_retriever\<close> and
  every later one \<^verbatim>\<open>retro_decoder\<close>. When the flag is not set, it returns the
  caller's default layer type for every layer number, every model type and every list
  of retro layer numbers.
\<close>

theorem retro_layer_numbers_types:
  assumes "start = (if cfg_num_layers config \<le> 15 then 6 else 9)"
  shows "init_retro_layer_numbers ModelType_retro_decoder config args =
           Some (np_arange start (arg_num_layers args + 1) 3)
       \<and> (\<forall>l. l \<in> set (np_arange start (arg_num_layers args + 1) 3) \<longleftrightarrow>
              start \<le> l \<and> l \<le> arg_num_layers args \<and> (l - start) mod 3 = 0)
       \<and> (arg_retro_add_retriever args \<longrightarrow>
            (\<forall>l \<in> set (np_arange start (arg_num_layers args + 1) 3).
               get_layer_type args ModelType_retro_decoder default_layer_type
                 (Some (np_arange start (arg_num_layers args + 1) 3)) l =
               Inr (if l = start then LayerType_retro_decoder_with_retriever
                    else LayerType_retro_decoder)))
       \<and> (\<not> arg_retro_add_retriever args \<longrightarrow>
            (\<forall>model_type retro_layer_numbers l.
               get_layer_type args model_type default_layer_type retro_layer_numbers l =
               Inr default_layer_type))
       \<and> (cfg_num_layers config = 12 \<and> arg_num_layers args = 12 \<longrightarrow>
            init_retro_layer_numbers ModelType_retro_decoder config args = Some [6, 9, 12])
       \<and> (cfg_num_layers config = 20 \<and> arg_num_layers args = 20 \<longrightarrow>
            init_retro_layer_numbers ModelType_retro_decoder config args
              = Some [9, 12, 15, 18])"
proof -
  have init: "init_retro_layer_numbers ModelType_retro_decoder config args =
           Some (np_arange start (arg_num_layers args + 1) 3)"
    using assms by (simp add: init_retro_layer_numbers_def)
  have mem: "\<forall>l. l \<in> set (np_arange start (arg_num_layers args + 1) 3) \<longleftrightarrow>
              start \<le> l \<and> l \<le> arg_num_layers args \<and> (l - start) mod 3 = 0"
    by (auto simp: set_np_arange)
  have tag: "arg_retro_add_retriever args \<longrightarrow>
            (\<forall>l \<in> set (np_arange start (arg_num_layers args + 1) 3).
               get_layer_type args ModelType_retro_decoder default_layer_type
                 (Some (np_arange start (arg_num_layers args + 1) 3)) l =
               Inr (if l = start then LayerType_retro_decoder_with_retriever
                    else LayerType_retro_decoder))"
  proof (intro impI ballI)
    fix l
    assume r: "arg_retro_add_retriever args"
      and l: "l \<in> set (np_arange start (arg_num_layers args + 1) 3)"
    from l have "np_arange start (arg_num_layers args + 1) 3 \<noteq> []" by auto
    then have "hd (np_arange start (arg_num_layers args + 1) 3) = start"
      by (rule hd_np_arange)
    with r l show "get_layer_type args ModelType_retro_decoder default_layer_type
                 (Some (np_arange start (arg_num_layers args + 1) 3)) l =
               Inr (if l = start then LayerType_retro_decoder_with_retriever
                    else LayerType_retro_decoder)"
      by (simp add: get_layer_type_def)
  qed
  have no_flag: "\<not> arg_retro_add_retriever args \<longrightarrow>
            (\<forall>model_type retro_layer_numbers l.
               get_layer_type args model_type default_layer_type retro_layer_numbers l =
               Inr default_layer_type)"
    by (simp add: get_layer_type_def)
  have i12: "cfg_num_layers config = 12 \<and> arg_num_layers args = 12 \<longrightarrow>
            init_retro_layer_numbers ModelType_retro_decoder config args = Some [6, 9, 12]"
    using np_arange_12 by (simp add: init_retro_layer_numbers_def)
  have i20: "cfg_num_layers config = 20 \<and> arg_num_layers args = 20 \<longrightarrow>
            init_retro_layer_numbers ModelType_retro_decoder config args
              = Some [9, 12, 15, 18]"
    using np_arange_20 by (simp add: init_retro_layer_numbers_def)
  show ?thesis
    using init mem tag no_flag i12 i20 by blast
qed

text \<open>
  Without \<^verbatim>\<open>args.retro_add_retriever\<close> the guard of line 1230 fails and layer 6 of a
  12-layer retro decoder keeps the default layer type.
\<close>

theorem get_layer_type_no_retriever_counterexample:
  "init_retro_layer_numbers ModelType_retro_decoder (example_config\<lparr>cfg_num_layers := 12\<rparr>)
     (example_args\<lparr>arg_num_layers := 12\<rparr>) = Some [6, 9, 12]
   \<and> get_layer_type (example_args\<lparr>arg_num_layers := 12\<rparr>) ModelType_retro_decoder
       LayerType_encoder (Some [6, 9, 12]) 6 = Inr LayerType_encoder"
  using np_arange_12
  by (simp add: init_retro_layer_numbers_def get_layer_type_def example_args_fields)

theorem retro_layer_numbers_types_witness:
  "init_retro_layer_numbers ModelType_retro_decoder (example_config\<lparr>cfg_num_layers := 12\<rparr>)
     (example_args\<lparr>arg_num_layers := 12, arg_retro_add_retriever := True\<rparr>) = Some [6, 9, 12]
   \<and> get_layer_type (example_args\<lparr>arg_num_layers := 12, arg_retro_add_retriever := True\<rparr>)
       ModelType_retro_decoder LayerType_encoder (Some [6, 9, 12]) 6
       = Inr LayerType_retro_decoder_with_retriever
   \<and> get_layer_type (example_args\<lparr>arg_num_layers := 12, arg_retro_add_retriever := True\<rparr>)
       ModelType_retro_decoder LayerType_encoder (Some [6, 9, 12]) 9
       = Inr LayerType_retro_decoder
   \<and> get_layer_type (example_args\<lparr>arg_num_layers := 12, arg_retro_add_retriever := True\<rparr>)
       ModelType_retro_decoder LayerType_encoder (Some [6, 9, 12]) 12
       = Inr LayerType_retro_decoder
   \<and> init_retro_layer_numbers ModelType_retro_decoder (example_config\<lparr>cfg_num_layers := 20\<rparr>)
     (example_args\<lparr>arg_num_layers := 20\<rparr>) = Some [9, 12, 15, 18]
   \<and> get_layer_type (example_args\<lparr>arg_num_layers := 20\<rparr>) ModelType_retro_decoder
       LayerType_encoder (Some [9, 12, 15, 18]) 12 = Inr LayerType_encoder
   \<and> get_layer_type (example_args\<lparr>arg_num_layers := 20\<rparr>) ModelType_retro_decoder
       LayerType_encoder (Some [9, 12, 15, 18]) 9 = Inr LayerType_encoder"
  using retro_layer_numbers_types [where start = 6
      and config = "example_config\<lparr>cfg_num_layers := 12\<rparr>"
      and args = "example_args\<lparr>arg_num_layers := 12, arg_retro_add_retriever := True\<rparr>"
      and default_layer_type = LayerType_encoder]
    retro_layer_numbers_types [where start = 9
      and config = "example_config\<lparr>cfg_num_layers := 20\<rparr>"
      and args = "example_args\<lparr>arg_num_layers := 20\<rparr>"
      and default_layer_type = LayerType_encoder]
  by (simp add: np_arange_12 np_arange_20 example_args_fields)

subsection \<open>Loading a state dictionary\<close>

lemma set_dict_set: "set (map fst (dict_set d k v)) = insert k (set (map fst d))"
proof (induction d)
  case Nil
  then show ?case by simp
next
  case (Cons x d)
  obtain k' v' where x: "x = (k', v')" by (cases x)
  show ?case
  proof (cases "k' = k")
    case True
    then show ?thesis by (simp add: x)
  next
    case False
    have "set (map fst (dict_set (x # d) k v)) = insert k' (set (map fst (dict_set d k v)))"
      using False by (simp add: x)
    also have "\<dots> = insert k' (insert k (set (map fst d)))"
      by (simp only: Cons.IH)
    also have "\<dots> = insert k (set (map fst (x # d)))"
      by (auto simp: x)
    finally show ?thesis .
  qed
qed

lemma distinct_dict_set: "distinct (map fst d) \<Longrightarrow> distinct (map fst (dict_set d k v))"
proof (induction d)
  case Nil
  then show ?case by simp
next
  case (Cons x d)
  obtain k' v' where x: "x = (k', v')" by (cases x)
  show ?case
  proof (cases "k' = k")
    case True
    then show ?thesis using Cons.prems by (simp add: x)
  next
    case False
    have d: "distinct (map fst d)" and out: "k' \<notin> set (map fst d)"
      using Cons.prems by (simp_all add: x)
    have "k' \<notin> set (map fst (dict_set d k v))"
      unfolding set_dict_set using out False by simp
    moreover have "distinct (map fst (dict_set d k v))"
      by (rule Cons.IH [OF d])
    ultimately show ?thesis using False by (simp add: x)
  qed
qed

lemma map_of_dict_set: "map_of (dict_set d k v) = (map_of d)(k \<mapsto> v)"
  by (induction d) auto

lemma foldl_dict_keys:
  "set (map fst (foldl (\<lambda>d (key, v). dict_set d (f key) v) d0 xs))
     = set (map fst d0) \<union> f ` set (map fst xs)"
proof (induction xs arbitrary: d0)
  case Nil
  then show ?case by simp
next
  case (Cons x xs)
  obtain k v where x: "x = (k, v)" by (cases x)
  show ?case
    unfolding x foldl_Cons prod.case Cons.IH set_dict_set by auto
qed

lemma foldl_dict_distinct:
  "distinct (map fst d0) \<Longrightarrow>
     distinct (map fst (foldl (\<lambda>d (key, v). dict_set d (f key) v) d0 xs))"
proof (induction xs arbitrary: d0)
  case Nil
  then show ?case by simp
next
  case (Cons x xs)
  obtain k v where x: "x = (k, v)" by (cases x)
  show ?case
    unfolding x foldl_Cons prod.case
    by (rule Cons.IH) (rule distinct_dict_set [OF Cons.prems])
qed

lemma foldl_dict_values:
  assumes "distinct (map fst xs)" "inj_on f (set (map fst xs))" "(k, v) \<in> set xs"
  shows "map_of (foldl (\<lambda>d (key, v). dict_set d (f key) v) d0 xs) (f k) = Some v"
  using assms
proof (induction xs arbitrary: k v rule: rev_induct)
  case Nil
  then show ?case by simp
next
  case (snoc x xs)
  obtain k' v' where x: "x = (k', v')" by (cases x)
  have step: "foldl (\<lambda>d (key, v). dict_set d (f key) v) d0 (xs @ [x]) =
      dict_set (foldl (\<lambda>d (key, v). dict_set d (f key) v) d0 xs) (f k') v'"
    by (simp add: x)
  show ?case
  proof (cases "(k, v) = (k', v')")
    case True
    then show ?thesis unfolding step by (simp add: map_of_dict_set)
  next
    case False
    with snoc.prems(3) x have mem: "(k, v) \<in> set xs" by auto
    then have kin: "k \<in> set (map fst xs)" by force
    have k'out: "k' \<notin> set (map fst xs)" using snoc.prems(1) x by simp
    have neq: "k \<noteq> k'" using kin k'out by blast
    have "f k \<noteq> f k'"
    proof
      assume "f k = f k'"
      moreover have "k \<in> set (map fst (xs @ [x]))" "k' \<in> set (map fst (xs @ [x]))"
        using kin x by simp_all
      ultimately have "k = k'" using snoc.prems(2) by (meson inj_onD)
      with neq show False by simp
    qed
    moreover have "map_of (foldl (\<lambda>d (key, v). dict_set d (f key) v) d0 xs) (f k) = Some v"
    proof (rule snoc.IH)
      show "distinct (map fst xs)" using snoc.prems(1) by simp
      show "inj_on f (set (map fst xs))"
        using snoc.prems(2) by (rule inj_on_subset) auto
      show "(k, v) \<in> set xs" by (rule mem)
    qed
    ultimately show ?thesis unfolding step by (simp add: map_of_dict_set)
  qed
qed

lemma str_replace_example:
  "str_replace ''layernorm'' ''norm'' ''layers.0.input_layernorm.weight''
     = ''layers.0.input_norm.weight''"
  "str_replace ''layernorm'' ''norm'' ''latents'' = ''latents''"
  by code_simp+

lemma load_state_dict_local:
  assumes "arg_transformer_impl args \<noteq> ''transformer_engine''"
  shows "lc_state_dict (load_state_dict args state_dict strict) =
     foldl (\<lambda>d (key, v). dict_set d (str_replace ''layernorm'' ''norm'' key) v) [] state_dict"
  using assms by (simp add: load_state_dict_def Let_def)

text \<open>
  C9. When the transformer implementation is not \<^verbatim>\<open>transformer_engine\<close>, the
  dictionary handed to the standard loading has as keys exactly the keys of the given
  one with \<^verbatim>\<open>layernorm\<close> replaced by \<^verbatim>\<open>norm\<close>, each (when no two keys collide) with the
  value of its original; and the call is strict only if
  \<^verbatim>\<open>use_mistral_rotary_position_embeddings\<close> is set, then with the caller's
  \<^verbatim>\<open>strict\<close>, and never otherwise.
\<close>

theorem load_state_dict_renames:
  assumes "arg_transformer_impl args \<noteq> ''transformer_engine''"
  shows "set (map fst (lc_state_dict (load_state_dict args state_dict strict)))
           = str_replace ''layernorm'' ''norm'' ` set (map fst state_dict)
       \<and> distinct (map fst (lc_state_dict (load_state_dict args state_dict strict)))
       \<and> (distinct (map fst state_dict)
            \<and> inj_on (str_replace ''layernorm'' ''norm'') (set (map fst state_dict))
            \<and> (key, v) \<in> set state_dict \<longrightarrow>
          map_of (lc_state_dict (load_state_dict args state_dict strict))
            (str_replace ''layernorm'' ''norm'' key) = Some v)
       \<and> lc_strict (load_state_dict args state_dict strict)
           = (arg_use_mistral_rotary_position_embeddings args \<and> strict)"
proof -
  note loc = load_state_dict_local [OF assms]
  have keys: "set (map fst (lc_state_dict (load_state_dict args state_dict strict)))
           = str_replace ''layernorm'' ''norm'' ` set (map fst state_dict)"
    unfolding loc foldl_dict_keys by simp
  have dist: "distinct (map fst (lc_state_dict (load_state_dict args state_dict strict)))"
    unfolding loc by (rule foldl_dict_distinct) simp
  have vals: "distinct (map fst state_dict)
            \<and> inj_on (str_replace ''layernorm'' ''norm'') (set (map fst state_dict))
            \<and> (key, v) \<in> set state_dict \<longrightarrow>
          map_of (lc_state_dict (load_state_dict args state_dict strict))
            (str_replace ''layernorm'' ''norm'' key) = Some v"
    unfolding loc
    by (intro impI, elim conjE)
      (rule foldl_dict_values [where f = "str_replace ''layernorm'' ''norm''"])
  have strict: "lc_strict (load_state_dict args state_dict strict)
           = (arg_use_mistral_rotary_position_embeddings args \<and> strict)"
    by (simp add: load_state_dict_def Let_def)
  show ?thesis using keys dist vals strict by blast
qed

theorem load_state_dict_renames_witness:
  "map_of (lc_state_dict (load_state_dict example_args
       [(''layers.0.input_layernorm.weight'', 1::nat), (''latents'', 2)] True))
     ''layers.0.input_norm.weight'' = Some 1
   \<and> lc_strict (load_state_dict example_args
       [(''layers.0.input_layernorm.weight'', 1::nat), (''latents'', 2)] True) = False
   \<and> lc_strict (load_state_dict
       (example_args\<lparr>arg_use_mistral_rotary_position_embeddings := True\<rparr>)
       [(''layers.0.input_layernorm.weight'', 1::nat), (''latents'', 2)] True) = True"
proof -
  have impl: "arg_transformer_impl example_args \<noteq> ''transformer_engine''"
    "arg_transformer_impl (example_args\<lparr>arg_use_mistral_rotary_position_embeddings := True\<rparr>)
       \<noteq> ''transformer_engine''"
    by (simp_all add: example_args_fields)
  have inj: "inj_on (str_replace ''layernorm'' ''norm'')
      (set (map fst [(''layers.0.input_layernorm.weight'', 1::nat), (''latents'', 2)]))"
    by (simp add: str_replace_example)
  show ?thesis
    using load_state_dict_renames [OF impl(1),
        where state_dict = "[(''layers.0.input_layernorm.weight'', 1::nat), (''latents'', 2)]"
          and strict = True and key = "''layers.0.input_layernorm.weight''" and v = 1]
      load_state_dict_renames [OF impl(2),
        where state_dict = "[(''layers.0.input_layernorm.weight'', 1::nat), (''latents'', 2)]"
          and strict = True and key = "''layers.0.input_layernorm.weight''" and v = 1]
      inj
    by (simp add: str_replace_example example_args_fields)
qed

subsection \<open>The inference cache of ParallelAttention\<close>

lemma slice_assign_in_bounds:
  assumes "ct_size memory = [S, B, np, dk]" "ct_size layer = [sk, bk, np, dk]"
    and "s0 + sk \<le> S" "b0 + bk \<le> B"
  shows "slice_assign memory s0 (s0 + sk) b0 (b0 + bk) layer =
     Inr (memory\<lparr>ct_at := (\<lambda>s b h d.
            if s0 \<le> s \<and> s < s0 + sk \<and> b0 \<le> b \<and> b < b0 + bk \<and> h < np \<and> d < dk
            then ct_at layer (if sk = 1 then 0 else s - s0) (if bk = 1 then 0 else b - b0)
                   (if np = 1 then 0 else h) (if dk = 1 then 0 else d)
            else ct_at memory s b h d)\<rparr>)"
  using assms by (simp add: slice_assign_def Let_def min_def max_def)

lemma slice_read_in_bounds:
  assumes "ct_size memory = [S, B, np, dk]" "s1 \<le> S" "b0 + bk \<le> B"
  shows "slice_read memory s1 b0 (b0 + bk) =
     Inr \<lparr>ct_size = [s1, bk, np, dk], ct_at = (\<lambda>s b h d. ct_at memory s (b0 + b) h d)\<rparr>"
  using assms by (simp add: slice_read_def Let_def min_def max_def)

lemma adjust_key_value_out_of_bounds:
  assumes "ct_size key_layer = [sk, bk, np, dk]" "ct_size km = [S, B, G, D]"
    and "B < ip_batch_size_offset ip + bk \<or> S < ip_sequence_len_offset ip + sk"
  shows "adjust_key_value ip km vm key_layer value_layer = (Inl AssertionError, km, vm)"
  using assms by (auto simp: adjust_key_value_def size_at_def Let_def)

lemma adjust_key_value_in_bounds:
  assumes "ct_size key_layer = [sk, bk, np, dk]" "ct_size value_layer = [sk, bk, np, dk]"
    "ct_size km = [S, B, np, dk]" "ct_size vm = [S, B, np, dk]"
    and "ip_batch_size_offset ip + bk \<le> B" "ip_sequence_len_offset ip + sk \<le> S"
  shows "adjust_key_value ip km vm key_layer value_layer =
     (let s0 = ip_sequence_len_offset ip; b0 = ip_batch_size_offset ip;
          written = (\<lambda>memory layer. memory\<lparr>ct_at := (\<lambda>s b h d.
            if s0 \<le> s \<and> s < s0 + sk \<and> b0 \<le> b \<and> b < b0 + bk \<and> h < np \<and> d < dk
            then ct_at layer (if sk = 1 then 0 else s - s0) (if bk = 1 then 0 else b - b0)
                   (if np = 1 then 0 else h) (if dk = 1 then 0 else d)
            else ct_at memory s b h d)\<rparr>);
          read = (\<lambda>memory. \<lparr>ct_size = [s0 + sk, bk, np, dk],
                    ct_at = (\<lambda>s b h d. ct_at memory s (b0 + b) h d)\<rparr>)
      in (Inr (read (written km key_layer), read (written vm value_layer)),
          written km key_layer, written vm value_layer))"
  using assms
  by (simp add: adjust_key_value_def size_at_def Let_def slice_assign_in_bounds
      slice_read_in_bounds)

lemma preallocate_memory_entry:
  assumes "preallocate_memory self uk uv ip = (ip1, km, vm)"
  shows "ip_key_value_memory_dict ip1 (pa_layer_number self) = Some (km, vm)"
    and "ip_batch_size_offset ip1 = ip_batch_size_offset ip"
    and "ip_sequence_len_offset ip1 = ip_sequence_len_offset ip"
    and "ip_key_value_memory_dict ip (pa_layer_number self) \<noteq> None \<Longrightarrow> ip1 = ip"
    and "ip_key_value_memory_dict ip (pa_layer_number self) = None \<Longrightarrow>
         ip1 = ip\<lparr>ip_key_value_memory_dict := (ip_key_value_memory_dict ip)
                 (pa_layer_number self \<mapsto> (km, vm))\<rparr>
         \<and> km = allocate_memory self uk (ip_max_sequence_length ip) (ip_max_batch_size ip)
                  (pa_num_query_groups_per_partition self)
         \<and> vm = allocate_memory self uv (ip_max_sequence_length ip) (ip_max_batch_size ip)
                  (pa_num_query_groups_per_partition self)"
  using assms
  by (auto simp: preallocate_memory_def Let_def split: option.splits prod.splits)

lemma inference_params_dict_same:
  assumes "ip_key_value_memory_dict ip1 l = Some (km, vm)"
  shows "ip1\<lparr>ip_key_value_memory_dict := (ip_key_value_memory_dict ip1)(l \<mapsto> (km, vm))\<rparr> = ip1"
proof -
  have "(ip_key_value_memory_dict ip1)(l \<mapsto> (km, vm)) = ip_key_value_memory_dict ip1"
    using assms by (rule map_upd_triv)
  then show ?thesis by simp
qed

text \<open>
  C5, as the code has it. \<^verbatim>\<open>ParallelAttention.forward\<close> with \<^verbatim>\<open>inference_params\<close>,
  on a key and a value \<open>[sk, bk, np, dk]\<close> and key and value memory \<open>[S, B, G, D]\<close> for
  this layer (the entry of the dictionary, or the buffers the call has just allocated).
  If the batch end offset \<open>b0 + bk\<close> exceeds \<open>B\<close> or the sequence end offset \<open>s0 + sk\<close>
  exceeds \<open>S\<close>, the call raises \<^verbatim>\<open>AssertionError\<close> and no element of the memory is
  written: the section leaves both tensors as they were. \<^verbatim>\<open>inference_params\<close> is then
  what the pre-allocation of lines 591-607 left: the given structure itself when the
  layer had its entry, and the structure with the fresh buffers registered under the
  layer number when it had none. If both offsets are within bounds and the memory has
  the heads and the head size of the key, the key and the value are written at rows
  \<open>s0 .. s0 + sk - 1\<close> and columns \<open>b0 .. b0 + bk - 1\<close>, the rest of the memory is kept, and
  the effective key and value are the first \<open>s0 + sk\<close> rows of the memory at the columns
  from \<open>b0\<close>.
\<close>

theorem inference_cache_bounds:
  assumes pre: "preallocate_memory self uninit_key uninit_value ip = (ip1, km, vm)"
    and sizes: "ct_size key_layer = [sk, bk, np, dk]" "ct_size value_layer = [sk, bk, np, dk]"
      "ct_size km = [S, B, G, D]" "ct_size vm = [S, B, G, D]"
    and offsets: "s0 = ip_sequence_len_offset ip" "b0 = ip_batch_size_offset ip"
  shows "(B < b0 + bk \<or> S < s0 + sk \<longrightarrow>
            adjust_key_value ip1 km vm key_layer value_layer = (Inl AssertionError, km, vm)
          \<and> ParallelAttention_forward_cache self uninit_key uninit_value ip key_layer value_layer
              = (Inl AssertionError, ip1)
          \<and> (ip_key_value_memory_dict ip (pa_layer_number self) \<noteq> None \<longrightarrow> ip1 = ip)
          \<and> (ip_key_value_memory_dict ip (pa_layer_number self) = None \<longrightarrow>
                ip1 = ip\<lparr>ip_key_value_memory_dict := (ip_key_value_memory_dict ip)
                        (pa_layer_number self \<mapsto> (km, vm))\<rparr>
                \<and> km = allocate_memory self uninit_key (ip_max_sequence_length ip)
                         (ip_max_batch_size ip) (pa_num_query_groups_per_partition self)
                \<and> vm = allocate_memory self uninit_value (ip_max_sequence_length ip)
                         (ip_max_batch_size ip) (pa_num_query_groups_per_partition self)))
       \<and> (b0 + bk \<le> B \<and> s0 + sk \<le> S \<and> G = np \<and> D = dk \<longrightarrow>
            (\<exists>K V key_memory value_memory.
               ParallelAttention_forward_cache self uninit_key uninit_value ip key_layer
                   value_layer
                 = (Inr (K, V),
                    ip1\<lparr>ip_key_value_memory_dict := (ip_key_value_memory_dict ip1)
                      (pa_layer_number self \<mapsto> (key_memory, value_memory))\<rparr>)
             \<and> ct_size key_memory = [S, B, np, dk] \<and> ct_size value_memory = [S, B, np, dk]
             \<and> (\<forall>s b h d. s < S \<and> b < B \<and> h < np \<and> d < dk \<longrightarrow>
                   ct_at key_memory s b h d =
                     (if s0 \<le> s \<and> s < s0 + sk \<and> b0 \<le> b \<and> b < b0 + bk
                      then ct_at key_layer (s - s0) (b - b0) h d else ct_at km s b h d)
                 \<and> ct_at value_memory s b h d =
                     (if s0 \<le> s \<and> s < s0 + sk \<and> b0 \<le> b \<and> b < b0 + bk
                      then ct_at value_layer (s - s0) (b - b0) h d else ct_at vm s b h d))
             \<and> ct_size K = [s0 + sk, bk, np, dk] \<and> ct_size V = [s0 + sk, bk, np, dk]
             \<and> (\<forall>s b h d. ct_at K s b h d = ct_at key_memory s (b0 + b) h d
                          \<and> ct_at V s b h d = ct_at value_memory s (b0 + b) h d)))"
proof -
  note E = preallocate_memory_entry [OF pre]
  have out: "B < b0 + bk \<or> S < s0 + sk \<longrightarrow>
            adjust_key_value ip1 km vm key_layer value_layer = (Inl AssertionError, km, vm)
          \<and> ParallelAttention_forward_cache self uninit_key uninit_value ip key_layer value_layer
              = (Inl AssertionError, ip1)
          \<and> (ip_key_value_memory_dict ip (pa_layer_number self) \<noteq> None \<longrightarrow> ip1 = ip)
          \<and> (ip_key_value_memory_dict ip (pa_layer_number self) = None \<longrightarrow>
                ip1 = ip\<lparr>ip_key_value_memory_dict := (ip_key_value_memory_dict ip)
                        (pa_layer_number self \<mapsto> (km, vm))\<rparr>
                \<and> km = allocate_memory self uninit_key (ip_max_sequence_length ip)
                         (ip_max_batch_size ip) (pa_num_query_groups_per_partition self)
                \<and> vm = allocate_memory self uninit_value (ip_max_sequence_length ip)
                         (ip_max_batch_size ip) (pa_num_query_groups_per_partition self))"
  proof (intro impI)
    assume oob: "B < b0 + bk \<or> S < s0 + sk"
    have a: "adjust_key_value ip1 km vm key_layer value_layer = (Inl AssertionError, km, vm)"
      by (rule adjust_key_value_out_of_bounds [OF sizes(1) sizes(3)])
        (use oob offsets E(2,3) in simp)
    have "ParallelAttention_forward_cache self uninit_key uninit_value ip key_layer value_layer
              = (Inl AssertionError, ip1)"
      by (simp add: ParallelAttention_forward_cache_def pre a
          inference_params_dict_same [OF E(1)])
    with a E(4) E(5) show "adjust_key_value ip1 km vm key_layer value_layer
            = (Inl AssertionError, km, vm)
          \<and> ParallelAttention_forward_cache self uninit_key uninit_value ip key_layer value_layer
              = (Inl AssertionError, ip1)
          \<and> (ip_key_value_memory_dict ip (pa_layer_number self) \<noteq> None \<longrightarrow> ip1 = ip)
          \<and> (ip_key_value_memory_dict ip (pa_layer_number self) = None \<longrightarrow>
                ip1 = ip\<lparr>ip_key_value_memory_dict := (ip_key_value_memory_dict ip)
                        (pa_layer_number self \<mapsto> (km, vm))\<rparr>
                \<and> km = allocate_memory self uninit_key (ip_max_sequence_length ip)
                         (ip_max_batch_size ip) (pa_num_query_groups_per_partition self)
                \<and> vm = allocate_memory self uninit_value (ip_max_sequence_length ip)
                         (ip_max_batch_size ip) (pa_num_query_groups_per_partition self))"
      by blast
  qed
  have inb: "b0 + bk \<le> B \<and> s0 + sk \<le> S \<and> G = np \<and> D = dk \<longrightarrow>
            (\<exists>K V key_memory value_memory.
               ParallelAttention_forward_cache self uninit_key uninit_value ip key_layer
                   value_layer
                 = (Inr (K, V),
                    ip1\<lparr>ip_key_value_memory_dict := (ip_key_value_memory_dict ip1)
                      (pa_layer_number self \<mapsto> (key_memory, value_memory))\<rparr>)
             \<and> ct_size key_memory = [S, B, np, dk] \<and> ct_size value_memory = [S, B, np, dk]
             \<and> (\<forall>s b h d. s < S \<and> b < B \<and> h < np \<and> d < dk \<longrightarrow>
                   ct_at key_memory s b h d =
                     (if s0 \<le> s \<and> s < s0 + sk \<and> b0 \<le> b \<and> b < b0 + bk
                      then ct_at key_layer (s - s0) (b - b0) h d else ct_at km s b h d)
                 \<and> ct_at value_memory s b h d =
                     (if s0 \<le> s \<and> s < s0 + sk \<and> b0 \<le> b \<and> b < b0 + bk
                      then ct_at value_layer (s - s0) (b - b0) h d else ct_at vm s b h d))
             \<and> ct_size K = [s0 + sk, bk, np, dk] \<and> ct_size V = [s0 + sk, bk, np, dk]
             \<and> (\<forall>s b h d. ct_at K s b h d = ct_at key_memory s (b0 + b) h d
                          \<and> ct_at V s b h d = ct_at value_memory s (b0 + b) h d))"
  proof (intro impI)
    assume ib: "b0 + bk \<le> B \<and> s0 + sk \<le> S \<and> G = np \<and> D = dk"
    with sizes have sizes': "ct_size km = [S, B, np, dk]" "ct_size vm = [S, B, np, dk]"
      by simp_all
    have adj: "adjust_key_value ip1 km vm key_layer value_layer =
     (let s0 = ip_sequence_len_offset ip1; b0 = ip_batch_size_offset ip1;
          written = (\<lambda>memory layer. memory\<lparr>ct_at := (\<lambda>s b h d.
            if s0 \<le> s \<and> s < s0 + sk \<and> b0 \<le> b \<and> b < b0 + bk \<and> h < np \<and> d < dk
            then ct_at layer (if sk = 1 then 0 else s - s0) (if bk = 1 then 0 else b - b0)
                   (if np = 1 then 0 else h) (if dk = 1 then 0 else d)
            else ct_at memory s b h d)\<rparr>);
          read = (\<lambda>memory. \<lparr>ct_size = [s0 + sk, bk, np, dk],
                    ct_at = (\<lambda>s b h d. ct_at memory s (b0 + b) h d)\<rparr>)
      in (Inr (read (written km key_layer), read (written vm value_layer)),
          written km key_layer, written vm value_layer))"
      by (rule adjust_key_value_in_bounds [OF sizes(1,2) sizes'])
        (use ib offsets E(2,3) in simp_all)
    show "\<exists>K V key_memory value_memory.
               ParallelAttention_forward_cache self uninit_key uninit_value ip key_layer
                   value_layer
                 = (Inr (K, V),
                    ip1\<lparr>ip_key_value_memory_dict := (ip_key_value_memory_dict ip1)
                      (pa_layer_number self \<mapsto> (key_memory, value_memory))\<rparr>)
             \<and> ct_size key_memory = [S, B, np, dk] \<and> ct_size value_memory = [S, B, np, dk]
             \<and> (\<forall>s b h d. s < S \<and> b < B \<and> h < np \<and> d < dk \<longrightarrow>
                   ct_at key_memory s b h d =
                     (if s0 \<le> s \<and> s < s0 + sk \<and> b0 \<le> b \<and> b < b0 + bk
                      then ct_at key_layer (s - s0) (b - b0) h d else ct_at km s b h d)
                 \<and> ct_at value_memory s b h d =
                     (if s0 \<le> s \<and> s < s0 + sk \<and> b0 \<le> b \<and> b < b0 + bk
                      then ct_at value_layer (s - s0) (b - b0) h d else ct_at vm s b h d))
             \<and> ct_size K = [s0 + sk, bk, np, dk] \<and> ct_size V = [s0 + sk, bk, np, dk]
             \<and> (\<forall>s b h d. ct_at K s b h d = ct_at key_memory s (b0 + b) h d
                          \<and> ct_at V s b h d = ct_at value_memory s (b0 + b) h d)"
      unfolding ParallelAttention_forward_cache_def pre adj Let_def prod.case
      apply (intro exI conjI)
              apply (rule refl)
      using sizes(1,2) sizes' offsets E(2,3) by auto
  qed
  show ?thesis using out inb by blast
qed

text \<open>
  The claim as stated fails on a layer's first call: the dictionary of the cache has no
  entry for layer 1, the key of length 7 at offset 2 does not fit the 8 positions, and
  the call raises with the new buffers registered in the dictionary. It also fails
  within bounds when the buffers have fewer heads than the key: with grouped-query
  attention and 4 query groups the constructor gives 2 groups per rank, the buffers
  are \<open>[8, 2, 2, 32]\<close>, and the write of a key \<open>[3, 2, 4, 32]\<close> raises.
\<close>

theorem inference_cache_first_call_counterexample:
  "ip_key_value_memory_dict example_inference_params 1 = None
   \<and> ParallelAttention_forward_cache example_attention example_uninit example_uninit
        example_inference_params (example_key 7) (example_key 7) =
      (Inl AssertionError,
       example_inference_params\<lparr>ip_key_value_memory_dict :=
         [1 \<mapsto> (example_memory, example_memory)]\<rparr>)
   \<and> ParallelAttention_init example_config
        (example_args\<lparr>arg_group_query_attention := True, arg_num_query_groups := 4\<rparr>) 2 1
        AttnType_cross_attn AttnMaskType_padding =
      Inr (example_attention\<lparr>pa_num_query_groups_per_partition := 2\<rparr>)
   \<and> fst (ParallelAttention_forward_cache
        (example_attention\<lparr>pa_num_query_groups_per_partition := 2\<rparr>) example_uninit
        example_uninit example_inference_params (example_key 3) (example_key 3)) =
      Inl RuntimeError"
proof -
  have first: "ParallelAttention_forward_cache example_attention example_uninit example_uninit
        example_inference_params (example_key 7) (example_key 7) =
      (Inl AssertionError,
       example_inference_params\<lparr>ip_key_value_memory_dict :=
         [1 \<mapsto> (example_memory, example_memory)]\<rparr>)"
    by (simp add: ParallelAttention_forward_cache_def preallocate_memory_def allocate_memory_def
        adjust_key_value_def size_at_def example_attention_fields example_inference_params_def
        example_key_def example_memory_def Let_def)
  have init: "ParallelAttention_init example_config
        (example_args\<lparr>arg_group_query_attention := True, arg_num_query_groups := 4\<rparr>) 2 1
        AttnType_cross_attn AttnMaskType_padding =
      Inr (example_attention\<lparr>pa_num_query_groups_per_partition := 2\<rparr>)"
    by (simp add: ParallelAttention_init_def ColumnParallelLinear_init_def
        RowParallelLinear_init_def CoreAttention_init_def utils_divide_def Let_def
        example_config_fields example_args_fields example_attention_def)
  have grouped: "fst (ParallelAttention_forward_cache
        (example_attention\<lparr>pa_num_query_groups_per_partition := 2\<rparr>) example_uninit
        example_uninit example_inference_params (example_key 3) (example_key 3)) =
      Inl RuntimeError"
    by (simp add: ParallelAttention_forward_cache_def preallocate_memory_def allocate_memory_def
        adjust_key_value_def slice_assign_def size_at_def example_attention_fields
        example_inference_params_def example_key_def Let_def)
  from first init grouped show ?thesis
    by (simp add: example_inference_params_def)
qed

theorem inference_cache_bounds_witness:
  "(\<exists>K V ip'.
      ParallelAttention_forward_cache example_attention (\<lambda>s b h d. 0) (\<lambda>s b h d. 0)
        example_inference_params
        \<lparr>ct_size = [3, 2, 4, 32], ct_at = (\<lambda>s b h d. 100 + s)\<rparr>
        \<lparr>ct_size = [3, 2, 4, 32], ct_at = (\<lambda>s b h d. 200 + s)\<rparr> = (Inr (K, V), ip')
      \<and> ct_size K = [5, 2, 4, 32] \<and> ct_at K 3 1 0 0 = 101 \<and> ct_at K 0 1 0 0 = 0
      \<and> ct_at V 4 0 3 31 = 202)
   \<and> (\<exists>ip'. ParallelAttention_forward_cache example_attention (\<lambda>s b h d. 0) (\<lambda>s b h d. 0)
        example_inference_params
        \<lparr>ct_size = [7, 2, 4, 32], ct_at = (\<lambda>s b h d. 100 + s)\<rparr>
        \<lparr>ct_size = [7, 2, 4, 32], ct_at = (\<lambda>s b h d. 200 + s)\<rparr>
        = (Inl AssertionError, ip'))"
proof -
  define u where "u = (\<lambda>(s::nat) (b::nat) (h::nat) (d::nat). 0::nat)"
  define key3 where "key3 = \<lparr>ct_size = [3, 2, 4, 32], ct_at = (\<lambda>s b h d. 100 + s)\<rparr>"
  define val3 where "val3 = \<lparr>ct_size = [3, 2, 4, 32], ct_at = (\<lambda>s b h d. 200 + s)\<rparr>"
  define key7 where "key7 = \<lparr>ct_size = [7, 2, 4, 32], ct_at = (\<lambda>s b h d. 100 + s)\<rparr>"
  define val7 where "val7 = \<lparr>ct_size = [7, 2, 4, 32], ct_at = (\<lambda>s b h d. 200 + s)\<rparr>"
  define km0 where "km0 = \<lparr>ct_size = [8, 2, 4, 32], ct_at = u\<rparr>"
  define ip1 where "ip1 = example_inference_params\<lparr>ip_key_value_memory_dict :=
        [1 \<mapsto> (km0, km0)]\<rparr>"
  have pre: "preallocate_memory example_attention u u example_inference_params = (ip1, km0, km0)"
    by (simp add: preallocate_memory_def allocate_memory_def example_attention_fields
        example_inference_params_def Let_def ip1_def km0_def)
  have offs: "2 = ip_sequence_len_offset example_inference_params"
    "0 = ip_batch_size_offset example_inference_params"
    by (simp_all add: example_inference_params_def)
  have sz: "ct_size key3 = [3, 2, 4, 32]" "ct_size val3 = [3, 2, 4, 32]"
    "ct_size key7 = [7, 2, 4, 32]" "ct_size val7 = [7, 2, 4, 32]"
    "ct_size km0 = [8, 2, 4, 32]"
    by (simp_all add: key3_def val3_def key7_def val7_def km0_def)
  note T3 = inference_cache_bounds [OF pre sz(1) sz(2) sz(5) sz(5) offs]
  note T7 = inference_cache_bounds [OF pre sz(3) sz(4) sz(5) sz(5) offs]
  have inb: "0 + 2 \<le> (2::nat) \<and> 2 + 3 \<le> (8::nat) \<and> (4::nat) = 4 \<and> (32::nat) = 32" by simp
  have oob: "(2::nat) < 0 + 2 \<or> (8::nat) < 2 + 7" by simp
  from T3 [THEN conjunct2, THEN mp, OF inb] obtain K V key_memory value_memory where
    call: "ParallelAttention_forward_cache example_attention u u example_inference_params
        key3 val3
        = (Inr (K, V), ip1\<lparr>ip_key_value_memory_dict := (ip_key_value_memory_dict ip1)
              (pa_layer_number example_attention \<mapsto> (key_memory, value_memory))\<rparr>)"
    and sizeK: "ct_size K = [2 + 3, 2, 4, 32]"
    and mem: "\<forall>s b h d. s < 8 \<and> b < 2 \<and> h < 4 \<and> d < 32 \<longrightarrow>
        ct_at key_memory s b h d =
          (if 2 \<le> s \<and> s < 2 + 3 \<and> 0 \<le> b \<and> b < 0 + 2
           then ct_at key3 (s - 2) (b - 0) h d else ct_at km0 s b h d)
      \<and> ct_at value_memory s b h d =
          (if 2 \<le> s \<and> s < 2 + 3 \<and> 0 \<le> b \<and> b < 0 + 2
           then ct_at val3 (s - 2) (b - 0) h d else ct_at km0 s b h d)"
    and rd: "\<forall>s b h d. ct_at K s b h d = ct_at key_memory s (0 + b) h d
                   \<and> ct_at V s b h d = ct_at value_memory s (0 + b) h d"
    by blast
  have k1: "ct_at K 3 1 0 0 = 101"
    using mem [rule_format, of 3 1 0 0] rd [rule_format, of 3 1 0 0] by (simp add: key3_def)
  have k2: "ct_at K 0 1 0 0 = 0"
    using mem [rule_format, of 0 1 0 0] rd [rule_format, of 0 1 0 0]
    by (simp add: km0_def u_def)
  have v1: "ct_at V 4 0 3 31 = 202"
    using mem [rule_format, of 4 0 3 31] rd [rule_format, of 4 0 3 31] by (simp add: val3_def)
  have sizeK': "ct_size K = [5, 2, 4, 32]" using sizeK by simp
  have ok: "\<exists>K V ip'.
      ParallelAttention_forward_cache example_attention u u example_inference_params
        key3 val3 = (Inr (K, V), ip')
      \<and> ct_size K = [5, 2, 4, 32] \<and> ct_at K 3 1 0 0 = 101 \<and> ct_at K 0 1 0 0 = 0
      \<and> ct_at V 4 0 3 31 = 202"
    using call sizeK' k1 k2 v1 by blast
  have bad: "\<exists>ip'. ParallelAttention_forward_cache example_attention u u
        example_inference_params key7 val7 = (Inl AssertionError, ip')"
    using T7 [THEN conjunct1, THEN mp, OF oob] by blast
  show ?thesis
    using ok bad unfolding u_def key3_def val3_def key7_def val7_def by blast
qed

subsection \<open>The forward of ParallelAttention\<close>

lemma ParallelAttention_init_Inr:
  assumes "ParallelAttention_init config args world_size layer_number attention_type
             attn_mask_type = Inr self"
  shows "0 < world_size" and "world_size dvd cfg_num_attention_heads config"
    and "0 < cfg_num_attention_heads config"
    and "pa_sequence_parallel self = False"
    and "pa_use_flash_attn self = arg_use_flash_attn args"
    and "pa_hidden_size_per_attention_head self = cfg_kv_channels config"
    and "pa_hidden_size_per_attention_head_kv self = cfg_kv_channels config"
    and "pa_num_attention_heads_per_partition self = cfg_num_attention_heads config div world_size"
    and "pa_query self =
           \<lparr>pl_in = cfg_text_hidden_size config,
            pl_out = cfg_num_attention_heads config div world_size * cfg_kv_channels config,
            pl_bias = cfg_add_bias_linear config, pl_skip_bias_add = False\<rparr>"
    and "pa_key_value self =
           \<lparr>pl_in = cfg_text_hidden_size config,
            pl_out = cfg_num_attention_heads config div world_size * (2 * cfg_kv_channels config),
            pl_bias = cfg_add_bias_linear config, pl_skip_bias_add = False\<rparr>"
    and "ca_hidden_size_per_partition (pa_core_attention self) =
           cfg_num_attention_heads config div world_size * cfg_kv_channels config"
    and "pa_dense self =
           \<lparr>pl_in = cfg_num_attention_heads config div world_size * cfg_kv_channels config,
            pl_out = cfg_text_hidden_size config,
            pl_bias = arg_add_bias_linear args, pl_skip_bias_add = True\<rparr>"
    and "pa_core_attention_flash self =
           (if arg_use_flash_attn args
            then Some \<lparr>fsa_causal = (attn_mask_type = AttnMaskType_causal),
                       fsa_softmax_scale = None,
                       fsa_dropout_p = cfg_attention_dropout config,
                       fsa_training = True\<rparr>
            else None)"
proof -
  define H where "H = cfg_num_attention_heads config"
  define kv where "kv = cfg_kv_channels config"
  have a1: "0 < world_size \<Longrightarrow> world_size dvd H \<Longrightarrow> kv * H div world_size = H div world_size * kv"
    by (metis div_mult_swap mult.commute)
  have a2: "0 < world_size \<Longrightarrow> world_size dvd H \<Longrightarrow> 0 < H \<Longrightarrow>
      2 * (kv * H) * (H div H) div world_size = H div world_size * (2 * kv)"
    by (smt (verit) div_mult_swap mult.commute mult.left_commute div_self nat_mult_1_right not_gr_zero)
  have a3: "0 < H \<Longrightarrow> kv * H div H = kv"
    by simp
  show "0 < world_size" "world_size dvd cfg_num_attention_heads config"
    "0 < cfg_num_attention_heads config"
    "pa_sequence_parallel self = False"
    "pa_use_flash_attn self = arg_use_flash_attn args"
    "pa_hidden_size_per_attention_head self = cfg_kv_channels config"
    "pa_hidden_size_per_attention_head_kv self = cfg_kv_channels config"
    "pa_num_attention_heads_per_partition self = cfg_num_attention_heads config div world_size"
    "pa_query self =
           \<lparr>pl_in = cfg_text_hidden_size config,
            pl_out = cfg_num_attention_heads config div world_size * cfg_kv_channels config,
            pl_bias = cfg_add_bias_linear config, pl_skip_bias_add = False\<rparr>"
    "pa_key_value self =
           \<lparr>pl_in = cfg_text_hidden_size config,
            pl_out = cfg_num_attention_heads config div world_size * (2 * cfg_kv_channels config),
            pl_bias = cfg_add_bias_linear config, pl_skip_bias_add = False\<rparr>"
    "ca_hidden_size_per_partition (pa_core_attention self) =
           cfg_num_attention_heads config div world_size * cfg_kv_channels config"
    "pa_dense self =
           \<lparr>pl_in = cfg_num_attention_heads config div world_size * cfg_kv_channels config,
            pl_out = cfg_text_hidden_size config,
            pl_bias = arg_add_bias_linear args, pl_skip_bias_add = True\<rparr>"
    "pa_core_attention_flash self =
           (if arg_use_flash_attn args
            then Some \<lparr>fsa_causal = (attn_mask_type = AttnMaskType_causal),
                       fsa_softmax_scale = None,
                       fsa_dropout_p = cfg_attention_dropout config,
                       fsa_training = True\<rparr>
            else None)"
    using assms a1 a2 a3
    unfolding H_def kv_def
    by (auto simp: ParallelAttention_init_def ColumnParallelLinear_init_def
        RowParallelLinear_init_def CoreAttention_init_def ebind_eq_Inr utils_divide_Inr Let_def
        split: if_splits)
qed


lemma concat0_3d: "concat0 [L, B, h] [n, B, h] = Inr [L + n, B, h]"
  by (simp add: concat0_def)

lemma view_heads: "view [s, b, np * w] [Some s, Some b, Some np, Some w] = Inr [s, b, np, w]"
  by (simp add: view_def)

lemma utils_divide_double: "utils_divide (2 * w) 2 = Inr w"
  by (simp add: utils_divide_def)

lemma CoreAttention_forward_4d:
  assumes "0 < sq" "0 < sk" "0 < b" "0 < np"
    and "ca_hidden_size_per_partition self = np * hn"
  shows "CoreAttention_forward self [sq, b, np, hn] [sk, b, np, hn] [sk, b, np, hn] (Some m) =
     (if m = [b, 1, sq, sk] then Inr [sq, b, np * hn] else Inl ValueError)"
  using assms
  by (simp add: CoreAttention_forward_def CoreAttention_scores_4d CoreAttention_probs_Some
      CoreAttention_context_4d)

lemma ParallelAttention_forward_dense:
  assumes init: "ParallelAttention_init config args world_size layer_number attention_type
                   attn_mask_type = Inr self"
    and dense: "\<not> arg_use_flash_attn args"
    and pos: "0 < n" "0 < B"
  shows "ParallelAttention_forward self training meta [n, B, cfg_text_hidden_size config]
           [L, B, cfg_text_hidden_size config] (Some (AdditiveMask m)) None =
     (if m = [B, 1, n, L + n]
      then Inr (([n, B, cfg_text_hidden_size config],
                 if arg_add_bias_linear args then Some [cfg_text_hidden_size config] else None),
                None)
      else Inl ValueError)"
proof -
  note I = ParallelAttention_init_Inr [OF init]
  define np where "np = cfg_num_attention_heads config div world_size"
  define kv where "kv = cfg_kv_channels config"
  define h where "h = cfg_text_hidden_size config"
  have np: "0 < np"
    using I(1,2,3) by (auto simp: np_def elim!: dvdE)
  have core: "CoreAttention_forward (pa_core_attention self) [n, B, np, kv] [L + n, B, np, kv]
        [L + n, B, np, kv] (Some m) =
      (if m = [B, 1, n, L + n] then Inr [n, B, np * kv] else Inl ValueError)"
    using pos np I(11) by (intro CoreAttention_forward_4d) (simp_all add: np_def kv_def)
  show ?thesis
    unfolding ParallelAttention_forward_def h_def [symmetric]
    using dense
    by (simp add: concat0_3d parallel_linear_forward_3d I(5,6,7,8,9,10,12) view_heads
        utils_divide_double core attn_mask_size_def
        np_def [symmetric] kv_def [symmetric] h_def [symmetric])
qed


lemma FlashSelfAttention_forward_4d:
  assumes half: "am_dtype meta \<in> {float16, bfloat16}" and cuda: "am_is_cuda meta"
    and pos: "0 < b" "0 < sq" "0 < h"
    and rows: "length rows = b" "list_all (\<lambda>row. length row = sk) rows"
  shows "fst (FlashSelfAttention_forward self
           \<lparr>ft_shape = [b, sq, h, d], ft_dtype = am_dtype meta, ft_is_cuda = am_is_cuda meta\<rparr>
           \<lparr>ft_shape = [b, sk, h, d], ft_dtype = am_dtype meta, ft_is_cuda = am_is_cuda meta\<rparr>
           \<lparr>ft_shape = [b, sk, h, d], ft_dtype = am_dtype meta, ft_is_cuda = am_is_cuda meta\<rparr>
           (Some rows)) = Inr [b, sq, h, d]"
proof -
  have call: "FlashSelfAttention_kernel_call self
           \<lparr>ft_shape = [b, sq, h, d], ft_dtype = am_dtype meta, ft_is_cuda = am_is_cuda meta\<rparr>
           \<lparr>ft_shape = [b, sk, h, d], ft_dtype = am_dtype meta, ft_is_cuda = am_is_cuda meta\<rparr>
           \<lparr>ft_shape = [b, sk, h, d], ft_dtype = am_dtype meta, ft_is_cuda = am_is_cuda meta\<rparr>
           (Some rows) =
     Inr \<lparr>fc_q = [b * sq, h, d], fc_k = [length (filter id (concat rows)), h, d],
          fc_v = [length (filter id (concat rows)), h, d],
          fc_cu_seqlens_q = map (\<lambda>i. i * sq) [0..<b + 1],
          fc_cu_seqlens_k = 0 # cumsum 0 (map (\<lambda>row. length (filter id row)) rows),
          fc_max_seqlen_q = sq, fc_max_seqlen_k = sk,
          fc_dropout_p = (if fsa_training self then fsa_dropout_p self else 0),
          fc_softmax_scale = fsa_softmax_scale self, fc_causal = False\<rparr>"
    using half cuda pos(1,2) rows by (intro FlashSelfAttention_kernel_call_rows) simp_all
  show ?thesis
    using pos(1,3) rows(1)
    by (simp add: FlashSelfAttention_forward_def call flash_attn_unpadded_func_packed
        size_at_def rearrange_unflatten_batch length_cumsum)
qed

lemma ParallelAttention_forward_flash:
  assumes init: "ParallelAttention_init config args world_size layer_number attention_type
                   attn_mask_type = Inr self"
    and flash: "arg_use_flash_attn args"
    and half: "am_dtype meta \<in> {float16, bfloat16}" and cuda: "am_is_cuda meta"
    and pos: "0 < n" "0 < B"
    and rows: "length rows = B" "list_all (\<lambda>row. length row = L + n) rows"
  shows "ParallelAttention_forward self training meta [n, B, cfg_text_hidden_size config]
           [L, B, cfg_text_hidden_size config] (Some (PaddingMask rows)) None =
     Inr (([n, B, cfg_text_hidden_size config],
           if arg_add_bias_linear args then Some [cfg_text_hidden_size config] else None),
          None)"
proof -
  note I = ParallelAttention_init_Inr [OF init]
  define np where "np = cfg_num_attention_heads config div world_size"
  define kv where "kv = cfg_kv_channels config"
  define h where "h = cfg_text_hidden_size config"
  have np: "0 < np"
    using I(1,2,3) by (auto simp: np_def elim!: dvdE)
  note core = FlashSelfAttention_forward_4d [OF half cuda pos(2,1) np rows, of _ kv]
  show ?thesis
    unfolding ParallelAttention_forward_def h_def [symmetric]
    using flash
    by (simp add: concat0_3d parallel_linear_forward_3d I(4,5,6,7,8,9,10,12,13) view_heads
        utils_divide_double core rearrange_swap_def rearrange_merge_heads_def
        np_def [symmetric] kv_def [symmetric] h_def [symmetric])
qed

subsection \<open>ParallelTransformerLayer\<close>

lemma Idefics2ParallelMLP_forward_swiglu:
  assumes init: "Idefics2ParallelMLP_init config args world_size = Inr self"
    and gated: "cfg_gated_linear_unit config"
    and act: "\<not> arg_openai_gelu args" "\<not> arg_onnx_safe args" "arg_swiglu args"
  shows "Idefics2ParallelMLP_forward self [S, B, cfg_input_size config] =
     Inr ([S, B, cfg_output_size config],
          if cfg_add_bias_linear config then Some [cfg_output_size config] else None)"
proof -
  note I = Idefics2ParallelMLP_init_Inr [OF init]
  define w where "w = cfg_ffn_hidden_size config div world_size"
  have ffn: "cfg_ffn_hidden_size config = world_size * w"
    using I(1,2) by (simp add: w_def)
  have w2: "cfg_ffn_hidden_size config * 2 div world_size = 2 * w"
    using I(1) by (simp add: ffn)
  have h4h: "mlp_dense_h_to_4h self =
      \<lparr>pl_in = cfg_input_size config, pl_out = 2 * w,
       pl_bias = cfg_add_bias_linear config, pl_skip_bias_add = True\<rparr>"
    using gated by (simp add: I(4) w2)
  have f: "mlp_activation_func self = swiglu" "\<not> mlp_bias_gelu_fusion self"
    using init act
    by (auto simp: Idefics2ParallelMLP_init_def ColumnParallelLinear_init_def
        RowParallelLinear_init_def ebind_eq_Inr Let_def)
  have sw: "swiglu_fn [S, B, 2 * w] = Inr [S, B, w]"
    by (cases "w = 0") (auto simp: swiglu_fn_3d)
  show ?thesis
    by (simp add: Idefics2ParallelMLP_forward_def parallel_linear_forward_3d h4h f
        broadcast_bias_3d apply_activation_def sw I(5) w_def [symmetric])
qed

lemma expand_as_bias_3d: "expand_as [w] [S, B, w] = Inr [S, B, w]"
  by (simp add: expand_as_def)

lemma residual_update_3d:
  assumes "bias = None \<or> bias = Some [w]"
  shows "residual_update self training bias_required [S, B, w] bias [S, B, w] =
     (if ptl_drop_path self \<noteq> None \<and> bias = None \<and> bias_required then Inl TypeError
      else Inr [S, B, w])"
  using assms
  by (auto simp: residual_update_def bias_dropout_add_def broadcast_same broadcast_bias_3d
      expand_as_bias_3d DropPath_forward_shape_def split: option.splits)

lemma ParallelTransformerLayer_init_Inr:
  assumes "ParallelTransformerLayer_init config args world_size get_retro_args_imported
            layer_number layer_type
             self_attn_mask_type drop_path_rate = Inr self"
  shows "ParallelAttention_init config args world_size layer_number AttnType_cross_attn
           self_attn_mask_type = Inr (ptl_self_attention self)"
    and "Idefics2ParallelMLP_init
           (config\<lparr>cfg_input_size := cfg_text_hidden_size config,
                   cfg_ffn_hidden_size := cfg_text_hidden_size config * 4,
                   cfg_output_size := cfg_text_hidden_size config,
                   cfg_gated_linear_unit := True\<rparr>) args world_size = Inr (ptl_mlp self)"
    and "ptl_layer_type self = layer_type"
    and "layer_type \<noteq> LayerType_retro_decoder_with_retriever"
    and "ptl_input_latents_norm self = cfg_text_hidden_size config"
    and "ptl_input_context_norm self = cfg_text_hidden_size config"
    and "ptl_post_attention_norm self = cfg_text_hidden_size config"
    and "ptl_drop_path self = (if drop_path_rate > 0 then Some drop_path_rate else None)"
    and "ptl_layer_number self = layer_number"
  using assms
  by (auto simp: ParallelTransformerLayer_init_def ebind_eq_Inr Let_def split: if_splits)


lemma norm_forward_3d: "norm_forward w [S, B, w] = Inr [S, B, w]"
  by (simp add: norm_forward_def)

lemma ParallelTransformerLayer_forward_3d:
  assumes init: "ParallelTransformerLayer_init config args world_size get_retro_args_imported
            layer_number layer_type
                   self_attn_mask_type drop_path_rate = Inr self"
    and act: "\<not> arg_openai_gelu args" "\<not> arg_onnx_safe args" "arg_swiglu args"
    and attn: "ParallelAttention_forward (ptl_self_attention self) training meta
                 [n, B, cfg_text_hidden_size config] [L, B, cfg_text_hidden_size config]
                 attention_mask inference_params =
               Inr (([n, B, cfg_text_hidden_size config], bias), ip)"
    and bias: "bias = None \<or> bias = Some [cfg_text_hidden_size config]"
  shows "ParallelTransformerLayer_forward self training meta
           [n, B, cfg_text_hidden_size config] [L, B, cfg_text_hidden_size config]
           attention_mask retriever_output inference_params =
     (if 0 < drop_path_rate \<and> bias = None then Inl TypeError
      else Inr (Single [n, B, cfg_text_hidden_size config], ip))"
proof -
  note I = ParallelTransformerLayer_init_Inr [OF init]
  define h where "h = cfg_text_hidden_size config"
  define mlp_config where "mlp_config = config
     \<lparr>cfg_input_size := cfg_text_hidden_size config,
      cfg_ffn_hidden_size := cfg_text_hidden_size config * 4,
      cfg_output_size := cfg_text_hidden_size config,
      cfg_gated_linear_unit := True\<rparr>"
  have fields: "cfg_input_size mlp_config = h" "cfg_output_size mlp_config = h"
    "cfg_gated_linear_unit mlp_config"
    "cfg_add_bias_linear mlp_config = cfg_add_bias_linear config"
    by (simp_all add: mlp_config_def h_def)
  have mlp: "Idefics2ParallelMLP_forward (ptl_mlp self) [n, B, h] =
      Inr ([n, B, h], if cfg_add_bias_linear config then Some [h] else None)"
    using Idefics2ParallelMLP_forward_swiglu [OF I(2) [folded mlp_config_def] fields(3) act,
        of n B]
    by (simp add: fields)
  have r1: "residual_update self training True [n, B, h] bias [n, B, h] =
      (if 0 < drop_path_rate \<and> bias = None then Inl TypeError else Inr [n, B, h])"
    using residual_update_3d [OF bias [folded h_def], of self training True n B] I(8)
    by auto
  have r2: "residual_update self training False [n, B, h]
        (if cfg_add_bias_linear config then Some [h] else None) [n, B, h] = Inr [n, B, h]"
    by (simp add: residual_update_3d [where w = h])
  show ?thesis
    unfolding ParallelTransformerLayer_forward_def h_def [symmetric] Let_def
    using attn [folded h_def]
    by (simp add: I(3,4,5,6,7) h_def [symmetric] norm_forward_3d r1 mlp r2)
qed

subsection \<open>Idefics2PerceiverParallelTransformer\<close>

lemma run_layers_Single:
  assumes idx: "\<forall>i \<in> set indices. i < length (pt_layers self)"
    and layers: "\<forall>l \<in> set (pt_layers self). \<exists>layer. l = TransformerLayer layer \<and>
       ParallelTransformerLayer_forward layer (pt_training self) meta x context attention_mask
         retriever_output None = Inr (Single x, None)"
    and impl: "pt_transformer_impl self \<noteq> ''transformer_engine''"
  shows "run_layers self meta indices (Single x) context attention_mask retriever_output None =
     Inr (Single x, None)"
  using idx
proof (induction indices)
  case Nil
  show ?case by simp
next
  case (Cons i rest)
  from Cons.prems have i: "i < length (pt_layers self)"
    by simp
  with layers obtain layer where layer: "pt_layers self ! i = TransformerLayer layer"
    "ParallelTransformerLayer_forward layer (pt_training self) meta x context attention_mask
       retriever_output None = Inr (Single x, None)"
    using nth_mem by blast
  have call: "call_layer self meta (pt_layers self ! i) (Single x) context attention_mask
      retriever_output None = Inr (Single x, None)"
    using impl layer by (simp add: call_layer_def)
  from Cons show ?case
    by (simp add: get_layer_def i call)
qed

lemma uniform_loop_Single:
  assumes k: "0 < k" "k dvd pt_num_layers self" "pt_num_layers self = length (pt_layers self)"
    and layers: "\<forall>l \<in> set (pt_layers self). \<exists>layer. l = TransformerLayer layer \<and>
       ParallelTransformerLayer_forward layer (pt_training self) meta x context attention_mask
         None None = Inr (Single x, None)"
    and impl: "pt_transformer_impl self \<noteq> ''transformer_engine''"
  shows "k dvd l \<Longrightarrow>
     uniform_loop self e meta k l (Single x) context attention_mask = Inr (Single x)"
proof (induction "pt_num_layers self - l" arbitrary: l rule: less_induct)
  case less
  show ?case
  proof (cases "l < pt_num_layers self")
    case False
    then show ?thesis
      using k(1) by (simp add: uniform_loop.simps)
  next
    case True
    from less.prems k(2) True have le: "l + k \<le> pt_num_layers self"
      by (metis dvd_diff_nat dvd_imp_le le_add_diff_inverse less_imp_le_nat
          less_or_eq_imp_le nat_add_left_cancel_le zero_less_diff)
    have run: "run_layers self meta [l..<l + k] (Single x) context attention_mask None None =
        Inr (Single x, None)"
      using le k(3) by (intro run_layers_Single layers impl) simp
    have next_loop: "uniform_loop self e meta k (l + k) (Single x) context attention_mask =
        Inr (Single x)"
      using less.prems k(1) True by (intro less.hyps) auto
    show ?thesis
      using k(1) True impl
      by (subst uniform_loop.simps) (simp add: run nan_check_def next_loop)
  qed
qed

lemma block_loop_Single:
  assumes idx: "\<forall>i \<in> set indices. i < length (pt_layers self)"
    and k: "pt_recompute_num_layers self = Some k"
    and layers: "\<forall>l \<in> set (pt_layers self). \<exists>layer. l = TransformerLayer layer \<and>
       ParallelTransformerLayer_forward layer (pt_training self) meta x context attention_mask
         None None = Inr (Single x, None)"
    and impl: "pt_transformer_impl self \<noteq> ''transformer_engine''"
  shows "block_loop self meta indices (Single x) context attention_mask = Inr (Single x)"
  using idx
proof (induction indices)
  case Nil
  show ?case by simp
next
  case (Cons i rest)
  have run: "run_layers self meta [i..<Suc i] (Single x) context attention_mask None None =
      Inr (Single x, None)"
    using Cons.prems by (intro run_layers_Single layers impl) simp
  from Cons show ?case
    by (simp add: k run del: upt_Suc)
qed

lemma ParallelAttention_forward_3d:
  assumes init: "ParallelAttention_init config args world_size layer_number attention_type
                   attn_mask_type = Inr self"
    and pos: "0 < n" "0 < B"
    and rows: "length rows = B" "list_all (\<lambda>row. length row = L) rows"
    and flash: "arg_use_flash_attn args \<longrightarrow> am_dtype meta \<in> {float16, bfloat16} \<and> am_is_cuda meta"
  shows "ParallelAttention_forward self training meta [n, B, cfg_text_hidden_size config]
           [L, B, cfg_text_hidden_size config]
           (Some (if \<not> arg_use_flash_attn args then AdditiveMask [B, 1, n, L + n]
                  else PaddingMask (map (\<lambda>row. row @ replicate n True) rows))) None =
     Inr (([n, B, cfg_text_hidden_size config],
           if arg_add_bias_linear args then Some [cfg_text_hidden_size config] else None),
          None)"
proof (cases "arg_use_flash_attn args")
  case False
  then show ?thesis
    using ParallelAttention_forward_dense [OF init False pos, of training meta L
        "[B, 1, n, L + n]"]
    by simp
next
  case True
  with flash have half: "am_dtype meta \<in> {float16, bfloat16}" and cuda: "am_is_cuda meta"
    by simp_all
  have rows4: "list_all (\<lambda>row. length row = L + n) (map (\<lambda>row. row @ replicate n True) rows)"
    using rows(2) by (simp add: list_all_iff)
  show ?thesis
    using ParallelAttention_forward_flash [OF init True half cuda pos _ rows4] rows(1) True
    by simp
qed

lemma prepare_4d_attention_mask_rows:
  assumes "0 < length rows" "list_all (\<lambda>row. length row = L) rows"
  shows "prepare_4d_attention_mask (map (\<lambda>row. row @ replicate n True) rows) tgt_len =
     AdditiveMask [length rows, 1, tgt_len, L + n]"
  using assms by (cases rows) (simp_all add: prepare_4d_attention_mask_def)

lemma forward_prepare_shapes:
  assumes proj: "Idefics2ParallelMLP_init
                   (config\<lparr>cfg_input_size := cfg_vision_hidden_size config,
                           cfg_ffn_hidden_size := cfg_intermediate_size config,
                           cfg_output_size := cfg_text_hidden_size config,
                           cfg_gated_linear_unit := True\<rparr>) args world_size =
                 Inr (pt_modality_projection self)"
    and act: "\<not> arg_openai_gelu args" "\<not> arg_onnx_safe args" "arg_swiglu args"
    and latents: "pt_latents self = [n, cfg_text_hidden_size config]" "pt_n_latents self = n"
    and args: "pt_args self = args"
    and input: "(if pt_pre_process self then Some hidden_states else pt_input_tensor self) =
                  Some [B, L, cfg_vision_hidden_size config]"
    and env: "0 < env_num_microbatches e"
    and rows: "0 < B" "length rows = B" "list_all (\<lambda>row. length row = L) rows"
  shows "forward_prepare self e hidden_states rows None =
     Inr ([B, L, cfg_vision_hidden_size config],
          [n, B, cfg_text_hidden_size config],
          [L, B, cfg_text_hidden_size config],
          (if \<not> arg_use_flash_attn args then AdditiveMask [B, 1, n, L + n]
           else PaddingMask (map (\<lambda>row. row @ replicate n True) rows)),
          (if pt_num_microbatches_in_previous_step self \<noteq> int (env_num_microbatches e)
           then self\<lparr>pt_microbatch_count := 0\<rparr> else self)
            \<lparr>pt_num_microbatches_in_previous_step := int (env_num_microbatches e)\<rparr>)"
proof -
  define h where "h = cfg_text_hidden_size config"
  define V where "V = cfg_vision_hidden_size config"
  define proj_config where "proj_config = config
     \<lparr>cfg_input_size := cfg_vision_hidden_size config,
      cfg_ffn_hidden_size := cfg_intermediate_size config,
      cfg_output_size := cfg_text_hidden_size config,
      cfg_gated_linear_unit := True\<rparr>"
  have fields: "cfg_input_size proj_config = V" "cfg_output_size proj_config = h"
    "cfg_gated_linear_unit proj_config"
    by (simp_all add: proj_config_def h_def V_def)
  have mlp: "Idefics2ParallelMLP_forward (pt_modality_projection self) [B, L, V] =
      Inr ([B, L, h], if cfg_add_bias_linear proj_config then Some [h] else None)"
    using Idefics2ParallelMLP_forward_swiglu [OF proj [folded proj_config_def] fields(3) act,
        of B L]
    by (simp add: fields)
  have tensor: "(if \<not> pt_pre_process self
                 then (case pt_input_tensor self of None \<Rightarrow> Inl AttributeError
                       | Some t \<Rightarrow> Inr t)
                 else Inr hidden_states) = Inr [B, L, V]"
    using input by (auto simp: V_def split: if_splits)
  have mask: "prepare_4d_attention_mask (map (\<lambda>row. row @ replicate n True) rows) n =
      AdditiveMask [B, 1, n, L + n]"
    using prepare_4d_attention_mask_rows [of rows L n n] rows by simp
  show ?thesis
    unfolding forward_prepare_def h_def [symmetric] V_def [symmetric]
    using env
    by (simp add: tensor mlp size_at_def latents args mask transpose_1_0_def Let_def
        h_def [symmetric])
qed


text \<open>
  C1. The output length of the resampler is the latent count \<open>n\<close>, whatever the context
  length \<open>L\<close>. The module is one whose layers and modality projection are those the
  constructors build with the local implementation and the swiglu activation; the
  input is \<open>[B, L, vision_hidden_size]\<close> with a 2-D mask of \<open>B\<close> rows of length \<open>L\<close>, on the
  dense or on the flash path, without recomputation or with one of its two methods.
  Then every layer's \<^verbatim>\<open>ParallelAttention.forward\<close> maps latents
  \<open>[n, B, text_hidden_size]\<close> and a context \<open>[L, B, text_hidden_size]\<close> to an output
  \<open>[n, B, text_hidden_size]\<close>, and the top-level forward returns a tensor
  \<open>[n, B, text_hidden_size]\<close> under \<^verbatim>\<open>post_process and post_norm\<close>. Without one of
  the two flags the layers run all the same, and the value returned is the input
  \<^verbatim>\<open>hidden_states\<close>, of shape \<open>[B, L, vision_hidden_size]\<close>: line 1721 is the only
  assignment of the layers' result to the variable that line 1723 returns.
\<close>

theorem Idefics2PerceiverParallelTransformer_forward_shape:
  assumes layers: "\<forall>l \<in> set (pt_layers self).
        \<exists>layer layer_number layer_type mask_type rate.
          l = TransformerLayer layer \<and>
          ParallelTransformerLayer_init config args world_size get_retro_args_imported
            layer_number layer_type
            mask_type rate = Inr layer \<and>
          (0 < rate \<longrightarrow> arg_add_bias_linear args)"
    and num: "pt_num_layers self = length (pt_layers self)"
    and proj: "Idefics2ParallelMLP_init
                 (config\<lparr>cfg_input_size := cfg_vision_hidden_size config,
                         cfg_ffn_hidden_size := cfg_intermediate_size config,
                         cfg_output_size := cfg_text_hidden_size config,
                         cfg_gated_linear_unit := True\<rparr>) args world_size =
               Inr (pt_modality_projection self)"
    and act: "\<not> arg_openai_gelu args" "\<not> arg_onnx_safe args" "arg_swiglu args"
    and latents: "pt_latents self = [n, cfg_text_hidden_size config]" "pt_n_latents self = n"
    and args: "pt_args self = args"
    and impl: "pt_transformer_impl self \<noteq> ''transformer_engine''"
    and recompute: "pt_recompute_granularity self = Some ''full'' \<longrightarrow>
        (pt_recompute_method self = Some ''uniform'' \<and>
           (\<exists>k. pt_recompute_num_layers self = Some k \<and> 0 < k \<and> k dvd pt_num_layers self))
        \<or> (pt_recompute_method self = Some ''block'' \<and> pt_recompute_num_layers self \<noteq> None)"
    and norm: "pt_post_process self \<and> pt_post_norm self \<longrightarrow>
        pt_final_norm self = Some (cfg_text_hidden_size config)"
    and input: "(if pt_pre_process self then Some hidden_states else pt_input_tensor self) =
                  Some [B, L, cfg_vision_hidden_size config]"
    and env: "0 < env_num_microbatches e"
    and rows: "0 < B" "length rows = B" "list_all (\<lambda>row. length row = L) rows"
    and n: "0 < n"
    and flash: "arg_use_flash_attn args \<longrightarrow> am_dtype meta \<in> {float16, bfloat16} \<and> am_is_cuda meta"
  shows "(\<forall>l \<in> set (pt_layers self). \<exists>layer. l = TransformerLayer layer \<and>
            ParallelAttention_forward (ptl_self_attention layer) (pt_training self) meta
              [n, B, cfg_text_hidden_size config] [L, B, cfg_text_hidden_size config]
              (Some (if \<not> arg_use_flash_attn args then AdditiveMask [B, 1, n, L + n]
                     else PaddingMask (map (\<lambda>row. row @ replicate n True) rows))) None =
            Inr (([n, B, cfg_text_hidden_size config],
                  if arg_add_bias_linear args then Some [cfg_text_hidden_size config] else None),
                 None))
       \<and> (\<exists>self'. Idefics2PerceiverParallelTransformer_forward self e meta hidden_states rows
                    retriever_output None =
             Some (Inr (if pt_post_process self \<and> pt_post_norm self
                        then [n, B, cfg_text_hidden_size config]
                        else [B, L, cfg_vision_hidden_size config], self')))"
proof -
  define h where "h = cfg_text_hidden_size config"
  define V where "V = cfg_vision_hidden_size config"
  define mask4 where "mask4 =
     (if \<not> arg_use_flash_attn args then AdditiveMask [B, 1, n, L + n]
      else PaddingMask (map (\<lambda>row. row @ replicate n True) rows))"
  define self1 where "self1 =
     (if pt_num_microbatches_in_previous_step self \<noteq> int (env_num_microbatches e)
      then self\<lparr>pt_microbatch_count := 0\<rparr> else self)
       \<lparr>pt_num_microbatches_in_previous_step := int (env_num_microbatches e)\<rparr>"
  have same: "pt_layers self1 = pt_layers self" "pt_num_layers self1 = pt_num_layers self"
    "pt_training self1 = pt_training self" "pt_transformer_impl self1 = pt_transformer_impl self"
    "pt_recompute_granularity self1 = pt_recompute_granularity self"
    "pt_recompute_method self1 = pt_recompute_method self"
    "pt_recompute_num_layers self1 = pt_recompute_num_layers self"
    "pt_post_process self1 = pt_post_process self" "pt_post_norm self1 = pt_post_norm self"
    "pt_final_norm self1 = pt_final_norm self"
    by (simp_all add: self1_def)
  have prep: "forward_prepare self e hidden_states rows None =
      Inr ([B, L, V], [n, B, h], [L, B, h], mask4, self1)"
    unfolding h_def V_def mask4_def self1_def
    by (rule forward_prepare_shapes [OF proj act latents args input env rows])
  have attention: "\<forall>l \<in> set (pt_layers self). \<exists>layer. l = TransformerLayer layer \<and>
       ParallelAttention_forward (ptl_self_attention layer) (pt_training self) meta
         [n, B, cfg_text_hidden_size config] [L, B, cfg_text_hidden_size config]
         (Some (if \<not> arg_use_flash_attn args then AdditiveMask [B, 1, n, L + n]
                else PaddingMask (map (\<lambda>row. row @ replicate n True) rows))) None =
       Inr (([n, B, cfg_text_hidden_size config],
             if arg_add_bias_linear args then Some [cfg_text_hidden_size config] else None),
            None)"
  proof
    fix l
    assume "l \<in> set (pt_layers self)"
    with layers obtain layer layer_number layer_type mask_type rate where
      l: "l = TransformerLayer layer"
      and init: "ParallelTransformerLayer_init config args world_size get_retro_args_imported
            layer_number layer_type
                   mask_type rate = Inr layer"
      by metis
    from l ParallelAttention_forward_3d [OF ParallelTransformerLayer_init_Inr(1) [OF init] n rows
        flash]
    show "\<exists>layer. l = TransformerLayer layer \<and>
       ParallelAttention_forward (ptl_self_attention layer) (pt_training self) meta
         [n, B, cfg_text_hidden_size config] [L, B, cfg_text_hidden_size config]
         (Some (if \<not> arg_use_flash_attn args then AdditiveMask [B, 1, n, L + n]
                else PaddingMask (map (\<lambda>row. row @ replicate n True) rows))) None =
       Inr (([n, B, cfg_text_hidden_size config],
             if arg_add_bias_linear args then Some [cfg_text_hidden_size config] else None),
            None)"
      by blast
  qed
  have layer: "\<forall>l \<in> set (pt_layers self1). \<exists>layer. l = TransformerLayer layer \<and>
       ParallelTransformerLayer_forward layer (pt_training self1) meta [n, B, h] [L, B, h]
         (Some mask4) ro None = Inr (Single [n, B, h], None)" for ro
  proof
    fix l
    assume "l \<in> set (pt_layers self1)"
    with layers same(1) obtain layer layer_number layer_type mask_type rate where
      l: "l = TransformerLayer layer"
      and init: "ParallelTransformerLayer_init config args world_size get_retro_args_imported
            layer_number layer_type
                   mask_type rate = Inr layer"
      and rate: "0 < rate \<longrightarrow> arg_add_bias_linear args"
      by metis
    note A = ParallelTransformerLayer_init_Inr(1) [OF init]
    have attn: "ParallelAttention_forward (ptl_self_attention layer) (pt_training self1) meta
          [n, B, h] [L, B, h] (Some mask4) None =
        Inr (([n, B, h], if arg_add_bias_linear args then Some [h] else None), None)"
      unfolding mask4_def h_def
      by (rule ParallelAttention_forward_3d [OF A n rows flash])
    have "ParallelTransformerLayer_forward layer (pt_training self1) meta [n, B, h] [L, B, h]
        (Some mask4) ro None = Inr (Single [n, B, h], None)"
      using ParallelTransformerLayer_forward_3d [OF init act attn [unfolded h_def], of ro] rate
      by (simp add: h_def)
    with l show "\<exists>layer. l = TransformerLayer layer \<and>
       ParallelTransformerLayer_forward layer (pt_training self1) meta [n, B, h] [L, B, h]
         (Some mask4) ro None = Inr (Single [n, B, h], None)"
      by blast
  qed
  have impl1: "pt_transformer_impl self1 \<noteq> ''transformer_engine''"
    using impl by (simp add: same)
  have plain: "run_layers self1 meta [0..<pt_num_layers self1] (Single [n, B, h]) [L, B, h]
      (Some mask4) retriever_output None = Inr (Single [n, B, h], None)"
    by (intro run_layers_Single layer impl1) (simp add: same num)
  have full: "checkpointed_forward self1 e meta (Single [n, B, h]) [L, B, h] (Some mask4) =
      Some (Inr (Single [n, B, h]))" if "pt_recompute_granularity self = Some ''full''"
  proof -
    from recompute that consider
      (uniform) k where "pt_recompute_method self = Some ''uniform''"
        "pt_recompute_num_layers self = Some k" "0 < k" "k dvd pt_num_layers self"
      | (block) k where "pt_recompute_method self = Some ''block''"
        "pt_recompute_num_layers self = Some k"
      by auto
    then show ?thesis
    proof cases
      case uniform
      have "uniform_loop self1 e meta k 0 (Single [n, B, h]) [L, B, h] (Some mask4) =
          Inr (Single [n, B, h])"
        using uniform(3,4) num
        by (intro uniform_loop_Single layer impl1) (simp_all add: same)
      with uniform show ?thesis
        by (simp add: checkpointed_forward_def same)
    next
      case block
      have "block_loop self1 meta [0..<pt_num_layers self1] (Single [n, B, h]) [L, B, h]
          (Some mask4) = Inr (Single [n, B, h])"
        using block(2) num
        by (intro block_loop_Single [where k = k] layer impl1) (simp_all add: same)
      with block show ?thesis
        by (simp add: checkpointed_forward_def same)
    qed
  qed
  have stack: "(if pt_recompute_granularity self1 = Some ''full''
                then checkpointed_forward self1 e meta (Single [n, B, h]) [L, B, h] (Some mask4)
                else Some (ebind (run_layers self1 meta [0..<pt_num_layers self1]
                                    (Single [n, B, h]) [L, B, h] (Some mask4) retriever_output None)
                             (\<lambda>(x, _). Inr x))) = Some (Inr (Single [n, B, h]))"
    using full by (simp add: same plain [unfolded same])
  have top: "\<exists>self'. Idefics2PerceiverParallelTransformer_forward self e meta hidden_states
        rows retriever_output None =
      Some (Inr (if pt_post_process self \<and> pt_post_norm self
                 then [n, B, cfg_text_hidden_size config]
                 else [B, L, cfg_vision_hidden_size config], self'))"
    unfolding Idefics2PerceiverParallelTransformer_forward_def prep sum.case prod.case stack
      option.case
    using norm
    by (auto simp: same norm_forward_3d h_def V_def Let_def)
  from attention top show ?thesis
    by (rule conjI)
qed

lemma example_attention_init:
  "0 < k \<Longrightarrow> ParallelAttention_init example_config example_args 2 k AttnType_cross_attn
     AttnMaskType_padding =
   Inr (example_attention
     \<lparr>pa_layer_number := k,
      pa_core_attention := (pa_core_attention example_attention)\<lparr>ca_layer_number := k\<rparr>\<rparr>)"
  by (simp add: ParallelAttention_init_def ColumnParallelLinear_init_def
      RowParallelLinear_init_def CoreAttention_init_def utils_divide_def Let_def
      example_config_fields example_args_fields example_attention_def max_def)

lemma example_layer_mlp_init:
  "Idefics2ParallelMLP_init
     (example_config\<lparr>cfg_input_size := 256, cfg_ffn_hidden_size := 1024,
        cfg_output_size := 256, cfg_gated_linear_unit := True\<rparr>) example_args 2 =
   Inr (ptl_mlp (example_layer k))"
  by (simp add: Idefics2ParallelMLP_init_def ColumnParallelLinear_init_def
      RowParallelLinear_init_def utils_divide_def Let_def
      example_config_fields example_args_fields example_layer_def)

lemma example_layer_init:
  "0 < k \<Longrightarrow> ParallelTransformerLayer_init example_config example_args 2 False k LayerType_encoder
     AttnMaskType_padding 0 = Inr (example_layer k)"
  by (simp add: ParallelTransformerLayer_init_def example_attention_init
      example_config_fields example_args_fields example_layer_mlp_init [of k]
      example_layer_def)

lemma example_projection_init:
  "Idefics2ParallelMLP_init
     (example_config\<lparr>cfg_input_size := cfg_vision_hidden_size example_config,
        cfg_ffn_hidden_size := cfg_intermediate_size example_config,
        cfg_output_size := cfg_text_hidden_size example_config,
        cfg_gated_linear_unit := True\<rparr>) example_args 2 =
   Inr (pt_modality_projection example_transformer)"
  by (simp add: Idefics2ParallelMLP_init_def ColumnParallelLinear_init_def
      RowParallelLinear_init_def utils_divide_def Let_def
      example_config_fields example_args_fields example_transformer_def)

lemma example_transformer_fields:
  "pt_args example_transformer = example_args"
  "pt_post_norm example_transformer = True"
  "pt_pre_process example_transformer = True"
  "pt_post_process example_transformer = True"
  "pt_transformer_impl example_transformer = ''local''"
  "pt_recompute_granularity example_transformer = None"
  "pt_num_layers example_transformer = 2"
  "pt_n_latents example_transformer = 64"
  "pt_latents example_transformer = [64, 256]"
  "pt_layers example_transformer =
     [TransformerLayer (example_layer 1), TransformerLayer (example_layer 2)]"
  "pt_final_norm example_transformer = Some 256"
  by (simp_all add: example_transformer_def)

lemma example_layers_built:
  "\<forall>l \<in> set [TransformerLayer (example_layer 1), TransformerLayer (example_layer 2)].
     \<exists>layer layer_number layer_type mask_type rate.
       l = TransformerLayer layer \<and>
       ParallelTransformerLayer_init example_config example_args 2 False layer_number
           layer_type
         mask_type rate = Inr layer \<and>
       (0 < rate \<longrightarrow> arg_add_bias_linear example_args)"
proof -
  have "\<exists>layer layer_number layer_type mask_type rate.
       TransformerLayer (example_layer k) = TransformerLayer layer \<and>
       ParallelTransformerLayer_init example_config example_args 2 False layer_number
           layer_type
         mask_type rate = Inr layer \<and>
       (0 < rate \<longrightarrow> arg_add_bias_linear example_args)" if "0 < k" for k
    using example_layer_init [OF that]
    by (intro exI [of _ "example_layer k"] exI [of _ k] exI [of _ LayerType_encoder]
        exI [of _ AttnMaskType_padding] exI [of _ "0::real"]) simp
  from this [of 1] this [of 2] show ?thesis
    by simp
qed

text \<open>
  The example resampler (64 latents of width 256) on a batch of 3 sequences of 50
  vision features, 10 of them padding: the first layer's attention returns
  \<open>[64, 3, 256]\<close> and so does the forward; built with \<^verbatim>\<open>post_norm=False\<close>, the same
  call returns the input shape \<open>[3, 50, 128]\<close>.
\<close>

theorem Idefics2PerceiverParallelTransformer_forward_shape_witness:
  "ParallelAttention_forward (ptl_self_attention (example_layer 1)) True
       \<lparr>am_dtype = bfloat16, am_is_cuda = True\<rparr> [64, 3, 256] [50, 3, 256]
       (Some (AdditiveMask [3, 1, 64, 114])) None = Inr (([64, 3, 256], None), None)
   \<and> (\<exists>self'. Idefics2PerceiverParallelTransformer_forward example_transformer example_env
       \<lparr>am_dtype = bfloat16, am_is_cuda = True\<rparr> [3, 50, 128]
       (replicate 3 (replicate 40 True @ replicate 10 False)) None None =
     Some (Inr ([64, 3, 256], self')))
   \<and> (\<exists>self'. Idefics2PerceiverParallelTransformer_forward
       (example_transformer\<lparr>pt_post_norm := False, pt_final_norm := None\<rparr>) example_env
       \<lparr>am_dtype = bfloat16, am_is_cuda = True\<rparr> [3, 50, 128]
       (replicate 3 (replicate 40 True @ replicate 10 False)) None None =
     Some (Inr ([3, 50, 128], self')))"
proof -
  define meta where "meta = \<lparr>am_dtype = bfloat16, am_is_cuda = True\<rparr>"
  define rows where "rows = replicate 3 (replicate 40 True @ replicate 10 False)"
  define bad where "bad = example_transformer\<lparr>pt_post_norm := False, pt_final_norm := None\<rparr>"
  have rows: "length rows = 3" "list_all (\<lambda>row. length row = 50) rows"
    by (simp_all add: rows_def list_all_iff)
  have bad_fields:
    "pt_args bad = example_args" "pt_post_norm bad = False" "pt_pre_process bad = True"
    "pt_post_process bad = True" "pt_transformer_impl bad = ''local''"
    "pt_recompute_granularity bad = None" "pt_num_layers bad = 2" "pt_n_latents bad = 64"
    "pt_latents bad = [64, 256]"
    "pt_layers bad = [TransformerLayer (example_layer 1), TransformerLayer (example_layer 2)]"
    "pt_final_norm bad = None"
    "pt_modality_projection bad = pt_modality_projection example_transformer"
    by (simp_all add: bad_def example_transformer_fields)
  have built:
    "\<forall>l \<in> set (pt_layers example_transformer).
       \<exists>layer layer_number layer_type mask_type rate.
         l = TransformerLayer layer \<and>
         ParallelTransformerLayer_init example_config example_args 2 False layer_number
           layer_type
           mask_type rate = Inr layer \<and>
         (0 < rate \<longrightarrow> arg_add_bias_linear example_args)"
    "\<forall>l \<in> set (pt_layers bad).
       \<exists>layer layer_number layer_type mask_type rate.
         l = TransformerLayer layer \<and>
         ParallelTransformerLayer_init example_config example_args 2 False layer_number
           layer_type
           mask_type rate = Inr layer \<and>
         (0 < rate \<longrightarrow> arg_add_bias_linear example_args)"
    unfolding bad_fields(10) example_transformer_fields(10)
    by (rule example_layers_built)+
  have proj_bad: "Idefics2ParallelMLP_init
     (example_config\<lparr>cfg_input_size := cfg_vision_hidden_size example_config,
        cfg_ffn_hidden_size := cfg_intermediate_size example_config,
        cfg_output_size := cfg_text_hidden_size example_config,
        cfg_gated_linear_unit := True\<rparr>) example_args 2 =
      Inr (pt_modality_projection bad)"
    unfolding bad_fields(12) by (rule example_projection_init)
  note T = Idefics2PerceiverParallelTransformer_forward_shape
    [where config = example_config and args = example_args and world_size = 2
       and get_retro_args_imported = False and n = 64
       and B = 3 and L = 50 and e = example_env and meta = meta
       and hidden_states = "[3, 50, 128]" and rows = rows and retriever_output = None]
  note good = T [where self = example_transformer, OF built(1) _ example_projection_init]
  note slip = T [where self = bad, OF built(2) _ proj_bad]
  have prems: "\<not> arg_openai_gelu example_args" "\<not> arg_onnx_safe example_args"
    "arg_swiglu example_args" "0 < env_num_microbatches example_env" "0 < (3::nat)"
    "0 < (64::nat)"
    "arg_use_flash_attn example_args \<longrightarrow> am_dtype meta \<in> {float16, bfloat16} \<and> am_is_cuda meta"
    by (simp_all add: example_args_fields example_env_def)
  have good_prems:
    "pt_num_layers example_transformer = length (pt_layers example_transformer)"
    "pt_latents example_transformer = [64, cfg_text_hidden_size example_config]"
    "pt_n_latents example_transformer = 64" "pt_args example_transformer = example_args"
    "pt_transformer_impl example_transformer \<noteq> ''transformer_engine''"
    "pt_recompute_granularity example_transformer = Some ''full'' \<longrightarrow>
        (pt_recompute_method example_transformer = Some ''uniform'' \<and>
           (\<exists>k. pt_recompute_num_layers example_transformer = Some k \<and> 0 < k
                \<and> k dvd pt_num_layers example_transformer))
        \<or> (pt_recompute_method example_transformer = Some ''block''
             \<and> pt_recompute_num_layers example_transformer \<noteq> None)"
    "pt_post_process example_transformer \<and> pt_post_norm example_transformer \<longrightarrow>
        pt_final_norm example_transformer = Some (cfg_text_hidden_size example_config)"
    "(if pt_pre_process example_transformer then Some [3, 50, 128]
      else pt_input_tensor example_transformer) =
       Some [3, 50, cfg_vision_hidden_size example_config]"
    by (simp_all add: example_transformer_fields example_config_fields)
  have bad_prems:
    "pt_num_layers bad = length (pt_layers bad)"
    "pt_latents bad = [64, cfg_text_hidden_size example_config]"
    "pt_n_latents bad = 64" "pt_args bad = example_args"
    "pt_transformer_impl bad \<noteq> ''transformer_engine''"
    "pt_recompute_granularity bad = Some ''full'' \<longrightarrow>
        (pt_recompute_method bad = Some ''uniform'' \<and>
           (\<exists>k. pt_recompute_num_layers bad = Some k \<and> 0 < k \<and> k dvd pt_num_layers bad))
        \<or> (pt_recompute_method bad = Some ''block'' \<and> pt_recompute_num_layers bad \<noteq> None)"
    "pt_post_process bad \<and> pt_post_norm bad \<longrightarrow>
        pt_final_norm bad = Some (cfg_text_hidden_size example_config)"
    "(if pt_pre_process bad then Some [3, 50, 128] else pt_input_tensor bad) =
       Some [3, 50, cfg_vision_hidden_size example_config]"
    by (simp_all add: bad_fields example_config_fields)
  note G = good [OF good_prems(1) prems(1,2,3) good_prems(2,3,4,5,6,7,8) prems(4,5) rows
      prems(6,7)]
  note S = slip [OF bad_prems(1) prems(1,2,3) bad_prems(2,3,4,5,6,7,8) prems(4,5) rows
      prems(6,7)]
  have attention: "ParallelAttention_forward (ptl_self_attention (example_layer 1)) True meta
      [64, 3, 256] [50, 3, 256] (Some (AdditiveMask [3, 1, 64, 114])) None =
      Inr (([64, 3, 256], None), None)"
    using G [THEN conjunct1, THEN bspec, of "TransformerLayer (example_layer 1)"]
    by (simp add: example_transformer_fields example_config_fields example_args_fields
        example_transformer_def)
  from attention G [THEN conjunct2] S [THEN conjunct2] show ?thesis
    unfolding meta_def rows_def bad_def
    by (simp add: example_transformer_fields example_config_fields)
qed

subsection \<open>What a layer returns\<close>

lemma residual_update_layer_type:
  "residual_update (self\<lparr>ptl_layer_type := t\<rparr>) training bias_required x bias residual =
   residual_update self training bias_required x bias residual"
  by (simp add: residual_update_def)

lemma ParallelTransformerLayer_forward_layer_type:
  assumes "ParallelTransformerLayer_forward self training meta latents context attention_mask
             retriever_output inference_params = Inr (Single output, ip)"
  shows "ParallelTransformerLayer_forward
           (self\<lparr>ptl_layer_type := LayerType_retro_decoder_with_retriever\<rparr>) training meta
           latents context attention_mask retriever_output inference_params =
         Inr (Pair output retriever_output, ip)"
  using assms
  unfolding ParallelTransformerLayer_forward_def Let_def
  by (auto simp: ebind_eq_Inr residual_update_layer_type split: if_splits)

lemma ParallelTransformerLayer_forward_built:
  assumes init: "ParallelTransformerLayer_init config args world_size get_retro_args_imported
                   layer_number layer_type mask_type rate = Inr self"
    and act: "\<not> arg_openai_gelu args" "\<not> arg_onnx_safe args" "arg_swiglu args"
    and rate: "0 < rate \<longrightarrow> arg_add_bias_linear args"
    and pos: "0 < n" "0 < B"
    and rows: "length rows = B" "list_all (\<lambda>row. length row = L) rows"
    and flash: "arg_use_flash_attn args \<longrightarrow> am_dtype meta \<in> {float16, bfloat16} \<and> am_is_cuda meta"
  shows "ParallelTransformerLayer_forward self training meta
           [n, B, cfg_text_hidden_size config] [L, B, cfg_text_hidden_size config]
           (Some (if \<not> arg_use_flash_attn args then AdditiveMask [B, 1, n, L + n]
                  else PaddingMask (map (\<lambda>row. row @ replicate n True) rows)))
           retriever_output None =
         Inr (Single [n, B, cfg_text_hidden_size config], None)"
  using ParallelTransformerLayer_forward_3d [OF init act
      ParallelAttention_forward_3d [OF ParallelTransformerLayer_init_Inr(1) [OF init] pos rows
        flash], of training retriever_output] rate
  by simp

text \<open>
  C2, as the code has it. Whenever \<^verbatim>\<open>ParallelTransformerLayer.forward\<close> returns, it
  returns a pair exactly when the layer's \<^verbatim>\<open>layer_type\<close> is
  \<^verbatim>\<open>retro_decoder_with_retriever\<close>, and the second component is then the
  \<^verbatim>\<open>retriever_output\<close> it was given; for every other layer type, the encoder type that
  is the constructor's default among them, it returns the output tensor alone (lines
  1140-1143).
\<close>

theorem ParallelTransformerLayer_forward_pair:
  assumes "ParallelTransformerLayer_forward self training meta latents context attention_mask
             retriever_output inference_params = Inr (result, ip)"
  shows "((\<exists>output r. result = Pair output r) \<longleftrightarrow>
            ptl_layer_type self = LayerType_retro_decoder_with_retriever)
       \<and> ((\<exists>output. result = Single output) \<longleftrightarrow>
            ptl_layer_type self \<noteq> LayerType_retro_decoder_with_retriever)
       \<and> (\<forall>output r. result = Pair output r \<longrightarrow> r = retriever_output)"
  using assms
  unfolding ParallelTransformerLayer_forward_def Let_def
  by (auto simp: ebind_eq_Inr split: if_splits)

lemma example_layer_forward:
  "ParallelTransformerLayer_forward (example_layer 1) True
     \<lparr>am_dtype = bfloat16, am_is_cuda = True\<rparr> [64, 3, 256] [50, 3, 256]
     (Some (AdditiveMask [3, 1, 64, 114])) retriever_output None =
   Inr (Single [64, 3, 256], None)"
proof -
  have init: "ParallelTransformerLayer_init example_config example_args 2 False 1
      LayerType_encoder AttnMaskType_padding 0 = Inr (example_layer 1)"
    by (rule example_layer_init) simp
  have rows: "length (replicate 3 (replicate 50 True)) = 3"
    "list_all (\<lambda>row. length row = 50) (replicate 3 (replicate 50 True))"
    by (simp_all add: list_all_iff)
  have prems: "\<not> arg_openai_gelu example_args" "\<not> arg_onnx_safe example_args"
    "arg_swiglu example_args" "(0::real) < 0 \<longrightarrow> arg_add_bias_linear example_args"
    "0 < (64::nat)" "0 < (3::nat)"
    "arg_use_flash_attn example_args \<longrightarrow>
       am_dtype \<lparr>am_dtype = bfloat16, am_is_cuda = True\<rparr> \<in> {float16, bfloat16}
       \<and> am_is_cuda \<lparr>am_dtype = bfloat16, am_is_cuda = True\<rparr>"
    by (simp_all add: example_args_fields)
  from ParallelTransformerLayer_forward_built [OF init prems(1,2,3,4,5,6) rows prems(7),
      of True retriever_output]
  show ?thesis
    by (simp add: example_config_fields example_args_fields)
qed

text \<open>
  The claim as stated fails for the basic layer type: the encoder layer that the
  constructor builds from the example configuration returns the tensor
  \<open>[64, 3, 256]\<close>, not a pair.
\<close>

theorem ParallelTransformerLayer_forward_encoder_counterexample:
  "ParallelTransformerLayer_init example_config example_args 2 False 1 LayerType_encoder
     AttnMaskType_padding 0 = Inr (example_layer 1)
   \<and> ptl_layer_type (example_layer 1) = LayerType_encoder
   \<and> ParallelTransformerLayer_forward (example_layer 1) True
        \<lparr>am_dtype = bfloat16, am_is_cuda = True\<rparr> [64, 3, 256] [50, 3, 256]
        (Some (AdditiveMask [3, 1, 64, 114])) None None =
      Inr (Single [64, 3, 256], None)"
  using example_layer_init [of 1] example_layer_forward [of None]
  by (simp add: example_layer_def)

text \<open>
  Both cases on the example layer. The constructor cannot build a layer of the type
  \<^verbatim>\<open>retro_decoder_with_retriever\<close> (line 827 raises), so that case is the example
  layer with its \<^verbatim>\<open>layer_type\<close> attribute set to it.
\<close>

theorem ParallelTransformerLayer_forward_pair_witness:
  "ParallelTransformerLayer_forward
     ((example_layer 1)\<lparr>ptl_layer_type := LayerType_retro_decoder_with_retriever\<rparr>) True
     \<lparr>am_dtype = bfloat16, am_is_cuda = True\<rparr> [64, 3, 256] [50, 3, 256]
     (Some (AdditiveMask [3, 1, 64, 114])) (Some [10, 6, 256]) None =
     Inr (Pair [64, 3, 256] (Some [10, 6, 256]), None)
   \<and> ptl_layer_type ((example_layer 1)\<lparr>ptl_layer_type := LayerType_retro_decoder_with_retriever\<rparr>)
       = LayerType_retro_decoder_with_retriever
   \<and> ParallelTransformerLayer_forward (example_layer 1) True
       \<lparr>am_dtype = bfloat16, am_is_cuda = True\<rparr> [64, 3, 256] [50, 3, 256]
       (Some (AdditiveMask [3, 1, 64, 114])) (Some [10, 6, 256]) None =
     Inr (Single [64, 3, 256], None)
   \<and> ptl_layer_type (example_layer 1) \<noteq> LayerType_retro_decoder_with_retriever"
proof -
  define meta where "meta = \<lparr>am_dtype = bfloat16, am_is_cuda = True\<rparr>"
  define retriever where
    "retriever = (example_layer 1)\<lparr>ptl_layer_type := LayerType_retro_decoder_with_retriever\<rparr>"
  have single: "ParallelTransformerLayer_forward (example_layer 1) True meta [64, 3, 256]
      [50, 3, 256] (Some (AdditiveMask [3, 1, 64, 114])) (Some [10, 6, 256]) None =
      Inr (Single [64, 3, 256], None)"
    unfolding meta_def by (rule example_layer_forward)
  have pair: "ParallelTransformerLayer_forward retriever True meta [64, 3, 256]
      [50, 3, 256] (Some (AdditiveMask [3, 1, 64, 114])) (Some [10, 6, 256]) None =
      Inr (Pair [64, 3, 256] (Some [10, 6, 256]), None)"
    unfolding retriever_def by (rule ParallelTransformerLayer_forward_layer_type [OF single])
  note P = ParallelTransformerLayer_forward_pair [OF pair]
  note S = ParallelTransformerLayer_forward_pair [OF single]
  have "ptl_layer_type retriever = LayerType_retro_decoder_with_retriever"
    using P [THEN conjunct1] by simp
  moreover have "ptl_layer_type (example_layer 1) \<noteq> LayerType_retro_decoder_with_retriever"
    using S [THEN conjunct2, THEN conjunct1] by simp
  ultimately show ?thesis
    using single pair unfolding meta_def retriever_def by blast
qed

end
